theory Spec2Isabelle
  imports Complex_Main
begin

section \<open>Values of the host language\<close>

text \<open>
  The dashboard receives parsed JSON from the backend and reads fields from it without
  any schema check, so the model keeps the values untyped: a JSON value, or
  \<open>undefined\<close> (what reading a missing field gives). Finite numbers are rationals;
  \<open>JNaN\<close> stands for the number that is not one.
\<close>

datatype jsval =
    JUndefined
  | JNull
  | JBool bool
  | JNum rat
  | JNaN
  | JStr string
  | JArr "jsval list"
  | JObj "(string \<times> jsval) list"

datatype error =
    TypeError
  | FetchFailed
  | SyntaxError
  | Error string

text \<open>The condition of an \<open>if\<close>, of \<open>? :\<close>, of \<open>!\<close> and of \<open>||\<close>.\<close>

fun truthy :: "jsval \<Rightarrow> bool" where
  "truthy JUndefined = False"
| "truthy JNull = False"
| "truthy (JBool b) = b"
| "truthy (JNum r) = (r \<noteq> 0)"
| "truthy JNaN = False"
| "truthy (JStr s) = (s \<noteq> [])"
| "truthy (JArr xs) = True"
| "truthy (JObj kvs) = True"

definition js_or :: "jsval \<Rightarrow> jsval \<Rightarrow> jsval" where
  "js_or a b = (if truthy a then a else b)"

text \<open>
  \<open>v.k\<close> for the field names this program reads (\<open>labels\<close>, \<open>data\<close>, \<open>is_fraud\<close>,
  \<open>transactions\<close>, ...), none of which is a built-in property of a string, a number, a
  boolean or an array: reading from \<open>null\<close> or \<open>undefined\<close> throws, reading from any
  other value that has no such field gives \<open>undefined\<close>. The last entry of a repeated
  key wins, as in \<open>JSON.parse\<close>.
\<close>

fun getprop :: "jsval \<Rightarrow> string \<Rightarrow> error + jsval" where
  "getprop JUndefined k = Inl TypeError"
| "getprop JNull k = Inl TypeError"
| "getprop (JObj kvs) k = Inr (case map_of (rev kvs) k of None \<Rightarrow> JUndefined | Some v \<Rightarrow> v)"
| "getprop v k = Inr JUndefined"

text \<open>\<open>v === 1\<close>.\<close>

definition is_one :: "jsval \<Rightarrow> bool" where
  "is_one v = (v = JNum 1)"

definition nullish :: "jsval \<Rightarrow> bool" where
  "nullish v = (v = JUndefined \<or> v = JNull)"

text \<open>
  Conversion to a string or a number, as a template, \<open>+\<close>, \<open>*\<close> and the assignment
  of \<open>textContent\<close> do it, throws for some values. A parsed object has no function among
  its own fields, so conversion fails for one that has its own \<open>toString\<close> (the
  inherited \<open>valueOf\<close> gives back the object); an array is joined from the conversions
  of its elements, with \<open>null\<close> and \<open>undefined\<close> left empty. \<open>printable v\<close> says that
  the conversion of \<open>v\<close> returns.
\<close>

fun printable :: "jsval \<Rightarrow> bool" where
  "printable (JObj kvs) = (map_of kvs ''toString'' = None)"
| "printable (JArr xs) = list_all (\<lambda>x. nullish x \<or> printable x) xs"
| "printable v = True"

text \<open>
  \<open>localizable v\<close>: \<open>v.toLocaleString()\<close> returns, for \<open>v\<close> that is not \<open>null\<close> or
  \<open>undefined\<close>. For an object the inherited method calls \<open>toString\<close>; an own field of
  either name is no function. For an array the method is called on each element.
\<close>

fun localizable :: "jsval \<Rightarrow> bool" where
  "localizable (JObj kvs) = (map_of kvs ''toLocaleString'' = None \<and> map_of kvs ''toString'' = None)"
| "localizable (JArr xs) = list_all (\<lambda>x. nullish x \<or> localizable x) xs"
| "localizable v = True"

text \<open>
  \<open>plain v\<close>: no object in \<open>v\<close> has a field of its own named \<open>toString\<close> or
  \<open>toLocaleString\<close>.
\<close>

fun plain :: "jsval \<Rightarrow> bool" where
  "plain (JObj kvs) =
     (map_of kvs ''toString'' = None \<and> map_of kvs ''toLocaleString'' = None
      \<and> list_all plain (map snd kvs))"
| "plain (JArr xs) = list_all plain xs"
| "plain v = True"

section \<open>Text and markup\<close>

text \<open>
  Strings built by the program are kept as lists of pieces: the literal parts of a
  template, and the places where a value is interpolated. Number formatting is done by
  the host and stays symbolic: \<open>Locale v\<close> is \<open>v.toLocaleString()\<close>, \<open>Pct n v\<close> is
  \<open>(v * 100).toFixed(n)\<close>, \<open>Count n\<close> is the number \<open>n\<close> as text, \<open>Msg e\<close> is
  \<open>e.message\<close> and \<open>Now\<close> is \<open>new Date().toLocaleString()\<close>. Values are interpolated
  unescaped. White space between the tags of a template is left out.
\<close>

datatype piece =
    Lit string
  | Val jsval
  | Locale jsval
  | Pct nat jsval
  | Count nat
  | Msg error
  | Now

type_synonym tstring = "piece list"

text \<open>
  The parts of a template: a literal part, \<open>${v}\<close> (also \<open>v + '...'\<close>),
  \<open>(v * 100).toFixed(n)\<close>, and a value assigned to \<open>textContent\<close>, for which \<open>null\<close>
  and \<open>undefined\<close> give the empty text. A template throws when one of its parts does.
\<close>

definition lit :: "string \<Rightarrow> error + piece" where
  "lit s = Inr (Lit s)"

definition toText :: "jsval \<Rightarrow> error + piece" where
  "toText v = (if printable v then Inr (Val v) else Inl TypeError)"

definition pct :: "nat \<Rightarrow> jsval \<Rightarrow> error + piece" where
  "pct n v = (if printable v then Inr (Pct n v) else Inl TypeError)"

definition domText :: "jsval \<Rightarrow> error + piece" where
  "domText v = (if nullish v then Inr (Lit []) else toText v)"

fun template :: "(error + piece) list \<Rightarrow> error + tstring" where
  "template [] = Inr []"
| "template (p # ps) =
     (case p of
        Inl e \<Rightarrow> Inl e
      | Inr x \<Rightarrow> (case template ps of Inl e \<Rightarrow> Inl e | Inr xs \<Rightarrow> Inr (x # xs)))"

text \<open>\<open>formatNumber(num)\<close>.\<close>

definition formatNumber :: "jsval \<Rightarrow> error + piece" where
  "formatNumber num =
     (if truthy num then (if localizable num then Inr (Locale num) else Inl TypeError)
      else Inr (Lit ''0''))"

datatype content = TextContent tstring | InnerHTML tstring

record element =
  content :: content
  classList :: "string list"
  inputValue :: string
  color :: string

definition classList_add :: "string \<Rightarrow> element \<Rightarrow> element" where
  "classList_add c e =
     (if c \<in> set (classList e) then e else e\<lparr>classList := classList e @ [c]\<rparr>)"

definition classList_remove :: "string \<Rightarrow> element \<Rightarrow> element" where
  "classList_remove c e = e\<lparr>classList := filter (\<lambda>x. x \<noteq> c) (classList e)\<rparr>"

section \<open>The page\<close>

text \<open>
  A chart widget of the charting library, as far as the program touches it: the canvas
  it was constructed on, \<open>config.type\<close>, \<open>data.labels\<close>, the \<open>data\<close> array of each
  entry of \<open>data.datasets\<close>, whether \<open>destroy()\<close> was called, how often \<open>update()\<close>
  has redrawn it, and whether its constructor threw. Labels and data are values taken
  from a payload as they are, except the labels of the time-analysis report,
  \<open>hourly_data.map(h => h.hour + ':00')\<close>, kept as the list of the \<open>h.hour\<close>.
\<close>

datatype chartdata = Raw jsval | Hours "jsval list"

record widget =
  canvas :: string
  kind :: string
  labels :: chartdata
  datasets :: "chartdata list"
  destroyed :: bool
  redraws :: nat
  failed :: bool

datatype pval = PStr string | PFloat string

record request =
  meth :: string
  url :: string
  body :: "(string \<times> pval) list option"

text \<open>
  What the backend answers to a request: the transport fails, or a response arrives
  with a status, a status text and a body that parses as JSON or does not.
\<close>

datatype outcome =
    Failed
  | Response nat string "jsval option"

type_synonym net = "request \<Rightarrow> outcome"

datatype event =
    ConsoleLog string
  | ConsoleWarn string
  | ConsoleError string error
  | Alert string

text \<open>
  Callbacks that run after the current function has returned: the \<open>then\<close>/\<open>catch\<close>
  chain of \<open>loadAlerts\<close> with the settled result of its fetch, and the timer that
  stops the spinning refresh icon.
\<close>

datatype task =
    AlertsSettled "error + jsval"
  | SpinStop

text \<open>
  The page. \<open>library\<close> is the charting library as the program meets it: whether it lays
  out and draws a chart with given labels and series, or throws. The program never
  changes it.
\<close>

record page =
  elems :: "string \<rightharpoonup> element"
  charts :: "string \<rightharpoonup> nat"
  reportChart :: "nat option"
  widgets :: "widget list"
  console :: "event list"
  requests :: "request list"
  pending :: "task list"
  library :: "chartdata \<Rightarrow> chartdata list \<Rightarrow> bool"

type_synonym 'a comp = "page \<Rightarrow> (error + 'a) \<times> page"

definition ret :: "'a \<Rightarrow> 'a comp" where
  "ret a s = (Inr a, s)"

definition throw :: "error \<Rightarrow> 'a comp" where
  "throw e s = (Inl e, s)"

definition bind :: "'a comp \<Rightarrow> ('a \<Rightarrow> 'b comp) \<Rightarrow> 'b comp" where
  "bind m f s = (case m s of (Inl e, s') \<Rightarrow> (Inl e, s') | (Inr a, s') \<Rightarrow> f a s')"

definition lift :: "error + 'a \<Rightarrow> 'a comp" where
  "lift r s = (r, s)"

text \<open>\<open>try { m } catch (e) { h e }\<close>.\<close>

definition catch :: "'a comp \<Rightarrow> (error \<Rightarrow> 'a comp) \<Rightarrow> 'a comp" where
  "catch m h s = (case m s of (Inl e, s') \<Rightarrow> h e s' | (Inr a, s') \<Rightarrow> (Inr a, s'))"

definition emit :: "event \<Rightarrow> page \<Rightarrow> page" where
  "emit ev s = s\<lparr>console := console s @ [ev]\<rparr>"

definition tell :: "event \<Rightarrow> unit comp" where
  "tell ev s = (Inr (), emit ev s)"

text \<open>
  A write to a property of \<open>document.getElementById(i)\<close>. Where the program does not
  check the element, a missing one makes the write throw (\<open>with_element\<close>); where it
  checks (\<open>if (el)\<close>, \<open>?.\<close>), a missing one is skipped (\<open>if_element\<close>).
\<close>

definition with_element :: "string \<Rightarrow> (element \<Rightarrow> element) \<Rightarrow> unit comp" where
  "with_element i f s =
     (case elems s i of
        None \<Rightarrow> (Inl TypeError, s)
      | Some e \<Rightarrow> (Inr (), s\<lparr>elems := (elems s)(i \<mapsto> f e)\<rparr>))"

definition if_element :: "string \<Rightarrow> (element \<Rightarrow> element) \<Rightarrow> page \<Rightarrow> page" where
  "if_element i f s =
     (case elems s i of
        None \<Rightarrow> s
      | Some e \<Rightarrow> s\<lparr>elems := (elems s)(i \<mapsto> f e)\<rparr>)"

definition set_textContent :: "string \<Rightarrow> tstring \<Rightarrow> unit comp" where
  "set_textContent i t = with_element i (\<lambda>e. e\<lparr>content := TextContent t\<rparr>)"

definition set_innerHTML :: "string \<Rightarrow> tstring \<Rightarrow> page \<Rightarrow> page" where
  "set_innerHTML i h = if_element i (\<lambda>e. e\<lparr>content := InnerHTML h\<rparr>)"

section \<open>Requests\<close>

text \<open>
  \<open>fetchAPI(url, method, data)\<close>. The request is issued when the function is called;
  it is recorded with the path it was given, without the fixed prefix \<open>API_BASE\<close>.
  \<open>res.ok\<close> is true for a status from 200 to 299; \<open>res.json()\<close> rejects when the body
  is not JSON.
\<close>

definition result_of :: "outcome \<Rightarrow> error + jsval" where
  "result_of oc =
     (case oc of
        Failed \<Rightarrow> Inl FetchFailed
      | Response st stText b \<Rightarrow>
          if \<not> (200 \<le> st \<and> st \<le> 299) then Inl (Error stText)
          else (case b of None \<Rightarrow> Inl SyntaxError | Some v \<Rightarrow> Inr v))"

definition fetchAPI :: "net \<Rightarrow> string \<Rightarrow> string \<Rightarrow> (string \<times> pval) list option \<Rightarrow> jsval comp" where
  "fetchAPI nt u m d s =
     (let rq = \<lparr>meth = m, url = u, body = d\<rparr>
      in (result_of (nt rq), s\<lparr>requests := requests s @ [rq]\<rparr>))"

definition thrown :: "(error + 'a) \<times> page \<Rightarrow> bool" where
  "thrown r = (case fst r of Inl e \<Rightarrow> True | Inr a \<Rightarrow> False)"

definition non2xx :: "outcome \<Rightarrow> bool" where
  "non2xx oc = (case oc of Failed \<Rightarrow> False | Response st stText b \<Rightarrow> \<not> (200 \<le> st \<and> st \<le> 299))"

definition unparsable :: "outcome \<Rightarrow> bool" where
  "unparsable oc =
     (case oc of Failed \<Rightarrow> False
      | Response st stText b \<Rightarrow> 200 \<le> st \<and> st \<le> 299 \<and> b = None)"

section \<open>The chart registry\<close>

text \<open>
  \<open>new Chart(ctx, config)\<close> registers a widget with the library and draws it. When the
  library throws while drawing, the constructor throws and the widget stays registered,
  not destroyed, with no reference to it returned. Otherwise a reference is returned
  (the index of the widget in \<open>widgets\<close>). The charting library is taken to be loaded.
  The library also refuses a canvas element that carries a registered chart. That is
  left out: a dashboard chart is constructed after the chart held for its canvas was
  destroyed, and every report is drawn on a canvas element of its own, which
  \<open>renderReport\<close> has just written.
\<close>

definition newChart :: "string \<Rightarrow> string \<Rightarrow> chartdata \<Rightarrow> chartdata list \<Rightarrow> nat comp" where
  "newChart cv k ls ds s =
     (let s' = s\<lparr>widgets := widgets s @
                  [\<lparr>canvas = cv, kind = k, labels = ls, datasets = ds, destroyed = False,
                    redraws = 0, failed = \<not> library s ls ds\<rparr>]\<rparr>
      in if library s ls ds then (Inr (length (widgets s)), s') else (Inl TypeError, s'))"

definition modify_widget :: "nat \<Rightarrow> (widget \<Rightarrow> widget) \<Rightarrow> page \<Rightarrow> page" where
  "modify_widget i f s =
     (if i < length (widgets s) then s\<lparr>widgets := (widgets s)[i := f (widgets s ! i)]\<rparr> else s)"

text \<open>\<open>chart.destroy()\<close>.\<close>

definition destroy :: "nat \<Rightarrow> page \<Rightarrow> page" where
  "destroy i s = modify_widget i (\<lambda>w. w\<lparr>destroyed := True\<rparr>) s"

text \<open>\<open>chart.update()\<close>: the library draws the widget with the data it now has, or throws.\<close>

definition chart_update :: "nat \<Rightarrow> unit comp" where
  "chart_update i s =
     (if i < length (widgets s) \<and> \<not> library s (labels (widgets s ! i)) (datasets (widgets s ! i))
      then (Inl TypeError, s)
      else (Inr (), modify_widget i (\<lambda>w. w\<lparr>redraws := Suc (redraws w)\<rparr>) s))"

text \<open>
  The four \<open>init...Chart\<close> functions have one body and differ in their constants: the
  key in \<open>window.charts\<close>, the id of the canvas, the warning, and the configuration. The
  key is assigned only when the constructor returns.
\<close>

definition initChart ::
  "string \<Rightarrow> string \<Rightarrow> string \<Rightarrow> string \<Rightarrow> chartdata \<Rightarrow> chartdata list \<Rightarrow> unit comp" where
  "initChart name cv warning k ls ds s =
     (case elems s cv of
        None \<Rightarrow> tell (ConsoleWarn warning) s
      | Some ctx \<Rightarrow>
          bind (newChart cv k ls ds)
            (\<lambda>c s2. (Inr (), s2\<lparr>charts := (charts s2)(name \<mapsto> c)\<rparr>))
            (case charts s name of None \<Rightarrow> s | Some old \<Rightarrow> destroy old s))"

definition initFraudDistributionChart :: "unit comp" where
  "initFraudDistributionChart =
     initChart ''fraudDistribution'' ''fraud-distribution-chart''
       ''Fraud distribution chart canvas not found'' ''doughnut''
       (Raw (JArr [JStr ''Legitimate'', JStr ''Fraudulent''])) [Raw (JArr [JNum 0, JNum 0])]"

definition initAmountDistributionChart :: "unit comp" where
  "initAmountDistributionChart =
     initChart ''amountDistribution'' ''amount-distribution-chart''
       ''Amount distribution chart canvas not found'' ''bar''
       (Raw (JArr [])) [Raw (JArr [])]"

definition initTransactionTypeChart :: "unit comp" where
  "initTransactionTypeChart =
     initChart ''transactionType'' ''transaction-type-chart''
       ''Transaction type chart canvas not found'' ''bar''
       (Raw (JArr [])) [Raw (JArr [])]"

definition initLocationRiskChart :: "unit comp" where
  "initLocationRiskChart =
     initChart ''locationRisk'' ''location-risk-chart''
       ''Location risk chart canvas not found'' ''polarArea''
       (Raw (JArr [])) [Raw (JArr [])]"

text \<open>
  \<open>initializeCharts()\<close>. The defaults of the charting library that it sets first are
  not part of the page. \<open>window.appChartsReady\<close> is defined nowhere in the program, so
  nothing is notified.
\<close>

definition initializeCharts :: "unit comp" where
  "initializeCharts =
     bind (tell (ConsoleLog ''Initializing charts...'')) (\<lambda>_.
     bind initFraudDistributionChart (\<lambda>_.
     bind initAmountDistributionChart (\<lambda>_.
     bind initTransactionTypeChart (\<lambda>_.
     bind initLocationRiskChart (\<lambda>_.
     tell (ConsoleLog ''Charts initialized:''))))))"

text \<open>
  The names every object inherits. \<open>window.charts\<close> is a plain object, so
  \<open>window.charts[name]\<close> is a function or an object for these names, and never a chart.
\<close>

definition inherited :: "string \<Rightarrow> bool" where
  "inherited name =
     (name \<in> set [''constructor'', ''__defineGetter__'', ''__defineSetter__'', ''hasOwnProperty'',
                   ''__lookupGetter__'', ''__lookupSetter__'', ''isPrototypeOf'',
                   ''propertyIsEnumerable'', ''toString'', ''valueOf'', ''__proto__'',
                   ''toLocaleString''])"

text \<open>
  \<open>data.labels && data.data\<close>: reading \<open>data.labels\<close> throws when \<open>data\<close> is \<open>null\<close> or
  \<open>undefined\<close>; the result is the two values when both are truthy.
\<close>

definition updateGuard :: "jsval \<Rightarrow> error + (jsval \<times> jsval) option" where
  "updateGuard d =
     (case getprop d ''labels'' of
        Inl e \<Rightarrow> Inl e
      | Inr l \<Rightarrow>
          if \<not> truthy l then Inr None
          else (case getprop d ''data'' of
                  Inl e \<Rightarrow> Inl e
                | Inr v \<Rightarrow> if \<not> truthy v then Inr None else Inr (Some (l, v))))"

text \<open>
  \<open>updateChart(name, data)\<close>. For an inherited name there is no \<open>chart.data\<close>, and
  assigning its labels throws. For a chart, the labels are assigned before
  \<open>datasets[0]\<close> is read, and both are assigned before \<open>chart.update()\<close>.
\<close>

definition updateChart :: "string \<Rightarrow> jsval \<Rightarrow> unit comp" where
  "updateChart name d s =
     (case charts s name of
        None \<Rightarrow>
          if inherited name
          then (case updateGuard d of
                  Inl e \<Rightarrow> (Inl e, s)
                | Inr None \<Rightarrow> (Inr (), s)
                | Inr (Some (l, v)) \<Rightarrow> (Inl TypeError, s))
          else (Inr (), emit (ConsoleWarn (''Chart '' @ [CHR 39] @ name @ [CHR 39]
                                            @ '' not found. Waiting for initialization...'')) s)
      | Some chart \<Rightarrow>
          (case updateGuard d of
             Inl e \<Rightarrow> (Inl e, s)
           | Inr None \<Rightarrow> (Inr (), s)
           | Inr (Some (l, v)) \<Rightarrow>
               (let s1 = modify_widget chart (\<lambda>w. w\<lparr>labels := Raw l\<rparr>) s
                in if chart < length (widgets s1) \<and> datasets (widgets s1 ! chart) = []
                   then (Inl TypeError, s1)
                   else chart_update chart
                          (modify_widget chart
                             (\<lambda>w. w\<lparr>datasets := (datasets w)[0 := Raw v]\<rparr>) s1))))"

section \<open>The dashboard\<close>

text \<open>
  \<open>Promise.all\<close> of four promises: fulfilled with the four values when all are
  fulfilled, rejected when one is rejected. With several rejected, the reason is that of
  the one that settles first, which the responses do not determine; the model takes the
  first in argument order.
\<close>

definition promise_all4 ::
  "error + 'a \<Rightarrow> error + 'a \<Rightarrow> error + 'a \<Rightarrow> error + 'a \<Rightarrow> error + ('a \<times> 'a \<times> 'a \<times> 'a)" where
  "promise_all4 r1 r2 r3 r4 =
     (case r1 of Inl e \<Rightarrow> Inl e | Inr a \<Rightarrow>
       (case r2 of Inl e \<Rightarrow> Inl e | Inr b \<Rightarrow>
         (case r3 of Inl e \<Rightarrow> Inl e | Inr c \<Rightarrow>
           (case r4 of Inl e \<Rightarrow> Inl e | Inr d \<Rightarrow> Inr (a, b, c, d)))))"

text \<open>The four chart requests, all issued before any of them is awaited.\<close>

definition fetchCharts :: "net \<Rightarrow> (jsval \<times> jsval \<times> jsval \<times> jsval) comp" where
  "fetchCharts nt s =
     (let (r1, s1) = fetchAPI nt ''/api/chart/fraud-distribution'' ''GET'' None s;
          (r2, s2) = fetchAPI nt ''/api/chart/amount-distribution'' ''GET'' None s1;
          (r3, s3) = fetchAPI nt ''/api/chart/transaction-type'' ''GET'' None s2;
          (r4, s4) = fetchAPI nt ''/api/chart/location-risk'' ''GET'' None s3
      in (promise_all4 r1 r2 r3 r4, s4))"

text \<open>The four updates, in the order of the source, each run only when the one before returned.\<close>

definition applyCharts :: "jsval \<Rightarrow> jsval \<Rightarrow> jsval \<Rightarrow> jsval \<Rightarrow> unit comp" where
  "applyCharts fraudDist amountDist txType locationRisk =
     bind (updateChart ''fraudDistribution'' fraudDist) (\<lambda>_.
     bind (updateChart ''amountDistribution'' amountDist) (\<lambda>_.
     bind (updateChart ''transactionType'' txType) (\<lambda>_.
     updateChart ''locationRisk'' locationRisk)))"

definition loadChartData :: "net \<Rightarrow> unit comp" where
  "loadChartData nt =
     catch
       (bind (fetchCharts nt) (\<lambda>(fraudDist, amountDist, txType, locationRisk).
          applyCharts fraudDist amountDist txType locationRisk))
       (\<lambda>e. tell (ConsoleError ''Chart loading error:'' e))"

text \<open>
  \<open>loadDashboardData()\<close>. Each \<open>document.getElementById(...).textContent = ...\<close>
  throws when the element is missing or the value has no conversion to text, after the
  writes before it have been made.
  \<open>dashboardTry\<close> is the body of the \<open>try\<close>.
\<close>

definition dashboardTry :: "net \<Rightarrow> unit comp" where
  "dashboardTry nt =
     bind (fetchAPI nt ''/api/stats'' ''GET'' None) (\<lambda>stats.
     bind (lift (getprop stats ''total_transactions'')) (\<lambda>total.
     bind (lift (template [formatNumber total])) (\<lambda>t1.
     bind (set_textContent ''total-transactions'' t1) (\<lambda>_.
     bind (lift (getprop stats ''fraudulent_transactions'')) (\<lambda>fraud.
     bind (lift (template [formatNumber fraud])) (\<lambda>t2.
     bind (set_textContent ''fraud-transactions'' t2) (\<lambda>_.
     bind (lift (getprop stats ''legitimate_transactions'')) (\<lambda>legit.
     bind (lift (template [formatNumber legit])) (\<lambda>t3.
     bind (set_textContent ''legit-transactions'' t3) (\<lambda>_.
     bind (lift (getprop stats ''fraud_rate'')) (\<lambda>rate.
     bind (lift (template [toText rate, lit ''%''])) (\<lambda>t4.
     bind (set_textContent ''fraud-rate'' t4) (\<lambda>_.
     loadChartData nt)))))))))))))"

definition loadDashboardData :: "net \<Rightarrow> unit comp" where
  "loadDashboardData nt =
     catch (dashboardTry nt) (\<lambda>e. tell (ConsoleError ''Dashboard error:'' e))"

section \<open>Tables of transactions\<close>

definition field :: "jsval \<Rightarrow> string \<Rightarrow> jsval" where
  "field v k = (case getprop v k of Inl e \<Rightarrow> JUndefined | Inr x \<Rightarrow> x)"

text \<open>\<open>xs.map(f)\<close> and \<open>xs.filter(p)\<close> with a callback that may throw.\<close>

fun mapE :: "('a \<Rightarrow> error + 'b) \<Rightarrow> 'a list \<Rightarrow> error + 'b list" where
  "mapE f [] = Inr []"
| "mapE f (x # xs) =
     (case f x of
        Inl e \<Rightarrow> Inl e
      | Inr y \<Rightarrow> (case mapE f xs of Inl e \<Rightarrow> Inl e | Inr ys \<Rightarrow> Inr (y # ys)))"

fun filterE :: "('a \<Rightarrow> error + bool) \<Rightarrow> 'a list \<Rightarrow> error + 'a list" where
  "filterE p [] = Inr []"
| "filterE p (x # xs) =
     (case p x of
        Inl e \<Rightarrow> Inl e
      | Inr b \<Rightarrow> (case filterE p xs of
                    Inl e \<Rightarrow> Inl e
                  | Inr ys \<Rightarrow> Inr (if b then x # ys else ys)))"

text \<open>\<open>v.length\<close> of a value that is not \<open>null\<close> or \<open>undefined\<close>.\<close>

definition js_length :: "jsval \<Rightarrow> jsval" where
  "js_length v =
     (case v of
        JArr xs \<Rightarrow> JNum (of_nat (length xs))
      | JStr s \<Rightarrow> JNum (of_nat (length s))
      | _ \<Rightarrow> field v ''length'')"

text \<open>
  \<open>v.slice(0, 10)\<close>: arrays and strings have the method, calling it on anything else
  throws.
\<close>

definition slice10 :: "jsval \<Rightarrow> error + jsval" where
  "slice10 v =
     (case v of
        JArr xs \<Rightarrow> Inr (JArr (take 10 xs))
      | JStr s \<Rightarrow> Inr (JStr (take 10 s))
      | _ \<Rightarrow> Inl TypeError)"

text \<open>The row of the recent-transactions table for one record.\<close>

definition recentRow :: "jsval \<Rightarrow> error + tstring" where
  \<open>recentRow tx =
     (case getprop tx ''id'' of
        Inl e \<Rightarrow> Inl e
      | Inr i \<Rightarrow> template
          [lit ''<tr><td>#'',
           toText (js_or (js_or i (field tx ''transaction_id'')) (JStr ''-'')),
           lit ''</td><td>'', toText (js_or (field tx ''timestamp'') (JStr ''-'')),
           lit ''</td><td>$'', formatNumber (field tx ''amount''),
           lit ''</td><td>'', toText (js_or (field tx ''transaction_type'') (JStr ''-'')),
           lit ''</td><td>'', toText (js_or (field tx ''location'') (JStr ''-'')),
           lit ''</td><td><span class="status-badge '',
           lit (if truthy (field tx ''is_fraud'') then ''fraud'' else ''legit''),
           lit ''">'',
           lit (if truthy (field tx ''is_fraud'') then ''Fraud'' else ''Legit''),
           lit ''</span></td><td>'',
           pct 1 (js_or (field tx ''fraud_probability'') (JNum 0)),
           lit ''%</td></tr>''])\<close>

text \<open>The row of the all-transactions table for one record.\<close>

definition allRow :: "jsval \<Rightarrow> error + tstring" where
  \<open>allRow tx =
     (case getprop tx ''id'' of
        Inl e \<Rightarrow> Inl e
      | Inr i \<Rightarrow> template
          [lit ''<tr><td>#'',
           toText (js_or (js_or i (field tx ''transaction_id'')) (JStr ''-'')),
           lit ''</td><td>'', toText (js_or (field tx ''timestamp'') (JStr ''-'')),
           lit ''</td><td>$'', formatNumber (field tx ''amount''),
           lit ''</td><td>'', toText (js_or (field tx ''transaction_type'') (JStr ''-'')),
           lit ''</td><td>'', toText (js_or (field tx ''location'') (JStr ''-'')),
           lit ''</td><td><span class="status-badge '',
           lit (if truthy (field tx ''is_fraud'') then ''fraud'' else ''legit''),
           lit ''">'',
           lit (if truthy (field tx ''is_fraud'') then ''Fraud'' else ''Legit''),
           lit ''</span></td><td>'',
           pct 1 (js_or (field tx ''fraud_probability'') (JNum 0)),
           lit ''%</td><td><button class="btn-secondary">View</button></td></tr>''])\<close>

definition recentEmpty :: tstring where
  \<open>recentEmpty = [Lit ''<tr><td colspan="7">No recent transactions</td></tr>'']\<close>

definition allEmpty :: tstring where
  \<open>allEmpty = [Lit ''<tr><td colspan="8">No transactions found.</td></tr>'']\<close>

definition allError :: tstring where
  \<open>allError = [Lit ''<tr><td colspan="8">Error loading transactions.</td></tr>'']\<close>

text \<open>
  \<open>updateRecentTransactions(txs)\<close>. A value that passes the guard and is not an
  array has no \<open>map\<close> method.
\<close>

definition updateRecentTransactions :: "jsval \<Rightarrow> unit comp" where
  "updateRecentTransactions txs s =
     (case elems s ''recent-transactions-body'' of
        None \<Rightarrow> (Inr (), s)
      | Some tbody \<Rightarrow>
          if \<not> truthy txs \<or> js_length txs = JNum 0
          then (Inr (), set_innerHTML ''recent-transactions-body'' recentEmpty s)
          else (case txs of
                  JArr xs \<Rightarrow>
                    (case mapE recentRow xs of
                       Inl e \<Rightarrow> (Inl e, s)
                     | Inr rows \<Rightarrow>
                         (Inr (), set_innerHTML ''recent-transactions-body'' (concat rows) s))
                | _ \<Rightarrow> (Inl TypeError, s)))"

text \<open>
  The part of \<open>loadTransactions\<close> that fills the all-transactions table;
  \<open>transactionsTry\<close> is the body of its \<open>try\<close>.
\<close>

definition renderAllTransactions :: "jsval \<Rightarrow> unit comp" where
  "renderAllTransactions txs s =
     (case elems s ''all-transactions-body'' of
        None \<Rightarrow> (Inr (), s)
      | Some tbody \<Rightarrow>
          if js_length txs = JNum 0
          then (Inr (), set_innerHTML ''all-transactions-body'' allEmpty s)
          else (case txs of
                  JArr xs \<Rightarrow>
                    (case mapE allRow xs of
                       Inl e \<Rightarrow> (Inl e, s)
                     | Inr rows \<Rightarrow>
                         (Inr (), set_innerHTML ''all-transactions-body'' (concat rows) s))
                | _ \<Rightarrow> (Inl TypeError, s)))"

definition transactionsTry :: "net \<Rightarrow> unit comp" where
  "transactionsTry nt =
     bind (fetchAPI nt ''/api/transactions?page=1&per_page=50'' ''GET'' None) (\<lambda>data.
     bind (lift (getprop data ''transactions'')) (\<lambda>t.
     bind (lift (slice10 (js_or t (JArr [])))) (\<lambda>first.
     bind (updateRecentTransactions first) (\<lambda>_.
     renderAllTransactions (js_or t (JArr []))))))"

definition loadTransactions :: "net \<Rightarrow> unit comp" where
  "loadTransactions nt =
     catch (transactionsTry nt)
       (\<lambda>e s. (Inr (),
                 set_innerHTML ''all-transactions-body'' allError
                   (emit (ConsoleError ''Error loading transactions:'' e) s)))"

section \<open>Alerts\<close>

definition isFraudAlert :: "jsval \<Rightarrow> error + bool" where
  "isFraudAlert tx = (case getprop tx ''is_fraud'' of Inl e \<Rightarrow> Inl e | Inr v \<Rightarrow> Inr (is_one v))"

definition noFraudCard :: tstring where
  \<open>noFraudCard =
     [Lit ''<div class="alert-item"><div class="alert-icon success"><i class="fas fa-check-circle"></i></div><div class="alert-content"><div class="alert-title">No Fraud Detected</div><div class="alert-message">All transactions appear legitimate.</div><div class="alert-time">'',
      Now,
      Lit ''</div></div></div>'']\<close>

definition alertCard :: "jsval \<Rightarrow> error + tstring" where
  \<open>alertCard tx =
     (case getprop tx ''id'' of
        Inl e \<Rightarrow> Inl e
      | Inr i \<Rightarrow> template
          [lit ''<div class="alert-item"><div class="alert-icon danger"><i class="fas fa-exclamation-triangle"></i></div><div class="alert-content"><div class="alert-title">Fraud Detected - Transaction #'',
           toText (js_or i (field tx ''transaction_id'')),
           lit ''</div><div class="alert-message">Amount: <strong>$'',
           formatNumber (field tx ''amount''),
           lit ''</strong> | Location: '', toText (field tx ''location''),
           lit '' | Type: '', toText (field tx ''transaction_type''),
           lit ''</div><div class="alert-time">'',
           toText (js_or (field tx ''timestamp'') (JStr ''Just now'')),
           lit ''</div></div></div>''])\<close>

definition alertsError :: tstring where
  \<open>alertsError =
     [Lit ''<div class="alert-item"><div class="alert-content"><div class="alert-title">Error loading alerts</div></div></div>'']\<close>

text \<open>The callback given to \<open>then\<close> in \<open>loadAlerts\<close>.\<close>

definition alertsThen :: "jsval \<Rightarrow> unit comp" where
  "alertsThen data s =
     (case getprop data ''transactions'' of
        Inl e \<Rightarrow> (Inl e, s)
      | Inr t \<Rightarrow>
          (case js_or t (JArr []) of
             JArr txs \<Rightarrow>
               (case filterE isFraudAlert txs of
                  Inl e \<Rightarrow> (Inl e, s)
                | Inr fraudTxs \<Rightarrow>
                    (let s1 = if_element ''alert-badge''
                                (\<lambda>e. e\<lparr>content := TextContent [Count (length fraudTxs)]\<rparr>) s
                     in if length fraudTxs = 0
                        then (Inr (), set_innerHTML ''alerts-list'' noFraudCard s1)
                        else (case mapE alertCard (take 10 fraudTxs) of
                                Inl e \<Rightarrow> (Inl e, s1)
                              | Inr cards \<Rightarrow>
                                  (Inr (), set_innerHTML ''alerts-list'' (concat cards) s1))))
           | _ \<Rightarrow> (Inl TypeError, s)))"

text \<open>The chain \<open>.then(...).catch(...)\<close>, run with the settled result of the fetch.\<close>

definition alertsSettled :: "error + jsval \<Rightarrow> unit comp" where
  "alertsSettled r =
     catch (bind (lift r) alertsThen)
       (\<lambda>e s. (Inr (),
                 set_innerHTML ''alerts-list'' alertsError
                   (emit (ConsoleError ''Error loading alerts:'' e) s)))"

text \<open>
  \<open>loadAlerts()\<close> is not an \<open>async\<close> function and returns nothing: it issues the
  request, registers the chain and returns.
\<close>

definition loadAlerts :: "net \<Rightarrow> unit comp" where
  "loadAlerts nt s =
     (case elems s ''alerts-list'' of
        None \<Rightarrow> (Inr (), s)
      | Some alertsList \<Rightarrow>
          (let (r, s1) = fetchAPI nt ''/api/transactions?page=1&per_page=100'' ''GET'' None s
           in (Inr (), s1\<lparr>pending := pending s1 @ [AlertsSettled r]\<rparr>)))"

section \<open>Refreshing\<close>

definition refreshAllData :: "net \<Rightarrow> unit comp" where
  "refreshAllData nt =
     bind (tell (ConsoleLog ''Refreshing all data...'')) (\<lambda>_.
     bind (loadDashboardData nt) (\<lambda>_.
     bind (loadTransactions nt) (\<lambda>_.
     loadAlerts nt)))"

text \<open>
  The header caption is \<open>document.querySelector('.page-header p')\<close> and the icon is
  \<open>btn.querySelector('i')\<close>; they are kept in \<open>elems\<close> under the names below.
\<close>

definition headerTitle :: string where
  "headerTitle = ''.page-header p''"

definition refreshIcon :: string where
  "refreshIcon = ''#refresh-btn i''"

text \<open>The caption \<open>`Source: ${response.source} | Records: ${response.count}`\<close>.\<close>

definition caption :: "jsval \<Rightarrow> error + tstring" where
  "caption response =
     (case getprop response ''source'' of
        Inl e \<Rightarrow> Inl e
      | Inr src \<Rightarrow>
          (case getprop response ''count'' of
             Inl e \<Rightarrow> Inl e
           | Inr cnt \<Rightarrow> template [lit ''Source: '', toText src, lit '' | Records: '', toText cnt]))"

definition updateTitle :: "jsval \<Rightarrow> unit comp" where
  "updateTitle response s =
     (case elems s headerTitle of
        None \<Rightarrow> (Inr (), s)
      | Some h \<Rightarrow> bind (lift (caption response)) (set_textContent headerTitle) s)"

definition resetAnalysis :: "unit comp" where
  "resetAnalysis s = (Inr (), if_element ''analysis-result'' (classList_add ''hidden'') s)"

definition handleRefresh :: "net \<Rightarrow> unit comp" where
  "handleRefresh nt s =
     (case elems s ''refresh-btn'' of
        None \<Rightarrow> (Inl TypeError, s)
      | Some btn \<Rightarrow>
          (case with_element refreshIcon (classList_add ''fa-spin'') s of
             (Inl e, s0) \<Rightarrow> (Inl e, s0)
           | (Inr _, s0) \<Rightarrow>
               (let (r, s1) =
                      catch
                        (bind (fetchAPI nt ''/api/refresh'' ''POST'' None) (\<lambda>response.
                         bind (refreshAllData nt) (\<lambda>_.
                         bind (updateTitle response) (\<lambda>_.
                         resetAnalysis))))
                        (\<lambda>e. tell (ConsoleError ''Refresh failed:'' e)) s0
                in (r, s1\<lparr>pending := pending s1 @ [SpinStop]\<rparr>))))"

text \<open>Running the callbacks that were registered, in the order of registration.\<close>

definition run_task :: "task \<Rightarrow> page \<Rightarrow> page" where
  "run_task t s =
     (case t of
        AlertsSettled r \<Rightarrow> snd (alertsSettled r s)
      | SpinStop \<Rightarrow> if_element refreshIcon (classList_remove ''fa-spin'') s)"

definition settle :: "page \<Rightarrow> page" where
  "settle s = fold run_task (pending s) (s\<lparr>pending := []\<rparr>)"

section \<open>Analysing one transaction\<close>

text \<open>\<open>document.getElementById(i).value\<close>.\<close>

definition value_of :: "string \<Rightarrow> string comp" where
  "value_of i s = (case elems s i of None \<Rightarrow> (Inl TypeError, s) | Some e \<Rightarrow> (Inr (inputValue e), s))"

text \<open>
  The statements of the \<open>try\<close> in \<open>analyzeTransaction\<close> that follow the request, run
  with the verdict \<open>res\<close>.
\<close>

definition showVerdict :: "jsval \<Rightarrow> unit comp" where
  "showVerdict res =
     bind (with_element ''analysis-result'' (classList_remove ''hidden'')) (\<lambda>_.
     bind (lift (getprop res ''is_fraud'')) (\<lambda>f.
     bind (set_textContent ''result-prediction''
             [Lit (if truthy f then ''FRAUD DETECTED'' else ''Legitimate'')]) (\<lambda>_.
     bind (with_element ''result-prediction''
             (\<lambda>e. e\<lparr>color := (if truthy f then ''#ef4444'' else ''#10b981'')\<rparr>)) (\<lambda>_.
     bind (lift (template [pct 2 (field res ''fraud_probability''), lit ''%''])) (\<lambda>p.
     bind (set_textContent ''result-probability'' p) (\<lambda>_.
     bind (lift (template [domText (field res ''risk_level'')])) (\<lambda>r.
     bind (set_textContent ''result-risk'' r) (\<lambda>_.
     bind (lift (template [domText (field res ''recommendation'')])) (\<lambda>c.
     set_textContent ''result-recommendation'' c)))))))))"

text \<open>
  \<open>analyzeTransaction()\<close>. The three fields are read before the \<open>try\<close>. In the body
  of the request \<open>PFloat amt\<close> is \<open>parseFloat(amt)\<close>.
\<close>

definition analyzeTransaction :: "net \<Rightarrow> unit comp" where
  "analyzeTransaction nt =
     bind (value_of ''analyze-amount'') (\<lambda>amt.
     bind (value_of ''analyze-type'') (\<lambda>type.
     bind (value_of ''analyze-location'') (\<lambda>loc.
       if amt = [] then tell (Alert ''Enter amount'')
       else
         catch
           (bind (fetchAPI nt ''/api/analyze'' ''POST''
                    (Some [(''amount'', PFloat amt), (''transaction_type'', PStr type),
                           (''location'', PStr loc)]))
              showVerdict)
           (\<lambda>e. tell (Alert ''Analysis failed'')))))"

section \<open>Reports\<close>

text \<open>\<open>reportType.replace('-', ' ').toUpperCase()\<close>, for a report type written in ASCII.\<close>

fun replace_first :: "char \<Rightarrow> char \<Rightarrow> string \<Rightarrow> string" where
  "replace_first a b [] = []"
| "replace_first a b (c # cs) = (if c = a then b # cs else c # replace_first a b cs)"

definition toUpperCase :: "string \<Rightarrow> string" where
  "toUpperCase cs =
     map (\<lambda>c. if 97 \<le> (of_char c :: nat) \<and> (of_char c :: nat) \<le> 122
               then char_of ((of_char c :: nat) - 32) else c) cs"

text \<open>
  Assigning \<open>innerHTML\<close> of the report's content element replaces its children, among
  them the canvas and the statistics container of the last report.
\<close>

definition set_reportContent :: "tstring \<Rightarrow> unit comp" where
  "set_reportContent h s =
     with_element ''report-content'' (\<lambda>e. e\<lparr>content := InnerHTML h\<rparr>)
       (s\<lparr>elems := (elems s)(''report-chart-canvas'' := None, ''report-stats-container'' := None)\<rparr>)"

definition blank :: element where
  "blank = \<lparr>content = InnerHTML [], classList = [], inputValue = [], color = []\<rparr>"

definition reportLayout :: tstring where
  \<open>reportLayout =
     [Lit ''<div class="report-container" style="height: 350px; width: 100%; position: relative;"><canvas id="report-chart-canvas"></canvas></div><div class="report-stats" id="report-stats-container"></div>'']\<close>

definition reportLoading :: tstring where
  \<open>reportLoading = [Lit ''<div class="report-loading"><div class="spinner"></div></div>'']\<close>

text \<open>The labels and the one data series of the report's chart, and the statistics text.\<close>

definition labelsAndData :: "jsval \<Rightarrow> string \<Rightarrow> (chartdata \<times> chartdata list) comp" where
  "labelsAndData payload k =
     bind (lift (getprop payload k)) (\<lambda>part.
     bind (lift (getprop part ''labels'')) (\<lambda>ls.
     bind (lift (getprop part ''data'')) (\<lambda>ds.
     ret (Raw ls, [Raw ds]))))"

definition summaryStats :: "jsval \<Rightarrow> unit comp" where
  \<open>summaryStats payload =
     bind (lift (getprop payload ''statistics'')) (\<lambda>st.
     bind (lift (getprop st ''total_transactions'')) (\<lambda>total.
     bind (lift (template
          [lit ''<div class="stat-row">Total: <b>'', formatNumber total,
           lit ''</b></div><div class="stat-row">Fraud: <b style="color:#ef4444">'',
           formatNumber (field st ''fraudulent_transactions''),
           lit ''</b></div><div class="stat-row">Rate: <b>'', toText (field st ''fraud_rate''),
           lit ''%</b></div>''])) (\<lambda>h.
     with_element ''report-stats-container'' (\<lambda>e. e\<lparr>content := InnerHTML h\<rparr>))))\<close>

text \<open>One point of the time-analysis report: \<open>h.hour + ':00'\<close> and \<open>h.is_fraud\<close>.\<close>

definition hourlyPoint :: "jsval \<Rightarrow> error + jsval \<times> jsval" where
  "hourlyPoint h =
     (case getprop h ''hour'' of
        Inl e \<Rightarrow> Inl e
      | Inr hr \<Rightarrow> if printable hr then Inr (hr, field h ''is_fraud'') else Inl TypeError)"

definition reportConfig :: "string \<Rightarrow> jsval \<Rightarrow> (string \<times> chartdata \<times> chartdata list) comp" where
  "reportConfig type payload =
     (if type = ''summary'' then
        bind (labelsAndData payload ''fraud_distribution'') (\<lambda>(ls, ds).
        bind (summaryStats payload) (\<lambda>_. ret (''doughnut'', ls, ds)))
      else if type = ''geographic'' then
        bind (labelsAndData payload ''location_risk'') (\<lambda>(ls, ds). ret (''bar'', ls, ds))
      else if type = ''time-analysis'' then
        bind (lift (getprop payload ''hourly_data'')) (\<lambda>hd.
          case hd of
            JArr hs \<Rightarrow>
              bind (lift (mapE hourlyPoint hs)) (\<lambda>pts.
              ret (''line'', Hours (map fst pts), [Raw (JArr (map snd pts))]))
          | _ \<Rightarrow> throw TypeError)
      else if type = ''user-behavior'' then
        bind (labelsAndData payload ''transaction_type'') (\<lambda>(ls, ds). ret (''bar'', ls, ds))
      else ret (''bar'', Raw (JArr []), []))"

text \<open>
  \<open>renderReport(type, data)\<close>: the layout is written, the old chart is destroyed and
  forgotten, the configuration is built from the payload (which throws when an
  expected part is missing), and the new chart is constructed on the new canvas.
  \<open>reportChart\<close> is assigned only when the constructor returns.
\<close>

definition renderReport :: "string \<Rightarrow> jsval \<Rightarrow> unit comp" where
  "renderReport type payload =
     bind (set_reportContent reportLayout) (\<lambda>_.
     bind (\<lambda>s. (Inr (), s\<lparr>elems := (elems s)(''report-chart-canvas'' \<mapsto> blank,
                                                  ''report-stats-container'' \<mapsto> blank)\<rparr>)) (\<lambda>_.
     bind (\<lambda>s. (Inr (), case reportChart s of
                            None \<Rightarrow> s
                          | Some old \<Rightarrow> (destroy old s)\<lparr>reportChart := None\<rparr>)) (\<lambda>_.
     bind (reportConfig type payload) (\<lambda>(k, ls, ds).
     bind (newChart ''report-chart-canvas'' k ls ds) (\<lambda>c s.
       (Inr (), s\<lparr>reportChart := Some c\<rparr>))))))"

definition generateReport :: "net \<Rightarrow> string \<Rightarrow> unit comp" where
  \<open>generateReport nt reportType =
     bind (with_element ''report-result'' (classList_add ''active'')) (\<lambda>_.
     bind (set_textContent ''report-title''
             [Lit (toUpperCase (replace_first (CHR ''-'') (CHR '' '') reportType) @ '' REPORT'')]) (\<lambda>_.
     bind (set_reportContent reportLoading) (\<lambda>_.
     catch
       (bind (fetchAPI nt (''/api/report/'' @ reportType) ''POST'' None) (\<lambda>payload.
        renderReport reportType payload))
       (\<lambda>e. set_reportContent [Lit ''<div class="report-error">Error: '', Msg e, Lit ''</div>'']))))\<close>

definition closeReport :: "unit comp" where
  "closeReport =
     bind (with_element ''report-result'' (classList_remove ''active'')) (\<lambda>_.
     (\<lambda>s. (Inr (), case reportChart s of
                      None \<Rightarrow> s
                    | Some old \<Rightarrow> (destroy old s)\<lparr>reportChart := None\<rparr>)))"

section \<open>Pages and payloads used as examples\<close>

text \<open>
  A charting library that throws for labels or data that are truthy and no arrays,
  and draws everything else.
\<close>

fun drawable :: "chartdata \<Rightarrow> bool" where
  "drawable (Hours hs) = True"
| "drawable (Raw (JArr xs)) = True"
| "drawable (Raw v) = (\<not> truthy v)"

definition strictLibrary :: "chartdata \<Rightarrow> chartdata list \<Rightarrow> bool" where
  "strictLibrary ls ds = (drawable ls \<and> list_all drawable ds)"

text \<open>
  The page as it is when the scripts have loaded: \<open>window.charts = {}\<close>,
  \<open>reportChart = null\<close>, and the elements with the given ids, all blank.
\<close>

definition loadedPage :: "string list \<Rightarrow> page" where
  "loadedPage ids =
     \<lparr>elems = map_of (map (\<lambda>i. (i, blank)) ids), charts = Map.empty, reportChart = None,
      widgets = [], console = [], requests = [], pending = [],
      library = strictLibrary\<rparr>"

text \<open>
  \<open>mounted\<close>: a chart in the registry that points to a widget with at least one data
  series.
\<close>

definition mounted :: "page \<Rightarrow> string \<Rightarrow> bool" where
  "mounted s name =
     (case charts s name of
        None \<Rightarrow> False
      | Some c \<Rightarrow> c < length (widgets s) \<and> datasets (widgets s ! c) \<noteq> [])"

definition get_request :: "string \<Rightarrow> request" where
  "get_request u = \<lparr>meth = ''GET'', url = u, body = None\<rparr>"

definition post_request :: "string \<Rightarrow> request" where
  "post_request u = \<lparr>meth = ''POST'', url = u, body = None\<rparr>"

definition ok200 :: "jsval \<Rightarrow> outcome" where
  "ok200 v = Response 200 ''OK'' (Some v)"

definition samplePayload :: jsval where
  "samplePayload = JObj [(''labels'', JArr [JStr ''low'', JStr ''high'']), (''data'', JArr [JNum 3, JNum 4])]"

text \<open>A dashboard with the amount chart mounted.\<close>

definition amountPage :: page where
  "amountPage = snd (initAmountDistributionChart (loadedPage [''amount-distribution-chart'']))"

text \<open>A dashboard with the four charts mounted.\<close>

definition chartsPage :: page where
  "chartsPage =
     snd (initializeCharts
            (loadedPage [''fraud-distribution-chart'', ''amount-distribution-chart'',
                         ''transaction-type-chart'', ''location-risk-chart'']))"

text \<open>A backend whose fraud-distribution endpoint is down while every other request succeeds.\<close>

definition oneChartDown :: net where
  "oneChartDown rq =
     (if url rq = ''/api/chart/fraud-distribution'' then Response 500 ''INTERNAL SERVER ERROR'' None
      else ok200 samplePayload)"

text \<open>
  A backend that answers the fraud-distribution request with labels that are a string
  and data that are a number, and every other request well.
\<close>

definition badFirst :: net where
  "badFirst rq =
     (if url rq = ''/api/chart/fraud-distribution''
      then ok200 (JObj [(''labels'', JStr ''abc''), (''data'', JNum 5)])
      else ok200 samplePayload)"

text \<open>A backend that answers every request with the same JSON value.\<close>

definition always :: "jsval \<Rightarrow> net" where
  "always v rq = ok200 v"

definition chartUrls :: "string list" where
  "chartUrls = [''/api/chart/fraud-distribution'', ''/api/chart/amount-distribution'',
                ''/api/chart/transaction-type'', ''/api/chart/location-risk'']"

text \<open>A backend that answers every request with status 200 and a body that is not JSON.\<close>

definition notJson :: net where
  "notJson rq = Response 200 ''OK'' None"

section \<open>Reading the page\<close>

text \<open>
  How often a piece of markup occurs in the literal parts of a template string. The
  interpolated values are not looked into.
\<close>

fun starts :: "string \<Rightarrow> string \<Rightarrow> bool" where
  "starts [] cs = True"
| "starts (p # ps) [] = False"
| "starts (p # ps) (c # cs) = (p = c \<and> starts ps cs)"

fun occurs :: "string \<Rightarrow> string \<Rightarrow> nat" where
  "occurs p [] = 0"
| "occurs p (c # cs) = (if starts p (c # cs) then 1 else 0) + occurs p cs"

fun in_piece :: "string \<Rightarrow> piece \<Rightarrow> nat" where
  "in_piece p (Lit s) = occurs p s"
| "in_piece p x = 0"

definition literal_count :: "string \<Rightarrow> tstring \<Rightarrow> nat" where
  "literal_count p t = sum_list (map (in_piece p) t)"

definition table_rows :: "tstring \<Rightarrow> nat" where
  "table_rows t = literal_count ''<tr>'' t"

definition alert_cards :: "tstring \<Rightarrow> nat" where
  \<open>alert_cards t = literal_count ''<div class="alert-item">'' t\<close>

definition html_of :: "page \<Rightarrow> string \<Rightarrow> tstring option" where
  "html_of s i =
     (case elems s i of
        None \<Rightarrow> None
      | Some e \<Rightarrow> (case content e of InnerHTML h \<Rightarrow> Some h | TextContent t \<Rightarrow> None))"

definition text_of :: "page \<Rightarrow> string \<Rightarrow> tstring option" where
  "text_of s i =
     (case elems s i of
        None \<Rightarrow> None
      | Some e \<Rightarrow> (case content e of InnerHTML h \<Rightarrow> None | TextContent t \<Rightarrow> Some t))"

text \<open>The fragments a template gives for the records of a list, when none of them throws.\<close>

definition fragments :: "(jsval \<Rightarrow> error + tstring) \<Rightarrow> jsval list \<Rightarrow> tstring list" where
  "fragments f xs = (case mapE f xs of Inl e \<Rightarrow> [] | Inr rs \<Rightarrow> rs)"

text \<open>The records \<open>loadAlerts\<close> keeps: those whose \<open>is_fraud\<close> is the number 1.\<close>

definition fraudTxs :: "jsval list \<Rightarrow> jsval list" where
  "fraudTxs xs = filter (\<lambda>tx. field tx ''is_fraud'' = JNum 1) xs"

definition transactionsPage :: "jsval list \<Rightarrow> net" where
  "transactionsPage xs = always (JObj [(''transactions'', JArr xs)])"

definition fraudTx :: jsval where
  "fraudTx = JObj [(''id'', JNum 41), (''amount'', JNum 950), (''is_fraud'', JNum 1)]"

definition legitTx :: jsval where
  "legitTx = JObj [(''id'', JNum 42), (''amount'', JNum 12), (''is_fraud'', JNum 0)]"

definition flaggedTrueTx :: jsval where
  "flaggedTrueTx = JObj [(''id'', JNum 43), (''amount'', JNum 700), (''is_fraud'', JBool True)]"

text \<open>A flagged record whose location has a field \<open>toString\<close> of its own.\<close>

definition oddTx :: jsval where
  "oddTx = JObj [(''id'', JNum 44), (''amount'', JNum 5), (''is_fraud'', JNum 1),
                 (''location'', JObj [(''toString'', JNum 1)])]"

definition dashboardIds :: "string list" where
  "dashboardIds = [''recent-transactions-body'', ''all-transactions-body'', ''alerts-list'',
                   ''alert-badge'']"

definition fifteen :: "jsval list" where
  "fifteen = replicate 12 fraudTx @ replicate 3 legitTx"

section \<open>Statements about what a step leaves alone\<close>

text \<open>\<open>keeps P m\<close>: running \<open>m\<close> in a state where \<open>P\<close> holds ends in one where it holds, thrown or not.\<close>

definition keeps :: "(page \<Rightarrow> bool) \<Rightarrow> 'a comp \<Rightarrow> bool" where
  "keeps P m = (\<forall>s. P s \<longrightarrow> P (snd (m s)))"

text \<open>
  \<open>triple P m Q E\<close>: run in a state where \<open>P\<close> holds, \<open>m\<close> ends in a state where \<open>Q\<close>
  holds of its result when it returns, and in one where \<open>E\<close> holds when it throws.
\<close>

definition triple :: "(page \<Rightarrow> bool) \<Rightarrow> 'a comp \<Rightarrow> ('a \<Rightarrow> page \<Rightarrow> bool) \<Rightarrow> (page \<Rightarrow> bool) \<Rightarrow> bool" where
  "triple P m Q E =
     (\<forall>s. P s \<longrightarrow> (case fst (m s) of Inl e \<Rightarrow> E (snd (m s)) | Inr a \<Rightarrow> Q a (snd (m s))))"

definition statCards :: "string list" where
  "statCards = [''total-transactions'', ''fraud-transactions'', ''legit-transactions'', ''fraud-rate'']"

text \<open>A backend whose statistics endpoint is down while every other request succeeds.\<close>

definition statsDown :: net where
  "statsDown rq =
     (if url rq = ''/api/stats'' then Response 503 ''SERVICE UNAVAILABLE'' None
      else ok200 (JObj [(''transactions'', JArr [fraudTx, legitTx]),
                        (''labels'', JArr [JStr ''low'', JStr ''high'']),
                        (''data'', JArr [JNum 3, JNum 4])]))"

text \<open>A backend that is down: every request fails in transport.\<close>

definition allDown :: net where
  "allDown rq = Failed"

definition fullPage :: page where
  "fullPage =
     loadedPage (statCards @ dashboardIds @
       [''refresh-btn'', ''#refresh-btn i'', ''.page-header p'', ''analysis-result''])"

text \<open>The page once the refresh icon spins and the request to switch the data source is issued.\<close>

definition afterPost :: "page \<Rightarrow> page" where
  "afterPost s =
     (if_element refreshIcon (classList_add ''fa-spin'') s)
       \<lparr>requests := requests s @ [post_request ''/api/refresh'']\<rparr>"

definition spinStopLater :: "page \<Rightarrow> page" where
  "spinStopLater s = s\<lparr>pending := pending s @ [SpinStop]\<rparr>"

text \<open>A backend that fails the switch of the data source.\<close>

definition refreshDown :: net where
  "refreshDown rq =
     (if url rq = ''/api/refresh'' then Failed else ok200 (JObj [(''transactions'', JArr [])]))"

text \<open>
  A backend that answers the switch with a source and a count, and everything else with
  the statistics, a page of two records, and the labels and data of a chart.
\<close>

definition everything :: jsval where
  "everything =
     JObj [(''total_transactions'', JNum 2), (''fraudulent_transactions'', JNum 1),
           (''legitimate_transactions'', JNum 1), (''fraud_rate'', JNum 50),
           (''transactions'', JArr [fraudTx, legitTx]),
           (''labels'', JArr [JStr ''low'', JStr ''high'']),
           (''data'', JArr [JNum 3, JNum 4])]"

definition refreshed :: net where
  "refreshed rq =
     (if url rq = ''/api/refresh''
      then ok200 (JObj [(''source'', JStr ''batch2.csv''), (''count'', JNum 500)])
      else ok200 everything)"

text \<open>
  A backend that answers the switch with a source that has a field \<open>toString\<close> of its
  own, and so no conversion to text.
\<close>

definition refreshedOdd :: net where
  "refreshedOdd rq =
     (if url rq = ''/api/refresh''
      then ok200 (JObj [(''source'', JObj [(''toString'', JNum 1)]), (''count'', JNum 500)])
      else ok200 everything)"

text \<open>A backend that answers the switch with \<open>null\<close>.\<close>

definition refreshedNull :: net where
  "refreshedNull rq =
     (if url rq = ''/api/refresh'' then ok200 JNull else ok200 (JObj [(''transactions'', JArr [])]))"

text \<open>The request \<open>analyzeTransaction\<close> sends for the three values of the form.\<close>

definition analyzeRequest :: "string \<Rightarrow> string \<Rightarrow> string \<Rightarrow> request" where
  "analyzeRequest amt type loc =
     \<lparr>meth = ''POST'', url = ''/api/analyze'',
      body = Some [(''amount'', PFloat amt), (''transaction_type'', PStr type),
                   (''location'', PStr loc)]\<rparr>"

definition resultIds :: "string list" where
  "resultIds = [''analysis-result'', ''result-prediction'', ''result-probability'', ''result-risk'',
                ''result-recommendation'']"

text \<open>The analysis form with the given amount typed in, and the result panel hidden.\<close>

definition formPage :: "string \<Rightarrow> page" where
  "formPage amt =
     (loadedPage ([''analyze-amount'', ''analyze-type'', ''analyze-location''] @ resultIds))
       \<lparr>elems := (elems (loadedPage ([''analyze-amount'', ''analyze-type'', ''analyze-location'']
                                        @ resultIds)))
          (''analyze-amount'' \<mapsto> blank\<lparr>inputValue := amt\<rparr>,
           ''analyze-type'' \<mapsto> blank\<lparr>inputValue := ''transfer''\<rparr>,
           ''analyze-location'' \<mapsto> blank\<lparr>inputValue := ''Pune''\<rparr>,
           ''analysis-result'' \<mapsto> blank\<lparr>classList := [''hidden'']\<rparr>)\<rparr>"

definition verdict :: jsval where
  "verdict = JObj [(''is_fraud'', JBool True), (''fraud_probability'', JNum (9 / 10)),
                   (''risk_level'', JStr ''HIGH''), (''recommendation'', JStr ''Block'')]"

text \<open>A verdict whose risk level has a field \<open>toString\<close> of its own.\<close>

definition oddVerdict :: jsval where
  "oddVerdict = JObj [(''is_fraud'', JBool True), (''fraud_probability'', JNum (9 / 10)),
                      (''risk_level'', JObj [(''toString'', JNum 1)]),
                      (''recommendation'', JStr ''Block'')]"

section \<open>Live widgets\<close>

text \<open>The number of widgets on a canvas that have not been destroyed.\<close>

definition live :: "page \<Rightarrow> string \<Rightarrow> nat" where
  "live s cv = length (filter (\<lambda>w. canvas w = cv \<and> \<not> destroyed w) (widgets s))"

text \<open>The key of \<open>window.charts\<close> for each canvas of the dashboard.\<close>

definition chartCanvases :: "(string \<times> string) list" where
  "chartCanvases =
     [(''fraud-distribution-chart'', ''fraudDistribution''),
      (''amount-distribution-chart'', ''amountDistribution''),
      (''transaction-type-chart'', ''transactionType''),
      (''location-risk-chart'', ''locationRisk'')]"

text \<open>
  The reference the program holds for a canvas: \<open>reportChart\<close> for the canvas of the
  report, the entry of \<open>window.charts\<close> for a canvas of the dashboard.
\<close>

definition holder :: "page \<Rightarrow> string \<Rightarrow> nat option" where
  "holder s cv =
     (if cv = ''report-chart-canvas'' then reportChart s
      else (case map_of chartCanvases cv of None \<Rightarrow> None | Some name \<Rightarrow> charts s name))"

text \<open>
  A widget is gone when it was destroyed, or when its constructor threw, so that the
  program never had a reference to it. \<open>held s cv\<close> counts the widgets on a canvas
  that are not gone.
\<close>

definition gone :: "widget \<Rightarrow> bool" where
  "gone w = (destroyed w \<or> failed w)"

definition held :: "page \<Rightarrow> string \<Rightarrow> nat" where
  "held s cv = length (filter (\<lambda>w. canvas w = cv \<and> \<not> gone w) (widgets s))"

text \<open>Every widget that is not gone is the one the program holds for its canvas.\<close>

definition sole_holders :: "page \<Rightarrow> bool" where
  "sole_holders s =
     (\<forall>i < length (widgets s).
        \<not> gone (widgets s ! i) \<longrightarrow> holder s (canvas (widgets s ! i)) = Some i)"

definition registry :: "page \<Rightarrow> (string \<rightharpoonup> nat) \<times> nat option \<times> widget list" where
  "registry s = (charts s, reportChart s, widgets s)"

text \<open>
  What can happen to the page: a function of the program is called (with the answers
  the backend gives during the call), the registered callbacks run, or the document is
  changed from outside.
\<close>

datatype action =
    InitializeCharts
  | InitFraudDistributionChart
  | InitAmountDistributionChart
  | InitTransactionTypeChart
  | InitLocationRiskChart
  | UpdateChart string jsval
  | RefreshAllData net
  | HandleRefresh net
  | LoadTransactions net
  | LoadAlerts net
  | AnalyzeTransaction net
  | GenerateReport net string
  | RenderReport string jsval
  | CloseReport
  | Settle
  | Document "string \<rightharpoonup> element"

fun perform :: "action \<Rightarrow> page \<Rightarrow> page" where
  "perform InitializeCharts s = snd (initializeCharts s)"
| "perform InitFraudDistributionChart s = snd (initFraudDistributionChart s)"
| "perform InitAmountDistributionChart s = snd (initAmountDistributionChart s)"
| "perform InitTransactionTypeChart s = snd (initTransactionTypeChart s)"
| "perform InitLocationRiskChart s = snd (initLocationRiskChart s)"
| "perform (UpdateChart name d) s = snd (updateChart name d s)"
| "perform (RefreshAllData nt) s = snd (refreshAllData nt s)"
| "perform (HandleRefresh nt) s = snd (handleRefresh nt s)"
| "perform (LoadTransactions nt) s = snd (loadTransactions nt s)"
| "perform (LoadAlerts nt) s = snd (loadAlerts nt s)"
| "perform (AnalyzeTransaction nt) s = snd (analyzeTransaction nt s)"
| "perform (GenerateReport nt t) s = snd (generateReport nt t s)"
| "perform (RenderReport t d) s = snd (renderReport t d s)"
| "perform CloseReport s = snd (closeReport s)"
| "perform Settle s = settle s"
| "perform (Document d) s = s\<lparr>elems := d\<rparr>"

definition reportIds :: "string list" where
  "reportIds = [''report-result'', ''report-content'', ''report-title'']"

text \<open>A backend that answers every report request with the parts the four reports read.\<close>

definition reports :: net where
  "reports rq =
     ok200 (JObj [(''fraud_distribution'', samplePayload), (''location_risk'', samplePayload),
                  (''transaction_type'', samplePayload), (''hourly_data'', JArr []),
                  (''statistics'', JObj [(''total_transactions'', JNum 10)])])"

text \<open>
  A backend that answers the geographic report with labels and data that are numbers,
  and every other report as \<open>reports\<close> does.
\<close>

definition leaky :: net where
  "leaky rq =
     (if url rq = ''/api/report/geographic''
      then ok200 (JObj [(''location_risk'', JObj [(''labels'', JNum 1), (''data'', JNum 1)])])
      else reports rq)"

text \<open>The page after a sequence of actions, started from the loaded page.\<close>

definition reached :: "action list \<Rightarrow> string list \<Rightarrow> page" where
  "reached acts ids = fold perform acts (loadedPage ids)"

definition twoReports :: "action list" where
  "twoReports = [GenerateReport reports ''summary'', GenerateReport reports ''geographic'']"

text \<open>The geographic report, answered with numbers, and then the summary report.\<close>

definition leakyReports :: "action list" where
  "leakyReports = [GenerateReport leaky ''geographic'', GenerateReport leaky ''summary'']"

text \<open>No report widget is held; exactly one is.\<close>

definition report_free :: "page \<Rightarrow> bool" where
  "report_free s = (sole_holders s \<and> held s ''report-chart-canvas'' = 0)"

definition report_one :: "page \<Rightarrow> bool" where
  "report_one s = (sole_holders s \<and> held s ''report-chart-canvas'' = 1)"
section \<open>Properties of requests\<close>

lemmas comp_defs = bind_def catch_def lift_def tell_def ret_def throw_def

lemma fetchAPI_simps [simp]:
  "fst (fetchAPI nt u m d s) = result_of (nt \<lparr>meth = m, url = u, body = d\<rparr>)"
  "snd (fetchAPI nt u m d s) = s\<lparr>requests := requests s @ [\<lparr>meth = m, url = u, body = d\<rparr>]\<rparr>"
  by (simp_all add: fetchAPI_def Let_def)

lemma bind_fetchAPI:
  "bind (fetchAPI nt u m d) f s =
     (case result_of (nt \<lparr>meth = m, url = u, body = d\<rparr>) of
        Inl e \<Rightarrow> (Inl e, s\<lparr>requests := requests s @ [\<lparr>meth = m, url = u, body = d\<rparr>]\<rparr>)
      | Inr v \<Rightarrow> f v (s\<lparr>requests := requests s @ [\<lparr>meth = m, url = u, body = d\<rparr>]\<rparr>))"
  by (simp add: bind_def fetchAPI_def Let_def split: sum.splits)

text \<open>
  C6 (as the code has it). A call of \<open>fetchAPI\<close> throws exactly when the transport
  fails, the response is not 2xx, or the body of a 2xx response is not JSON. For a
  response that is not 2xx the error carries the status text; for a 2xx response with a
  JSON body the parsed body is returned. The request is recorded in every case.
\<close>

theorem fetchAPI_outcomes:
  "(thrown (fetchAPI nt u m d s) \<longleftrightarrow>
      nt \<lparr>meth = m, url = u, body = d\<rparr> = Failed
      \<or> non2xx (nt \<lparr>meth = m, url = u, body = d\<rparr>)
      \<or> unparsable (nt \<lparr>meth = m, url = u, body = d\<rparr>))
   \<and> (\<forall>st stText b. nt \<lparr>meth = m, url = u, body = d\<rparr> = Response st stText b
         \<and> \<not> (200 \<le> st \<and> st \<le> 299)
         \<longrightarrow> fst (fetchAPI nt u m d s) = Inl (Error stText))
   \<and> (\<forall>st stText v. nt \<lparr>meth = m, url = u, body = d\<rparr> = Response st stText (Some v)
         \<and> 200 \<le> st \<and> st \<le> 299
         \<longrightarrow> fst (fetchAPI nt u m d s) = Inr v)
   \<and> snd (fetchAPI nt u m d s) = s\<lparr>requests := requests s @ [\<lparr>meth = m, url = u, body = d\<rparr>]\<rparr>"
  by (auto simp: fetchAPI_def result_of_def thrown_def non2xx_def unparsable_def Let_def
           split: outcome.splits option.splits)

theorem fetchAPI_outcomes_witness:
  "fst (fetchAPI oneChartDown ''/api/chart/fraud-distribution'' ''GET'' None (loadedPage []))
     = Inl (Error ''INTERNAL SERVER ERROR'')
   \<and> fst (fetchAPI oneChartDown ''/api/stats'' ''GET'' None (loadedPage [])) = Inr samplePayload"
  using fetchAPI_outcomes [of oneChartDown "''/api/chart/fraud-distribution''" "''GET''" None "loadedPage []"]
        fetchAPI_outcomes [of oneChartDown "''/api/stats''" "''GET''" None "loadedPage []"]
  by (simp add: oneChartDown_def ok200_def)

text \<open>
  C6 (as the spec states it) fails: a response with status 200 whose body is not JSON
  makes \<open>fetchAPI\<close> throw, although the response is 2xx and the transport did not fail.
\<close>

theorem fetchAPI_throws_on_2xx:
  "thrown (fetchAPI notJson ''/api/stats'' ''GET'' None (loadedPage []))
   \<and> notJson (get_request ''/api/stats'') \<noteq> Failed
   \<and> \<not> non2xx (notJson (get_request ''/api/stats''))"
  by (simp add: thrown_def result_of_def notJson_def non2xx_def)
section \<open>Properties of the chart registry\<close>

lemma modify_widget_simps [simp]:
  "elems (modify_widget i f s) = elems s"
  "charts (modify_widget i f s) = charts s"
  "reportChart (modify_widget i f s) = reportChart s"
  "console (modify_widget i f s) = console s"
  "requests (modify_widget i f s) = requests s"
  "pending (modify_widget i f s) = pending s"
  "length (widgets (modify_widget i f s)) = length (widgets s)"
  by (simp_all add: modify_widget_def)

lemma modify_widget_nth:
  "j < length (widgets s) \<Longrightarrow>
   widgets (modify_widget i f s) ! j = (if j = i then f (widgets s ! j) else widgets s ! j)"
  by (simp add: modify_widget_def)

lemma modify_widget_library [simp]: "library (modify_widget i f s) = library s"
  by (simp add: modify_widget_def)

lemma returns_pair: "fst r = Inr () \<Longrightarrow> r = (Inr (), snd r)"
  by (cases r) simp

lemma amountPage_simps:
  "charts amountPage = [''amountDistribution'' \<mapsto> 0]"
  "widgets amountPage =
     [\<lparr>canvas = ''amount-distribution-chart'', kind = ''bar'', labels = Raw (JArr []),
       datasets = [Raw (JArr [])], destroyed = False, redraws = 0, failed = False\<rparr>]"
  "console amountPage = []"
  "requests amountPage = []"
  by (simp_all add: amountPage_def initAmountDistributionChart_def initChart_def loadedPage_def
        newChart_def bind_def strictLibrary_def)

text \<open>
  What \<open>updateChart\<close> does where it returns. On a name that is not in the registry, and
  is not a name every object inherits, the call logs a warning and changes nothing else.
  On a mounted name, with \<open>data\<close> whose \<open>labels\<close> and \<open>data\<close> are arrays that the
  library draws, the widget gets them as its labels and first series and is redrawn once.
\<close>

lemma updateChart_unmounted:
  "charts s name = None \<Longrightarrow> \<not> inherited name \<Longrightarrow>
   updateChart name d s =
     (Inr (), s\<lparr>console := console s @
        [ConsoleWarn (''Chart '' @ [CHR 39] @ name @ [CHR 39] @ '' not found. Waiting for initialization...'')]\<rparr>)"
  by (simp add: updateChart_def emit_def)

lemma updateChart_mounted:
  assumes "charts s name = Some c" and "mounted s name"
      and "getprop d ''labels'' = Inr (JArr ls)" and "getprop d ''data'' = Inr (JArr ds)"
      and "library s (Raw (JArr ls)) ((datasets (widgets s ! c))[0 := Raw (JArr ds)])"
  shows "fst (updateChart name d s) = Inr ()"
    and "labels (widgets (snd (updateChart name d s)) ! c) = Raw (JArr ls)"
    and "datasets (widgets (snd (updateChart name d s)) ! c) ! 0 = Raw (JArr ds)"
    and "redraws (widgets (snd (updateChart name d s)) ! c) = Suc (redraws (widgets s ! c))"
  using assms
  by (auto simp: updateChart_def updateGuard_def mounted_def Let_def modify_widget_nth
        chart_update_def)

text \<open>
  Where the library throws on the new data, the call throws after the widget has been
  given them, and nothing is redrawn.
\<close>

lemma updateChart_undrawable:
  assumes "charts s name = Some c" and "mounted s name"
      and "getprop d ''labels'' = Inr l" and "truthy l"
      and "getprop d ''data'' = Inr v" and "truthy v"
      and "\<not> library s (Raw l) ((datasets (widgets s ! c))[0 := Raw v])"
  shows "fst (updateChart name d s) = Inl TypeError"
    and "labels (widgets (snd (updateChart name d s)) ! c) = Raw l"
    and "datasets (widgets (snd (updateChart name d s)) ! c) ! 0 = Raw v"
    and "redraws (widgets (snd (updateChart name d s)) ! c) = redraws (widgets s ! c)"
  using assms
  by (auto simp: updateChart_def updateGuard_def mounted_def Let_def modify_widget_nth
        chart_update_def)

text \<open>
  For a name every object inherits, the value found under it is no chart: with labels
  and data present the call throws, without a warning.
\<close>

lemma updateChart_inherited:
  assumes "charts s name = None" and "inherited name"
      and "getprop d ''labels'' = Inr l" and "truthy l"
      and "getprop d ''data'' = Inr v" and "truthy v"
  shows "updateChart name d s = (Inl TypeError, s)"
  using assms by (simp add: updateChart_def updateGuard_def)

text \<open>
  C1 fails where it says that the call never throws: on a mounted chart, \<open>data\<close> that is
  \<open>null\<close> makes \<open>updateChart\<close> throw a \<open>TypeError\<close> at \<open>data.labels\<close>, with the page
  left as it was.
\<close>

theorem updateChart_null_data_throws:
  "mounted amountPage ''amountDistribution''
   \<and> updateChart ''amountDistribution'' JNull amountPage = (Inl TypeError, amountPage)"
  by (simp add: updateChart_def updateGuard_def mounted_def amountPage_simps)
section \<open>Properties of the dashboard\<close>

lemma fetchCharts_eq:
  "fetchCharts nt s =
     (promise_all4 (result_of (nt (get_request ''/api/chart/fraud-distribution'')))
        (result_of (nt (get_request ''/api/chart/amount-distribution'')))
        (result_of (nt (get_request ''/api/chart/transaction-type'')))
        (result_of (nt (get_request ''/api/chart/location-risk''))),
      s\<lparr>requests := requests s @ map get_request chartUrls\<rparr>)"
  by (simp add: fetchCharts_def fetchAPI_def get_request_def Let_def chartUrls_def)

lemma loadChartData_returns: "fst (loadChartData nt s) = Inr ()"
  by (simp add: loadChartData_def comp_defs split: prod.splits sum.splits)

lemma loadChartData_rejected:
  assumes "\<exists>u \<in> set chartUrls. isl (result_of (nt (get_request u)))"
  shows "\<exists>e. snd (loadChartData nt s) =
           emit (ConsoleError ''Chart loading error:'' e)
             (s\<lparr>requests := requests s @ map get_request chartUrls\<rparr>)"
  using assms
  by (auto simp: loadChartData_def comp_defs fetchCharts_eq promise_all4_def chartUrls_def isl_def
           split: sum.splits)

lemma loadChartData_fulfilled:
  assumes r: "result_of (nt (get_request ''/api/chart/fraud-distribution'')) = Inr a"
             "result_of (nt (get_request ''/api/chart/amount-distribution'')) = Inr b"
             "result_of (nt (get_request ''/api/chart/transaction-type'')) = Inr c"
             "result_of (nt (get_request ''/api/chart/location-risk'')) = Inr d"
      and u1: "updateChart ''fraudDistribution'' a
                 (s\<lparr>requests := requests s @ map get_request chartUrls\<rparr>) = (Inr (), s1)"
      and u2: "updateChart ''amountDistribution'' b s1 = (Inr (), sa)"
      and u3: "updateChart ''transactionType'' c sa = (Inr (), sb)"
      and u4: "updateChart ''locationRisk'' d sb = (Inr (), sc)"
  shows "loadChartData nt s = (Inr (), sc)"
proof -
  have f: "fetchCharts nt s = (Inr (a, b, c, d), s\<lparr>requests := requests s @ map get_request chartUrls\<rparr>)"
    by (simp add: fetchCharts_eq promise_all4_def r)
  show ?thesis
    unfolding loadChartData_def applyCharts_def by (simp add: comp_defs f u1 u2 u3 u4)
qed

text \<open>
  When the four requests are answered and one of the updates throws, the updates after
  it are skipped and the error is logged.
\<close>

lemma loadChartData_update_throws:
  assumes r: "result_of (nt (get_request ''/api/chart/fraud-distribution'')) = Inr a"
             "result_of (nt (get_request ''/api/chart/amount-distribution'')) = Inr b"
             "result_of (nt (get_request ''/api/chart/transaction-type'')) = Inr c"
             "result_of (nt (get_request ''/api/chart/location-risk'')) = Inr d"
      and u: "applyCharts a b c d (s\<lparr>requests := requests s @ map get_request chartUrls\<rparr>)
                = (Inl e, s1)"
  shows "loadChartData nt s = (Inr (), emit (ConsoleError ''Chart loading error:'' e) s1)"
proof -
  have f: "fetchCharts nt s = (Inr (a, b, c, d), s\<lparr>requests := requests s @ map get_request chartUrls\<rparr>)"
    by (simp add: fetchCharts_eq promise_all4_def r)
  show ?thesis
    unfolding loadChartData_def by (simp add: catch_def bind_def tell_def f u)
qed

lemma labels_no_array_skips_updates:
  "map labels (widgets (snd (loadChartData badFirst chartsPage)))
     = [Raw (JStr ''abc''), Raw (JArr []), Raw (JArr []), Raw (JArr [])]
   \<and> map redraws (widgets (snd (loadChartData badFirst chartsPage))) = [0, 0, 0, 0]
   \<and> last (console (snd (loadChartData badFirst chartsPage)))
       = ConsoleError ''Chart loading error:'' TypeError"
  by (intro conjI; code_simp)

text \<open>
  C2 (as the code has it). \<open>loadChartData\<close> never throws and issues the four chart
  requests. If one of them fails, no chart is updated: the page is as before but for the
  four requests and one logged error. If all four are answered and none of the four
  updates throws, the four charts are updated after all four answers have arrived, in
  the order fraudDistribution, amountDistribution, transactionType, locationRisk, and
  nothing is logged.
\<close>

theorem loadChartData_all_or_nothing:
  "fst (loadChartData nt s) = Inr ()
   \<and> ((\<exists>u \<in> set chartUrls. isl (result_of (nt (get_request u)))) \<longrightarrow>
        (\<exists>e. snd (loadChartData nt s) =
           emit (ConsoleError ''Chart loading error:'' e)
             (s\<lparr>requests := requests s @ map get_request chartUrls\<rparr>)))
   \<and> (result_of (nt (get_request ''/api/chart/fraud-distribution'')) = Inr a
      \<and> result_of (nt (get_request ''/api/chart/amount-distribution'')) = Inr b
      \<and> result_of (nt (get_request ''/api/chart/transaction-type'')) = Inr c
      \<and> result_of (nt (get_request ''/api/chart/location-risk'')) = Inr d
      \<and> updateChart ''fraudDistribution'' a
           (s\<lparr>requests := requests s @ map get_request chartUrls\<rparr>) = (Inr (), s1)
      \<and> updateChart ''amountDistribution'' b s1 = (Inr (), sa)
      \<and> updateChart ''transactionType'' c sa = (Inr (), sb)
      \<and> updateChart ''locationRisk'' d sb = (Inr (), sc) \<longrightarrow>
        loadChartData nt s = (Inr (), sc))"
  using loadChartData_returns[of nt s] loadChartData_rejected[of nt s]
    loadChartData_fulfilled[of nt a b c d s s1 sa sb sc]
  by (intro conjI impI) (simp, simp, (elim conjE, simp))

lemma oneChartDown_simps:
  "result_of (oneChartDown (get_request ''/api/chart/fraud-distribution'')) = Inl (Error ''INTERNAL SERVER ERROR'')"
  "result_of (oneChartDown (get_request ''/api/chart/amount-distribution'')) = Inr samplePayload"
  by (simp_all add: oneChartDown_def get_request_def result_of_def ok200_def)

lemma always_simps [simp]: "result_of (always v rq) = Inr v"
  by (simp add: always_def result_of_def ok200_def)

lemma chartsPage_updates:
  "fst (updateChart ''fraudDistribution'' samplePayload
          (chartsPage\<lparr>requests := requests chartsPage @ map get_request chartUrls\<rparr>)) = Inr ()"
  "fst (updateChart ''amountDistribution'' samplePayload
     (snd (updateChart ''fraudDistribution'' samplePayload
          (chartsPage\<lparr>requests := requests chartsPage @ map get_request chartUrls\<rparr>)))) = Inr ()"
  "fst (updateChart ''transactionType'' samplePayload
     (snd (updateChart ''amountDistribution'' samplePayload
     (snd (updateChart ''fraudDistribution'' samplePayload
          (chartsPage\<lparr>requests := requests chartsPage @ map get_request chartUrls\<rparr>)))))) = Inr ()"
  "fst (updateChart ''locationRisk'' samplePayload
     (snd (updateChart ''transactionType'' samplePayload
     (snd (updateChart ''amountDistribution'' samplePayload
     (snd (updateChart ''fraudDistribution'' samplePayload
          (chartsPage\<lparr>requests := requests chartsPage @ map get_request chartUrls\<rparr>)))))))) = Inr ()"
  by code_simp+

theorem loadChartData_all_or_nothing_witness:
  "widgets (snd (loadChartData oneChartDown amountPage)) = widgets amountPage
   \<and> loadChartData (always samplePayload) chartsPage =
       (Inr (),
        snd (updateChart ''locationRisk'' samplePayload
         (snd (updateChart ''transactionType'' samplePayload
         (snd (updateChart ''amountDistribution'' samplePayload
         (snd (updateChart ''fraudDistribution'' samplePayload
          (chartsPage\<lparr>requests := requests chartsPage @ map get_request chartUrls\<rparr>)))))))))
   \<and> map labels (widgets (snd (loadChartData (always samplePayload) chartsPage)))
       = replicate 4 (Raw (JArr [JStr ''low'', JStr ''high'']))
   \<and> map datasets (widgets (snd (loadChartData (always samplePayload) chartsPage)))
       = replicate 4 [Raw (JArr [JNum 3, JNum 4])]
   \<and> map redraws (widgets (snd (loadChartData (always samplePayload) chartsPage))) = [1, 1, 1, 1]
   \<and> console (snd (loadChartData (always samplePayload) chartsPage)) = console chartsPage"
proof -
  have h: "\<exists>u \<in> set chartUrls. isl (result_of (oneChartDown (get_request u)))"
    by (simp add: chartUrls_def oneChartDown_simps)
  obtain e where "snd (loadChartData oneChartDown amountPage) =
           emit (ConsoleError ''Chart loading error:'' e)
             (amountPage\<lparr>requests := requests amountPage @ map get_request chartUrls\<rparr>)"
    using loadChartData_all_or_nothing [where nt = oneChartDown and s = amountPage,
        THEN conjunct2, THEN conjunct1, THEN mp, OF h]
    by blast
  then have 1: "widgets (snd (loadChartData oneChartDown amountPage)) = widgets amountPage"
    by (simp add: emit_def)
  have 2: "loadChartData (always samplePayload) chartsPage =
       (Inr (),
        snd (updateChart ''locationRisk'' samplePayload
         (snd (updateChart ''transactionType'' samplePayload
         (snd (updateChart ''amountDistribution'' samplePayload
         (snd (updateChart ''fraudDistribution'' samplePayload
          (chartsPage\<lparr>requests := requests chartsPage @ map get_request chartUrls\<rparr>)))))))))"
    using loadChartData_all_or_nothing [where nt = "always samplePayload" and s = chartsPage
        and a = samplePayload and b = samplePayload and c = samplePayload and d = samplePayload,
        THEN conjunct2, THEN conjunct2, THEN mp]
      chartsPage_updates[THEN returns_pair]
    by simp
  have 3: "map labels (widgets (snd (loadChartData (always samplePayload) chartsPage)))
       = replicate 4 (Raw (JArr [JStr ''low'', JStr ''high'']))"
    by code_simp
  have 4: "map datasets (widgets (snd (loadChartData (always samplePayload) chartsPage)))
       = replicate 4 [Raw (JArr [JNum 3, JNum 4])]"
    by code_simp
  have 5: "map redraws (widgets (snd (loadChartData (always samplePayload) chartsPage))) = [1, 1, 1, 1]"
    by code_simp
  have 6: "console (snd (loadChartData (always samplePayload) chartsPage)) = console chartsPage"
    by code_simp
  from 1 2 3 4 5 6 show ?thesis by (intro conjI)
qed

text \<open>
  C2 (as the spec states it) fails: with the fraud-distribution request answered by a
  500 and the other three answered well, the mounted amount chart is not updated,
  although its own request succeeded and the update would have changed its labels.
\<close>

theorem loadChartData_drops_fulfilled_update:
  "result_of (oneChartDown (get_request ''/api/chart/amount-distribution'')) = Inr samplePayload
   \<and> mounted amountPage ''amountDistribution''
   \<and> widgets (snd (loadChartData oneChartDown amountPage)) = widgets amountPage
   \<and> labels (widgets amountPage ! 0) = Raw (JArr [])
   \<and> labels (widgets (snd (updateChart ''amountDistribution'' samplePayload amountPage)) ! 0)
       = Raw (JArr [JStr ''low'', JStr ''high''])"
  by (simp add: oneChartDown_simps mounted_def amountPage_simps loadChartData_def comp_defs
        fetchCharts_eq promise_all4_def emit_def updateChart_def updateGuard_def samplePayload_def
        Let_def modify_widget_def chart_update_def amountPage_def initAmountDistributionChart_def
        initChart_def loadedPage_def newChart_def strictLibrary_def)
section \<open>Properties of the tables and of the alerts\<close>

lemma literal_count_append [simp]:
  "literal_count p (a @ b) = literal_count p a + literal_count p b"
  by (simp add: literal_count_def)

lemma literal_count_Nil [simp]: "literal_count p [] = 0"
  by (simp add: literal_count_def)

lemma literal_count_concat:
  "\<forall>r \<in> set rs. literal_count p r = 1 \<Longrightarrow> literal_count p (concat rs) = length rs"
  by (induction rs) simp_all

lemma mapE_total:
  "\<forall>x \<in> set xs. \<exists>y. f x = Inr y \<and> P y \<Longrightarrow>
   \<exists>ys. mapE f xs = Inr ys \<and> length ys = length xs \<and> (\<forall>y \<in> set ys. P y)"
  by (induction xs) auto

lemma getprop_defined: "\<not> nullish v \<Longrightarrow> \<exists>x. getprop v k = Inr x"
  by (cases v) (simp_all add: nullish_def)

lemma getprop_field: "\<not> nullish v \<Longrightarrow> getprop v k = Inr (field v k)"
  by (cases v) (simp_all add: nullish_def field_def)

lemma plain_printable: "plain v \<Longrightarrow> printable v"
proof (induction v)
  case (JArr xs)
  then show ?case by (auto simp: list_all_iff)
qed simp_all

lemma plain_localizable: "plain v \<Longrightarrow> localizable v"
proof (induction v)
  case (JArr xs)
  then show ?case by (auto simp: list_all_iff)
qed simp_all

lemma plain_getprop: "plain v \<Longrightarrow> getprop v k = Inr x \<Longrightarrow> plain x"
proof (cases v)
  case (JObj kvs)
  assume p: "plain v" and g: "getprop v k = Inr x"
  show ?thesis
  proof (cases "map_of (rev kvs) k")
    case None
    with g JObj show ?thesis by simp
  next
    case (Some y)
    then have "(k, y) \<in> set kvs" by (auto dest: map_of_SomeD)
    then have "y \<in> set (map snd kvs)" by force
    with p JObj have "plain y" by (auto simp: list_all_iff)
    with g JObj Some show ?thesis by simp
  qed
qed auto

lemma plain_field: "plain v \<Longrightarrow> plain (field v k)"
  using plain_getprop[of v k] by (auto simp: field_def split: sum.splits)

lemma plain_js_or: "plain a \<Longrightarrow> plain b \<Longrightarrow> plain (js_or a b)"
  by (simp add: js_or_def)

lemma plain_texts:
  assumes "plain v"
  shows "toText v = Inr (Val v)" and "pct n v = Inr (Pct n v)"
    and "formatNumber v = Inr (if truthy v then Locale v else Lit ''0'')"
    and "domText v = Inr (if nullish v then Lit [] else Val v)"
  using plain_printable[OF assms] plain_localizable[OF assms]
  by (simp_all add: toText_def pct_def formatNumber_def domText_def)

lemmas plain_fields = plain_field plain_js_or plain_texts lit_def

lemma recentRow_one:
  "\<not> nullish tx \<and> plain tx \<Longrightarrow> \<exists>r. recentRow tx = Inr r \<and> table_rows r = 1"
  by (simp add: recentRow_def getprop_field table_rows_def literal_count_def plain_fields)

lemma allRow_one:
  "\<not> nullish tx \<and> plain tx \<Longrightarrow> \<exists>r. allRow tx = Inr r \<and> table_rows r = 1"
  by (simp add: allRow_def getprop_field table_rows_def literal_count_def plain_fields)

lemma alertCard_one:
  "\<not> nullish tx \<and> plain tx \<Longrightarrow> \<exists>r. alertCard tx = Inr r \<and> alert_cards r = 1"
  by (simp add: alertCard_def getprop_field alert_cards_def literal_count_def plain_fields)

lemma empty_rows: "table_rows recentEmpty = 1" "table_rows allEmpty = 1" "alert_cards noFraudCard = 1"
  by (simp_all add: table_rows_def recentEmpty_def allEmpty_def literal_count_def alert_cards_def noFraudCard_def)

lemma if_element_simps [simp]:
  "charts (if_element i f s) = charts s"
  "widgets (if_element i f s) = widgets s"
  "reportChart (if_element i f s) = reportChart s"
  "console (if_element i f s) = console s"
  "requests (if_element i f s) = requests s"
  "pending (if_element i f s) = pending s"
  "elems (if_element i f s) j = (if j = i then map_option f (elems s i) else elems s j)"
  by (simp_all add: if_element_def split: option.splits)

lemma emit_simps [simp]:
  "charts (emit ev s) = charts s"
  "widgets (emit ev s) = widgets s"
  "reportChart (emit ev s) = reportChart s"
  "elems (emit ev s) = elems s"
  "requests (emit ev s) = requests s"
  "pending (emit ev s) = pending s"
  "console (emit ev s) = console s @ [ev]"
  by (simp_all add: emit_def)

lemma html_of_set_innerHTML [simp]:
  "html_of (set_innerHTML i h s) j =
     (if j = i \<and> elems s i \<noteq> None then Some h else html_of s j)"
  by (auto simp: html_of_def set_innerHTML_def split: option.splits)

lemma fragments_total:
  assumes "\<forall>x \<in> set xs. \<exists>y. f x = Inr y \<and> P y"
  shows "mapE f xs = Inr (fragments f xs) \<and> length (fragments f xs) = length xs
         \<and> (\<forall>y \<in> set (fragments f xs). P y)"
  using mapE_total[OF assms] by (auto simp: fragments_def)

lemma recent_fragments:
  assumes "\<forall>tx \<in> set xs. \<not> nullish tx \<and> plain tx"
  shows "mapE recentRow xs = Inr (fragments recentRow xs)"
    and "length (fragments recentRow xs) = length xs"
    and "table_rows (concat (fragments recentRow xs)) = length xs"
proof -
  have "\<forall>x \<in> set xs. \<exists>y. recentRow x = Inr y \<and> table_rows y = 1"
    using assms recentRow_one by blast
  from fragments_total[OF this]
  show "mapE recentRow xs = Inr (fragments recentRow xs)"
    and "length (fragments recentRow xs) = length xs"
    and "table_rows (concat (fragments recentRow xs)) = length xs"
    by (simp_all add: table_rows_def literal_count_concat)
qed

lemma all_fragments:
  assumes "\<forall>tx \<in> set xs. \<not> nullish tx \<and> plain tx"
  shows "mapE allRow xs = Inr (fragments allRow xs)"
    and "length (fragments allRow xs) = length xs"
    and "table_rows (concat (fragments allRow xs)) = length xs"
proof -
  have "\<forall>x \<in> set xs. \<exists>y. allRow x = Inr y \<and> table_rows y = 1"
    using assms allRow_one by blast
  from fragments_total[OF this]
  show "mapE allRow xs = Inr (fragments allRow xs)"
    and "length (fragments allRow xs) = length xs"
    and "table_rows (concat (fragments allRow xs)) = length xs"
    by (simp_all add: table_rows_def literal_count_concat)
qed

lemma card_fragments:
  assumes "\<forall>tx \<in> set xs. \<not> nullish tx \<and> plain tx"
  shows "mapE alertCard xs = Inr (fragments alertCard xs)"
    and "length (fragments alertCard xs) = length xs"
    and "alert_cards (concat (fragments alertCard xs)) = length xs"
proof -
  have "\<forall>x \<in> set xs. \<exists>y. alertCard x = Inr y \<and> alert_cards y = 1"
    using assms alertCard_one by blast
  from fragments_total[OF this]
  show "mapE alertCard xs = Inr (fragments alertCard xs)"
    and "length (fragments alertCard xs) = length xs"
    and "alert_cards (concat (fragments alertCard xs)) = length xs"
    by (simp_all add: alert_cards_def literal_count_concat)
qed

lemma js_length_JArr [simp]: "js_length (JArr xs) = JNum 0 \<longleftrightarrow> xs = []"
  by (simp add: js_length_def)

lemma updateRecentTransactions_array:
  assumes "\<forall>tx \<in> set xs. \<not> nullish tx \<and> plain tx"
  shows "updateRecentTransactions (JArr xs) s =
           (Inr (), set_innerHTML ''recent-transactions-body''
                      (if xs = [] then recentEmpty else concat (fragments recentRow xs)) s)"
  using recent_fragments(1)[OF assms]
  by (simp add: updateRecentTransactions_def set_innerHTML_def if_element_def split: option.splits)

lemma renderAllTransactions_array:
  assumes "\<forall>tx \<in> set xs. \<not> nullish tx \<and> plain tx"
  shows "renderAllTransactions (JArr xs) s =
           (Inr (), set_innerHTML ''all-transactions-body''
                      (if xs = [] then allEmpty else concat (fragments allRow xs)) s)"
  using all_fragments(1)[OF assms]
  by (simp add: renderAllTransactions_def set_innerHTML_def if_element_def split: option.splits)

lemma loadTransactions_fetched:
  assumes f: "result_of (nt (get_request ''/api/transactions?page=1&per_page=50'')) = Inr data"
      and t: "getprop data ''transactions'' = Inr (JArr xs)"
      and n: "\<forall>tx \<in> set xs. \<not> nullish tx \<and> plain tx"
  shows "loadTransactions nt s =
           (Inr (),
            set_innerHTML ''all-transactions-body''
              (if xs = [] then allEmpty else concat (fragments allRow xs))
              (set_innerHTML ''recent-transactions-body''
                 (if xs = [] then recentEmpty else concat (fragments recentRow (take 10 xs)))
                 (s\<lparr>requests := requests s @ [get_request ''/api/transactions?page=1&per_page=50'']\<rparr>)))"
proof -
  have n10: "\<forall>tx \<in> set (take 10 xs). \<not> nullish tx \<and> plain tx"
    using n by (meson in_set_takeD)
  have fa: "fetchAPI nt ''/api/transactions?page=1&per_page=50'' ''GET'' None s
            = (Inr data, s\<lparr>requests := requests s @ [get_request ''/api/transactions?page=1&per_page=50'']\<rparr>)"
    using f by (simp add: fetchAPI_def get_request_def Let_def)
  show ?thesis
    unfolding loadTransactions_def transactionsTry_def
    by (simp add: comp_defs fa t js_or_def slice10_def
          updateRecentTransactions_array[OF n10] renderAllTransactions_array[OF n])
qed

lemma text_of_if_element [simp]:
  "text_of (if_element i (\<lambda>e. e\<lparr>content := TextContent t\<rparr>) s) j =
     (if j = i \<and> elems s i \<noteq> None then Some t else text_of s j)"
  by (auto simp: text_of_def split: option.splits)

lemma text_of_set_innerHTML [simp]:
  "text_of (set_innerHTML i h s) j = (if j = i then None else text_of s j)"
  by (auto simp: text_of_def set_innerHTML_def split: option.splits)

lemma set_innerHTML_simps [simp]:
  "charts (set_innerHTML i h s) = charts s"
  "widgets (set_innerHTML i h s) = widgets s"
  "reportChart (set_innerHTML i h s) = reportChart s"
  "console (set_innerHTML i h s) = console s"
  "requests (set_innerHTML i h s) = requests s"
  "pending (set_innerHTML i h s) = pending s"
  "elems (set_innerHTML i h s) j = None \<longleftrightarrow> elems s j = None"
  by (simp_all add: set_innerHTML_def)

lemma isFraudAlert_field: "\<not> nullish tx \<Longrightarrow> isFraudAlert tx = Inr (field tx ''is_fraud'' = JNum 1)"
  by (simp add: isFraudAlert_def getprop_field is_one_def)

lemma filterE_fraudTxs:
  "\<forall>tx \<in> set xs. \<not> nullish tx \<and> plain tx \<Longrightarrow> filterE isFraudAlert xs = Inr (fraudTxs xs)"
  by (induction xs) (simp_all add: fraudTxs_def isFraudAlert_field)

lemma alertsThen_array:
  assumes t: "getprop data ''transactions'' = Inr (JArr xs)"
      and n: "\<forall>tx \<in> set xs. \<not> nullish tx \<and> plain tx"
  shows "alertsThen data s =
           (Inr (),
            set_innerHTML ''alerts-list''
              (if fraudTxs xs = [] then noFraudCard
               else concat (fragments alertCard (take 10 (fraudTxs xs))))
              (if_element ''alert-badge''
                 (\<lambda>e. e\<lparr>content := TextContent [Count (length (fraudTxs xs))]\<rparr>) s))"
proof -
  have "\<forall>tx \<in> set (take 10 (fraudTxs xs)). \<not> nullish tx \<and> plain tx"
    using n by (auto simp: fraudTxs_def dest: in_set_takeD)
  from card_fragments(1)[OF this] show ?thesis
    by (simp add: alertsThen_def t js_or_def filterE_fraudTxs[OF n] Let_def)
qed

lemma loadAlerts_registers:
  "elems s ''alerts-list'' \<noteq> None \<Longrightarrow>
   loadAlerts nt s =
     (Inr (), s\<lparr>requests := requests s @ [get_request ''/api/transactions?page=1&per_page=100''],
                pending := pending s @
                  [AlertsSettled (result_of (nt (get_request ''/api/transactions?page=1&per_page=100'')))]\<rparr>)"
  by (auto simp: loadAlerts_def fetchAPI_def get_request_def Let_def)

text \<open>
  C3. When the alerts request is answered with a page of transaction records, none of
  them \<open>null\<close> and none with a field named \<open>toString\<close> or \<open>toLocaleString\<close> inside
  it, then, once the callback of \<open>loadAlerts\<close> has run, the badge shows the number of
  records whose \<open>is_fraud\<close> is 1, however many, and the alert list holds the no-fraud
  card (one card) when there is none, and otherwise one card for each of the first ten
  of them: \<open>min n 10\<close> cards for \<open>n\<close> such records.
\<close>

theorem loadAlerts_badge_and_cards:
  assumes "elems s ''alerts-list'' \<noteq> None" and "elems s ''alert-badge'' \<noteq> None"
      and "pending s = []"
      and "result_of (nt (get_request ''/api/transactions?page=1&per_page=100'')) = Inr data"
      and "getprop data ''transactions'' = Inr (JArr xs)"
      and "\<forall>tx \<in> set xs. \<not> nullish tx \<and> plain tx"
  shows "text_of (settle (snd (loadAlerts nt s))) ''alert-badge'' = Some [Count (length (fraudTxs xs))]
       \<and> html_of (settle (snd (loadAlerts nt s))) ''alerts-list''
           = Some (if length (fraudTxs xs) = 0 then noFraudCard
                   else concat (fragments alertCard (take 10 (fraudTxs xs))))
       \<and> alert_cards noFraudCard = 1
       \<and> length (fragments alertCard (take 10 (fraudTxs xs))) = min (length (fraudTxs xs)) 10
       \<and> alert_cards (concat (fragments alertCard (take 10 (fraudTxs xs)))) = min (length (fraudTxs xs)) 10"
proof -
  have n10: "\<forall>tx \<in> set (take 10 (fraudTxs xs)). \<not> nullish tx \<and> plain tx"
    using assms(6) by (auto simp: fraudTxs_def dest: in_set_takeD)
  have "settle (snd (loadAlerts nt s)) =
          snd (alertsSettled (Inr data)
                 (s\<lparr>requests := requests s @ [get_request ''/api/transactions?page=1&per_page=100''],
                    pending := []\<rparr>))"
    using assms(1,3,4) by (simp add: loadAlerts_registers settle_def run_task_def)
  also have "\<dots> = set_innerHTML ''alerts-list''
              (if fraudTxs xs = [] then noFraudCard
               else concat (fragments alertCard (take 10 (fraudTxs xs))))
              (if_element ''alert-badge''
                 (\<lambda>e. e\<lparr>content := TextContent [Count (length (fraudTxs xs))]\<rparr>)
                 (s\<lparr>requests := requests s @ [get_request ''/api/transactions?page=1&per_page=100''],
                    pending := []\<rparr>))"
    by (simp add: alertsSettled_def comp_defs alertsThen_array[OF assms(5,6)])
  finally show ?thesis
    using assms(1,2) card_fragments(2,3)[OF n10]
    by (simp add: empty_rows min.commute)
qed

lemma map_of_blank: "map_of (map (\<lambda>i. (i, blank)) ids) i = (if i \<in> set ids then Some blank else None)"
  by (induction ids) auto

lemma loadedPage_simps [simp]:
  "elems (loadedPage ids) i = (if i \<in> set ids then Some blank else None)"
  "charts (loadedPage ids) = Map.empty"
  "widgets (loadedPage ids) = []"
  "reportChart (loadedPage ids) = None"
  "console (loadedPage ids) = []"
  "requests (loadedPage ids) = []"
  "pending (loadedPage ids) = []"
  "library (loadedPage ids) = strictLibrary"
  by (simp_all add: loadedPage_def map_of_blank)

lemma transactionsPage_simps [simp]:
  "result_of (transactionsPage xs rq) = Inr (JObj [(''transactions'', JArr xs)])"
  by (simp add: transactionsPage_def)

lemma sample_not_nullish [simp]:
  "\<not> nullish fraudTx" "\<not> nullish legitTx" "\<not> nullish flaggedTrueTx"
  "plain fraudTx" "plain legitTx" "plain flaggedTrueTx"
  by (simp_all add: nullish_def fraudTx_def legitTx_def flaggedTrueTx_def)

lemma fraudTxs_fifteen: "fraudTxs fifteen = replicate 12 fraudTx"
  by (simp add: fraudTxs_def fifteen_def field_def fraudTx_def legitTx_def)

theorem loadAlerts_badge_and_cards_witness:
  "length fifteen = 15
   \<and> length (fraudTxs fifteen) = 12
   \<and> text_of (settle (snd (loadAlerts (transactionsPage fifteen) (loadedPage dashboardIds))))
        ''alert-badge'' = Some [Count 12]
   \<and> html_of (settle (snd (loadAlerts (transactionsPage fifteen) (loadedPage dashboardIds))))
        ''alerts-list'' = Some (concat (fragments alertCard (replicate 10 fraudTx)))
   \<and> alert_cards (concat (fragments alertCard (replicate 10 fraudTx))) = 10"
proof -
  have "\<forall>tx \<in> set fifteen. \<not> nullish tx \<and> plain tx"
    by (auto simp: fifteen_def)
  from loadAlerts_badge_and_cards [of "loadedPage dashboardIds" "transactionsPage fifteen"
         "JObj [(''transactions'', JArr fifteen)]" fifteen, OF _ _ _ _ _ this]
  show ?thesis
    by (simp add: dashboardIds_def fraudTxs_fifteen) (simp add: fifteen_def)
qed

text \<open>
  C7. For a list of records, none of them \<open>null\<close> and none with a field named
  \<open>toString\<close> or \<open>toLocaleString\<close> inside it, \<open>updateRecentTransactions\<close> and the
  all-transactions part of \<open>loadTransactions\<close> return normally. For the empty list each writes its one
  row with the empty-state message. For a list that is not empty each writes the rows
  that its row template gives for the records, one \<open><tr>\<close> for each record; what is
  written depends on the list only. Within \<open>loadTransactions\<close> the all-transactions
  table gets the fetched list and the recent table its first ten records.
\<close>

theorem transaction_tables:
  assumes "\<forall>tx \<in> set xs. \<not> nullish tx \<and> plain tx"
      and "elems s ''recent-transactions-body'' \<noteq> None"
      and "elems s ''all-transactions-body'' \<noteq> None"
  shows "fst (updateRecentTransactions (JArr xs) s) = Inr ()
       \<and> fst (renderAllTransactions (JArr xs) s) = Inr ()
       \<and> html_of (snd (updateRecentTransactions (JArr xs) s)) ''recent-transactions-body''
           = Some (if length xs = 0 then recentEmpty else concat (fragments recentRow xs))
       \<and> html_of (snd (renderAllTransactions (JArr xs) s)) ''all-transactions-body''
           = Some (if length xs = 0 then allEmpty else concat (fragments allRow xs))
       \<and> table_rows recentEmpty = 1 \<and> literal_count ''No recent transactions'' recentEmpty = 1
       \<and> table_rows allEmpty = 1 \<and> literal_count ''No transactions found.'' allEmpty = 1
       \<and> length (fragments recentRow xs) = length xs
       \<and> table_rows (concat (fragments recentRow xs)) = length xs
       \<and> length (fragments allRow xs) = length xs
       \<and> table_rows (concat (fragments allRow xs)) = length xs
       \<and> (result_of (nt (get_request ''/api/transactions?page=1&per_page=50'')) = Inr data
            \<and> getprop data ''transactions'' = Inr (JArr xs) \<longrightarrow>
          fst (loadTransactions nt s) = Inr ()
          \<and> html_of (snd (loadTransactions nt s)) ''recent-transactions-body''
              = html_of (snd (updateRecentTransactions (JArr (take 10 xs)) s)) ''recent-transactions-body''
          \<and> html_of (snd (loadTransactions nt s)) ''all-transactions-body''
              = html_of (snd (renderAllTransactions (JArr xs) s)) ''all-transactions-body'')"
proof -
  have n10: "\<forall>tx \<in> set (take 10 xs). \<not> nullish tx \<and> plain tx"
    using assms(1) by (meson in_set_takeD)
  have lit: "literal_count ''No recent transactions'' recentEmpty = 1"
            "literal_count ''No transactions found.'' allEmpty = 1"
    by (simp_all add: literal_count_def recentEmpty_def allEmpty_def)
  show ?thesis
    using assms(2,3) recent_fragments(2,3)[OF assms(1)] all_fragments(2,3)[OF assms(1)]
    by (auto simp: updateRecentTransactions_array[OF assms(1)] updateRecentTransactions_array[OF n10]
          renderAllTransactions_array[OF assms(1)] loadTransactions_fetched[OF _ _ assms(1)]
          empty_rows lit)
qed

theorem transaction_tables_witness:
  "html_of (snd (loadTransactions (transactionsPage []) (loadedPage dashboardIds)))
      ''recent-transactions-body'' = Some recentEmpty
   \<and> html_of (snd (loadTransactions (transactionsPage []) (loadedPage dashboardIds)))
      ''all-transactions-body'' = Some allEmpty
   \<and> html_of (snd (loadTransactions (transactionsPage [fraudTx, legitTx]) (loadedPage dashboardIds)))
      ''all-transactions-body'' = Some (concat (fragments allRow [fraudTx, legitTx]))
   \<and> table_rows (concat (fragments allRow [fraudTx, legitTx])) = 2"
proof -
  have a: "\<forall>tx \<in> set ([]::jsval list). \<not> nullish tx \<and> plain tx" by simp
  have b: "\<forall>tx \<in> set [fraudTx, legitTx]. \<not> nullish tx \<and> plain tx" by simp
  have e: "elems (loadedPage dashboardIds) ''recent-transactions-body'' \<noteq> None"
          "elems (loadedPage dashboardIds) ''all-transactions-body'' \<noteq> None"
    by (simp_all add: dashboardIds_def)
  from transaction_tables [OF a e, of "transactionsPage []" "JObj [(''transactions'', JArr [])]"]
       transaction_tables [OF b e, of "transactionsPage [fraudTx, legitTx]"
          "JObj [(''transactions'', JArr [fraudTx, legitTx])]"]
  show ?thesis
    by simp
qed



text \<open>
  A record with a field that has no conversion to text makes each template throw: the
  transactions phase logs the error and writes its error row, with the recent table
  left as it was, and the alerts callback sets the badge, then logs the error and
  writes the error card.
\<close>

lemma unprintable_field_throws:
  "recentRow oddTx = Inl TypeError \<and> allRow oddTx = Inl TypeError \<and> alertCard oddTx = Inl TypeError
   \<and> html_of (snd (loadTransactions (transactionsPage [oddTx]) (loadedPage dashboardIds)))
        ''all-transactions-body'' = Some allError
   \<and> html_of (snd (loadTransactions (transactionsPage [oddTx]) (loadedPage dashboardIds)))
        ''recent-transactions-body'' = Some []
   \<and> console (snd (loadTransactions (transactionsPage [oddTx]) (loadedPage dashboardIds)))
       = [ConsoleError ''Error loading transactions:'' TypeError]
   \<and> text_of (settle (snd (loadAlerts (transactionsPage [oddTx]) (loadedPage dashboardIds))))
        ''alert-badge'' = Some [Count 1]
   \<and> html_of (settle (snd (loadAlerts (transactionsPage [oddTx]) (loadedPage dashboardIds))))
        ''alerts-list'' = Some alertsError
   \<and> console (settle (snd (loadAlerts (transactionsPage [oddTx]) (loadedPage dashboardIds))))
       = [ConsoleError ''Error loading alerts:'' TypeError]"
  by (intro conjI; code_simp)
section \<open>Properties of the refresh\<close>

lemma keeps_bind: "keeps P m \<Longrightarrow> (\<And>a. keeps P (f a)) \<Longrightarrow> keeps P (bind m f)"
  by (auto simp: keeps_def bind_def split: prod.splits sum.splits)

lemma keeps_catch: "keeps P m \<Longrightarrow> (\<And>e. keeps P (h e)) \<Longrightarrow> keeps P (catch m h)"
  by (auto simp: keeps_def catch_def split: prod.splits sum.splits)

lemma keeps_case_prod4:
  "(\<And>a b c d. keeps P (f a b c d)) \<Longrightarrow> keeps P (case x of (a, b, c, d) \<Rightarrow> f a b c d)"
  by (cases x) simp

lemma keeps_pure [simp]: "keeps P (lift r)" "keeps P (ret a)" "keeps P (throw e)"
  by (simp_all add: keeps_def lift_def ret_def throw_def)

lemma with_element_simps [simp]:
  "charts (snd (with_element i f s)) = charts s"
  "widgets (snd (with_element i f s)) = widgets s"
  "reportChart (snd (with_element i f s)) = reportChart s"
  "console (snd (with_element i f s)) = console s"
  "requests (snd (with_element i f s)) = requests s"
  "pending (snd (with_element i f s)) = pending s"
  "j \<noteq> i \<Longrightarrow> elems (snd (with_element i f s)) j = elems s j"
  by (simp_all add: with_element_def split: option.splits)

lemma keeps_elems_with_element:
  "j \<noteq> i \<Longrightarrow> keeps (\<lambda>s. elems s j = x) (with_element i f)"
  by (simp add: keeps_def)

lemma keeps_elems_set_textContent:
  "j \<noteq> i \<Longrightarrow> keeps (\<lambda>s. elems s j = x) (set_textContent i t)"
  by (simp add: keeps_def set_textContent_def)

lemma keeps_elems_fetchAPI: "keeps (\<lambda>s. elems s j = x) (fetchAPI nt u m d)"
  by (simp add: keeps_def)

lemma keeps_elems_tell: "keeps (\<lambda>s. elems s j = x) (tell ev)"
  by (simp add: keeps_def tell_def)

lemma updateChart_elems [simp]: "elems (snd (updateChart n d s)) = elems s"
  by (simp add: updateChart_def Let_def chart_update_def split: option.splits sum.splits)

lemma keeps_elems_updateChart: "keeps (\<lambda>s. elems s j = x) (updateChart n d)"
  by (simp add: keeps_def)

lemma fetchCharts_elems [simp]: "elems (snd (fetchCharts nt s)) = elems s"
  by (simp add: fetchCharts_def fetchAPI_def Let_def)

lemma keeps_elems_fetchCharts: "keeps (\<lambda>s. elems s j = x) (fetchCharts nt)"
  by (simp add: keeps_def)

lemma keeps_elems_loadChartData: "keeps (\<lambda>s. elems s j = x) (loadChartData nt)"
  unfolding loadChartData_def applyCharts_def
  by (intro keeps_catch keeps_bind keeps_case_prod4 keeps_elems_updateChart keeps_elems_tell
        keeps_elems_fetchCharts)

lemma catch_unit_returns:
  "(\<And>e s. fst (h e s) = Inr ()) \<Longrightarrow> fst (catch m h s) = Inr ()"
  by (auto simp: catch_def split: prod.splits sum.splits)

lemma loadDashboardData_returns: "fst (loadDashboardData nt s) = Inr ()"
  unfolding loadDashboardData_def by (rule catch_unit_returns) (simp add: tell_def)

lemma loadTransactions_returns: "fst (loadTransactions nt s) = Inr ()"
  unfolding loadTransactions_def by (rule catch_unit_returns) simp

lemma alertsSettled_returns: "fst (alertsSettled r s) = Inr ()"
  unfolding alertsSettled_def by (rule catch_unit_returns) simp

lemma loadAlerts_returns: "fst (loadAlerts nt s) = Inr ()"
  by (simp add: loadAlerts_def Let_def split: option.splits prod.splits)

lemmas returns_eq = returns_pair

lemma refreshAllData_eq:
  "refreshAllData nt s =
     (Inr (), snd (loadAlerts nt (snd (loadTransactions nt (snd (loadDashboardData nt
        (emit (ConsoleLog ''Refreshing all data...'') s)))))))"
proof -
  define s0 where "s0 = emit (ConsoleLog ''Refreshing all data...'') s"
  define s1 where "s1 = snd (loadDashboardData nt s0)"
  define s2 where "s2 = snd (loadTransactions nt s1)"
  define s3 where "s3 = snd (loadAlerts nt s2)"
  have a: "loadDashboardData nt s0 = (Inr (), s1)"
    unfolding s1_def by (rule returns_eq[OF loadDashboardData_returns])
  have b: "loadTransactions nt s1 = (Inr (), s2)"
    unfolding s2_def by (rule returns_eq[OF loadTransactions_returns])
  have c: "loadAlerts nt s2 = (Inr (), s3)"
    unfolding s3_def by (rule returns_eq[OF loadAlerts_returns])
  have "refreshAllData nt s = (Inr (), s3)"
    by (simp add: refreshAllData_def bind_def tell_def a b c flip: s0_def)
  then show ?thesis
    unfolding s3_def s2_def s1_def s0_def .
qed

lemma updateRecentTransactions_elems:
  "j \<noteq> ''recent-transactions-body'' \<Longrightarrow> elems (snd (updateRecentTransactions x s)) j = elems s j"
  by (simp add: updateRecentTransactions_def set_innerHTML_def
        split: option.splits jsval.splits sum.splits)

lemma renderAllTransactions_elems:
  "j \<noteq> ''all-transactions-body'' \<Longrightarrow> elems (snd (renderAllTransactions x s)) j = elems s j"
  by (simp add: renderAllTransactions_def set_innerHTML_def
        split: option.splits jsval.splits sum.splits)

lemma keeps_elems_transactionsTry:
  assumes "j \<noteq> ''recent-transactions-body''" "j \<noteq> ''all-transactions-body''"
  shows "keeps (\<lambda>s. elems s j = x) (transactionsTry nt)"
  unfolding transactionsTry_def
  by (intro keeps_bind keeps_elems_fetchAPI keeps_pure)
     (simp_all add: keeps_def updateRecentTransactions_elems renderAllTransactions_elems assms)

lemma loadTransactions_elems:
  assumes "j \<noteq> ''recent-transactions-body''" "j \<noteq> ''all-transactions-body''"
  shows "elems (snd (loadTransactions nt s)) j = elems s j"
proof -
  have "keeps (\<lambda>s'. elems s' j = elems s j) (loadTransactions nt)"
    unfolding loadTransactions_def
    by (intro keeps_catch keeps_elems_transactionsTry assms) (simp add: keeps_def set_innerHTML_def assms)
  then show ?thesis by (simp add: keeps_def)
qed

lemma loadAlerts_elems: "elems (snd (loadAlerts nt s)) = elems s"
  by (simp add: loadAlerts_def fetchAPI_def Let_def split: option.splits)

lemma alertsThen_elems:
  assumes "j \<noteq> ''alerts-list''" "j \<noteq> ''alert-badge''"
  shows "elems (snd (alertsThen d s)) j = elems s j"
  using assms
  by (simp add: alertsThen_def set_innerHTML_def Let_def
        split: option.splits jsval.splits sum.splits)

lemma alertsSettled_elems:
  assumes "j \<noteq> ''alerts-list''" "j \<noteq> ''alert-badge''"
  shows "elems (snd (alertsSettled r s)) j = elems s j"
proof -
  have "keeps (\<lambda>s'. elems s' j = elems s j) (alertsSettled r)"
    unfolding alertsSettled_def
    by (intro keeps_catch keeps_bind keeps_pure)
       (simp_all add: keeps_def alertsThen_elems set_innerHTML_def assms)
  then show ?thesis by (simp add: keeps_def)
qed

lemma run_task_elems:
  assumes "j \<noteq> ''alerts-list''" "j \<noteq> ''alert-badge''" "j \<noteq> refreshIcon"
  shows "elems (run_task t s) j = elems s j"
  using assms by (cases t) (simp_all add: run_task_def alertsSettled_elems)

lemma fold_run_task_elems:
  assumes "j \<noteq> ''alerts-list''" "j \<noteq> ''alert-badge''" "j \<noteq> refreshIcon"
  shows "elems (fold run_task ts s) j = elems s j"
  by (induction ts arbitrary: s) (simp_all add: run_task_elems[OF assms])

lemma settle_elems:
  assumes "j \<noteq> ''alerts-list''" "j \<noteq> ''alert-badge''" "j \<noteq> refreshIcon"
  shows "elems (settle s) j = elems s j"
  by (simp add: settle_def fold_run_task_elems[OF assms])

lemma dashboardTry_stats_failed:
  assumes "result_of (nt (get_request ''/api/stats'')) = Inl e"
  shows "dashboardTry nt s = (Inl e, s\<lparr>requests := requests s @ [get_request ''/api/stats'']\<rparr>)"
  using assms by (simp add: dashboardTry_def bind_def fetchAPI_def get_request_def Let_def)

lemma statCards_other:
  assumes "j \<in> set statCards"
  shows "j \<noteq> ''recent-transactions-body''" "j \<noteq> ''all-transactions-body''"
        "j \<noteq> ''alerts-list''" "j \<noteq> ''alert-badge''" "j \<noteq> refreshIcon"
  using assms by (auto simp: statCards_def refreshIcon_def)

lemma keeps_elems_dashboardTry:
  assumes "j \<notin> set statCards"
  shows "keeps (\<lambda>s. elems s j = x) (dashboardTry nt)"
  unfolding dashboardTry_def
  using assms
  by (intro keeps_bind keeps_elems_fetchAPI keeps_pure keeps_elems_set_textContent
        keeps_elems_loadChartData)
     (auto simp: statCards_def)

lemma loadDashboardData_elems:
  assumes "j \<notin> set statCards"
  shows "elems (snd (loadDashboardData nt s)) j = elems s j"
proof -
  have "keeps (\<lambda>s'. elems s' j = elems s j) (loadDashboardData nt)"
    unfolding loadDashboardData_def
    by (intro keeps_catch keeps_elems_dashboardTry assms keeps_elems_tell)
  then show ?thesis by (simp add: keeps_def)
qed

lemma refreshAllData_elems:
  assumes "j \<notin> set statCards" "j \<noteq> ''recent-transactions-body''" "j \<noteq> ''all-transactions-body''"
  shows "elems (snd (refreshAllData nt s)) j = elems s j"
  by (simp add: refreshAllData_eq loadAlerts_elems loadTransactions_elems loadDashboardData_elems assms)

lemma settle_append: "settle (s\<lparr>pending := pending s @ [t]\<rparr>) = run_task t (settle s)"
  by (simp add: settle_def)

lemma loadAlerts_settles:
  assumes "elems s ''alerts-list'' \<noteq> None"
  shows "settle (snd (loadAlerts nt s)) =
           snd (alertsSettled (result_of (nt (get_request ''/api/transactions?page=1&per_page=100'')))
                  (settle (s\<lparr>requests := requests s
                                 @ [get_request ''/api/transactions?page=1&per_page=100'']\<rparr>)))"
proof -
  define s1 where
    "s1 = s\<lparr>requests := requests s @ [get_request ''/api/transactions?page=1&per_page=100'']\<rparr>"
  have "snd (loadAlerts nt s) =
          s1\<lparr>pending := pending s1 @
            [AlertsSettled (result_of (nt (get_request ''/api/transactions?page=1&per_page=100'')))]\<rparr>"
    by (simp add: loadAlerts_registers[OF assms] s1_def)
  then show ?thesis
    unfolding s1_def[symmetric] by (simp only: settle_append) (simp add: run_task_def)
qed

lemma alertsSettled_failed:
  "snd (alertsSettled (Inl e) s) =
     set_innerHTML ''alerts-list'' alertsError (emit (ConsoleError ''Error loading alerts:'' e) s)"
  by (simp add: alertsSettled_def comp_defs)

lemma transactionsTry_failed:
  assumes "result_of (nt (get_request ''/api/transactions?page=1&per_page=50'')) = Inl e"
  shows "transactionsTry nt s =
           (Inl e, s\<lparr>requests := requests s @ [get_request ''/api/transactions?page=1&per_page=50'']\<rparr>)"
  using assms by (simp add: transactionsTry_def bind_def fetchAPI_def get_request_def Let_def)

lemma updateRecentTransactions_requests [simp]:
  "requests (snd (updateRecentTransactions x s)) = requests s"
  "pending (snd (updateRecentTransactions x s)) = pending s"
  by (simp_all add: updateRecentTransactions_def split: option.splits jsval.splits sum.splits)

lemma renderAllTransactions_requests [simp]:
  "requests (snd (renderAllTransactions x s)) = requests s"
  "pending (snd (renderAllTransactions x s)) = pending s"
  by (simp_all add: renderAllTransactions_def split: option.splits jsval.splits sum.splits)

lemma loadTransactions_requests_pending:
  "requests (snd (loadTransactions nt s)) =
     requests s @ [get_request ''/api/transactions?page=1&per_page=50'']
   \<and> pending (snd (loadTransactions nt s)) = pending s"
proof -
  define s1 where
    "s1 = s\<lparr>requests := requests s @ [get_request ''/api/transactions?page=1&per_page=50'']\<rparr>"
  define P where "P = (\<lambda>s'::page. requests s' = requests s1 \<and> pending s' = pending s1)"
  define K where "K = (\<lambda>data.
     bind (lift (getprop data ''transactions'')) (\<lambda>t.
     bind (lift (slice10 (js_or t (JArr [])))) (\<lambda>first.
     bind (updateRecentTransactions first) (\<lambda>_.
     renderAllTransactions (js_or t (JArr []))))))"
  have k: "keeps P (K data)" for data
    unfolding K_def P_def by (intro keeps_bind keeps_pure) (simp_all add: keeps_def)
  have t: "transactionsTry nt s =
             (case result_of (nt (get_request ''/api/transactions?page=1&per_page=50'')) of
                Inl e \<Rightarrow> (Inl e, s1) | Inr v \<Rightarrow> K v s1)"
    by (simp add: transactionsTry_def bind_fetchAPI K_def s1_def get_request_def split: sum.splits)
  have "P s1" by (simp add: P_def)
  with k have "P (snd (transactionsTry nt s))"
    by (auto simp: t keeps_def split: sum.splits)
  then have "P (snd (loadTransactions nt s))"
    by (auto simp: loadTransactions_def catch_def P_def split: prod.splits sum.splits)
  then show ?thesis by (simp add: P_def s1_def)
qed

lemmas loadTransactions_requests = loadTransactions_requests_pending[THEN conjunct1]
lemmas loadTransactions_pending = loadTransactions_requests_pending[THEN conjunct2]

text \<open>
  C4. No phase of \<open>refreshAllData\<close> throws, and \<open>refreshAllData\<close> runs the three, each
  on the page the one before left, whatever failed. What is thrown inside the dashboard
  phase is logged; what is thrown inside the transactions phase is logged and the error
  row written, and so for a failed transactions request. \<open>loadAlerts\<close> issues its request
  and registers its chain with the settled result of that request; when the registered
  callbacks have run, the chain has run with that result, and what is thrown inside it
  is logged and the error card written, and so for a failed alerts request. With
  \<open>/api/stats\<close> failing, the dashboard phase only records the request and logs; the
  transactions request and, with the alert list on the page, the alerts request are
  still issued and the alerts chain registered; and the four stat cards are as before,
  both when \<open>refreshAllData\<close> returns and when the registered callbacks have run.
\<close>

theorem refreshAllData_phases:
  "fst (refreshAllData nt s) = Inr ()
   \<and> fst (loadDashboardData nt s) = Inr ()
   \<and> fst (loadTransactions nt s) = Inr ()
   \<and> fst (loadAlerts nt s) = Inr ()
   \<and> fst (alertsSettled r s) = Inr ()
   \<and> snd (refreshAllData nt s) =
       snd (loadAlerts nt (snd (loadTransactions nt (snd (loadDashboardData nt
         (emit (ConsoleLog ''Refreshing all data...'') s))))))
   \<and> (fst (dashboardTry nt s) = Inl e \<longrightarrow>
        snd (loadDashboardData nt s)
          = emit (ConsoleError ''Dashboard error:'' e) (snd (dashboardTry nt s)))
   \<and> (fst (transactionsTry nt s) = Inl e \<longrightarrow>
        snd (loadTransactions nt s)
          = set_innerHTML ''all-transactions-body'' allError
              (emit (ConsoleError ''Error loading transactions:'' e) (snd (transactionsTry nt s))))
   \<and> (result_of (nt (get_request ''/api/transactions?page=1&per_page=50'')) = Inl e \<longrightarrow>
        snd (loadTransactions nt s)
          = set_innerHTML ''all-transactions-body'' allError
              (emit (ConsoleError ''Error loading transactions:'' e)
                 (s\<lparr>requests := requests s @ [get_request ''/api/transactions?page=1&per_page=50'']\<rparr>)))
   \<and> (elems s ''alerts-list'' \<noteq> None \<longrightarrow>
        snd (loadAlerts nt s)
          = s\<lparr>requests := requests s @ [get_request ''/api/transactions?page=1&per_page=100''],
              pending := pending s @
                [AlertsSettled (result_of (nt (get_request ''/api/transactions?page=1&per_page=100'')))]\<rparr>
        \<and> settle (snd (loadAlerts nt s))
          = snd (alertsSettled (result_of (nt (get_request ''/api/transactions?page=1&per_page=100'')))
                   (settle (s\<lparr>requests := requests s
                                  @ [get_request ''/api/transactions?page=1&per_page=100'']\<rparr>))))
   \<and> (fst (bind (lift r) alertsThen s) = Inl e \<longrightarrow>
        snd (alertsSettled r s)
          = set_innerHTML ''alerts-list'' alertsError
              (emit (ConsoleError ''Error loading alerts:'' e) (snd (bind (lift r) alertsThen s))))
   \<and> (elems s ''alerts-list'' \<noteq> None
        \<and> result_of (nt (get_request ''/api/transactions?page=1&per_page=100'')) = Inl e \<longrightarrow>
        settle (snd (loadAlerts nt s))
          = set_innerHTML ''alerts-list'' alertsError
              (emit (ConsoleError ''Error loading alerts:'' e)
                 (settle (s\<lparr>requests := requests s
                                @ [get_request ''/api/transactions?page=1&per_page=100'']\<rparr>))))
   \<and> (result_of (nt (get_request ''/api/stats'')) = Inl e \<longrightarrow>
        snd (loadDashboardData nt s)
          = emit (ConsoleError ''Dashboard error:'' e)
              (s\<lparr>requests := requests s @ [get_request ''/api/stats'']\<rparr>)
        \<and> requests (snd (refreshAllData nt s))
          = requests s @ [get_request ''/api/stats'', get_request ''/api/transactions?page=1&per_page=50'']
              @ (if elems s ''alerts-list'' = None then []
                 else [get_request ''/api/transactions?page=1&per_page=100''])
        \<and> (elems s ''alerts-list'' \<noteq> None \<longrightarrow>
              pending (snd (refreshAllData nt s))
                = pending s @
                    [AlertsSettled (result_of (nt (get_request ''/api/transactions?page=1&per_page=100'')))])
        \<and> (\<forall>i \<in> set statCards.
              elems (snd (refreshAllData nt s)) i = elems s i
              \<and> elems (settle (snd (refreshAllData nt s))) i = elems s i))"
proof -
  have caught:
    "fst (dashboardTry nt s) = Inl e \<longrightarrow>
        snd (loadDashboardData nt s)
          = emit (ConsoleError ''Dashboard error:'' e) (snd (dashboardTry nt s))"
    "fst (transactionsTry nt s) = Inl e \<longrightarrow>
        snd (loadTransactions nt s)
          = set_innerHTML ''all-transactions-body'' allError
              (emit (ConsoleError ''Error loading transactions:'' e) (snd (transactionsTry nt s)))"
    "fst (bind (lift r) alertsThen s) = Inl e \<longrightarrow>
        snd (alertsSettled r s)
          = set_innerHTML ''alerts-list'' alertsError
              (emit (ConsoleError ''Error loading alerts:'' e) (snd (bind (lift r) alertsThen s)))"
    by (auto simp: loadDashboardData_def loadTransactions_def alertsSettled_def catch_def tell_def
             split: prod.splits sum.splits)
  have txs: "result_of (nt (get_request ''/api/transactions?page=1&per_page=50'')) = Inl e \<longrightarrow>
        snd (loadTransactions nt s)
          = set_innerHTML ''all-transactions-body'' allError
              (emit (ConsoleError ''Error loading transactions:'' e)
                 (s\<lparr>requests := requests s @ [get_request ''/api/transactions?page=1&per_page=50'']\<rparr>))"
    by (simp add: loadTransactions_def catch_def transactionsTry_failed)
  have alerts: "elems s ''alerts-list'' \<noteq> None \<longrightarrow>
        snd (loadAlerts nt s)
          = s\<lparr>requests := requests s @ [get_request ''/api/transactions?page=1&per_page=100''],
              pending := pending s @
                [AlertsSettled (result_of (nt (get_request ''/api/transactions?page=1&per_page=100'')))]\<rparr>
        \<and> settle (snd (loadAlerts nt s))
          = snd (alertsSettled (result_of (nt (get_request ''/api/transactions?page=1&per_page=100'')))
                   (settle (s\<lparr>requests := requests s
                                  @ [get_request ''/api/transactions?page=1&per_page=100'']\<rparr>)))"
    using loadAlerts_settles[of s nt] by (simp add: loadAlerts_registers)
  have alertsFailed: "elems s ''alerts-list'' \<noteq> None
        \<and> result_of (nt (get_request ''/api/transactions?page=1&per_page=100'')) = Inl e \<longrightarrow>
        settle (snd (loadAlerts nt s))
          = set_innerHTML ''alerts-list'' alertsError
              (emit (ConsoleError ''Error loading alerts:'' e)
                 (settle (s\<lparr>requests := requests s
                                @ [get_request ''/api/transactions?page=1&per_page=100'']\<rparr>)))"
    using loadAlerts_settles[of s nt] by (simp add: alertsSettled_failed)
  have stats: "snd (loadDashboardData nt s')
          = emit (ConsoleError ''Dashboard error:'' e)
              (s'\<lparr>requests := requests s' @ [get_request ''/api/stats'']\<rparr>)"
    if "result_of (nt (get_request ''/api/stats'')) = Inl e" for s'
    using that by (simp add: loadDashboardData_def catch_def tell_def dashboardTry_stats_failed)
  have al: "''alerts-list'' \<notin> set statCards" "''alerts-list'' \<noteq> ''recent-transactions-body''"
           "''alerts-list'' \<noteq> ''all-transactions-body''"
    by (simp_all add: statCards_def)
  define s2 where "s2 = snd (loadTransactions nt (snd (loadDashboardData nt
         (emit (ConsoleLog ''Refreshing all data...'') s))))"
  have e2: "elems s2 ''alerts-list'' = elems s ''alerts-list''"
    unfolding s2_def by (simp add: loadTransactions_elems loadDashboardData_elems al)
  have r2: "requests s2 = requests s @ [get_request ''/api/stats'',
              get_request ''/api/transactions?page=1&per_page=50'']"
       and p2: "pending s2 = pending s"
    if f: "result_of (nt (get_request ''/api/stats'')) = Inl e"
    unfolding s2_def by (simp_all add: loadTransactions_requests loadTransactions_pending stats[OF f])
  have reqs: "requests (snd (refreshAllData nt s))
          = requests s @ [get_request ''/api/stats'', get_request ''/api/transactions?page=1&per_page=50'']
              @ (if elems s ''alerts-list'' = None then []
                 else [get_request ''/api/transactions?page=1&per_page=100''])"
    and pend: "elems s ''alerts-list'' \<noteq> None \<longrightarrow>
              pending (snd (refreshAllData nt s))
                = pending s @
                    [AlertsSettled (result_of (nt (get_request ''/api/transactions?page=1&per_page=100'')))]"
    if f: "result_of (nt (get_request ''/api/stats'')) = Inl e"
  proof -
    have eq: "snd (refreshAllData nt s) = snd (loadAlerts nt s2)"
      by (simp add: refreshAllData_eq s2_def)
    show "requests (snd (refreshAllData nt s))
          = requests s @ [get_request ''/api/stats'', get_request ''/api/transactions?page=1&per_page=50'']
              @ (if elems s ''alerts-list'' = None then []
                 else [get_request ''/api/transactions?page=1&per_page=100''])"
      unfolding eq using e2 r2[OF f]
      by (cases "elems s ''alerts-list''") (simp add: loadAlerts_def, simp add: loadAlerts_registers)
    show "elems s ''alerts-list'' \<noteq> None \<longrightarrow>
              pending (snd (refreshAllData nt s))
                = pending s @
                    [AlertsSettled (result_of (nt (get_request ''/api/transactions?page=1&per_page=100'')))]"
      unfolding eq using e2 p2[OF f]
      by (cases "elems s ''alerts-list''") (simp, simp add: loadAlerts_registers)
  qed
  have cards: "elems (snd (refreshAllData nt s)) i = elems s i
              \<and> elems (settle (snd (refreshAllData nt s))) i = elems s i"
    if f: "result_of (nt (get_request ''/api/stats'')) = Inl e" and i: "i \<in> set statCards" for i
    using statCards_other[OF i]
    by (simp add: refreshAllData_eq settle_elems loadAlerts_elems loadTransactions_elems stats[OF f])
  have last: "result_of (nt (get_request ''/api/stats'')) = Inl e \<longrightarrow>
        snd (loadDashboardData nt s)
          = emit (ConsoleError ''Dashboard error:'' e)
              (s\<lparr>requests := requests s @ [get_request ''/api/stats'']\<rparr>)
        \<and> requests (snd (refreshAllData nt s))
          = requests s @ [get_request ''/api/stats'', get_request ''/api/transactions?page=1&per_page=50'']
              @ (if elems s ''alerts-list'' = None then []
                 else [get_request ''/api/transactions?page=1&per_page=100''])
        \<and> (elems s ''alerts-list'' \<noteq> None \<longrightarrow>
              pending (snd (refreshAllData nt s))
                = pending s @
                    [AlertsSettled (result_of (nt (get_request ''/api/transactions?page=1&per_page=100'')))])
        \<and> (\<forall>i \<in> set statCards.
              elems (snd (refreshAllData nt s)) i = elems s i
              \<and> elems (settle (snd (refreshAllData nt s))) i = elems s i)"
    using stats reqs pend cards by blast
  have first: "fst (refreshAllData nt s) = Inr ()" "fst (loadDashboardData nt s) = Inr ()"
    "fst (loadTransactions nt s) = Inr ()" "fst (loadAlerts nt s) = Inr ()"
    "fst (alertsSettled r s) = Inr ()"
    "snd (refreshAllData nt s) =
       snd (loadAlerts nt (snd (loadTransactions nt (snd (loadDashboardData nt
         (emit (ConsoleLog ''Refreshing all data...'') s))))))"
    by (simp_all add: refreshAllData_eq loadDashboardData_returns loadTransactions_returns
          loadAlerts_returns alertsSettled_returns)
  show ?thesis
    by (intro conjI first caught txs alerts alertsFailed last)
qed

lemma statsDown_simps:
  "result_of (statsDown (get_request ''/api/stats'')) = Inl (Error ''SERVICE UNAVAILABLE'')"
  "result_of (statsDown (get_request ''/api/transactions?page=1&per_page=50''))
     = Inr (JObj [(''transactions'', JArr [fraudTx, legitTx]),
                  (''labels'', JArr [JStr ''low'', JStr ''high'']),
                  (''data'', JArr [JNum 3, JNum 4])])"
  "result_of (statsDown (get_request ''/api/transactions?page=1&per_page=100''))
     = Inr (JObj [(''transactions'', JArr [fraudTx, legitTx]),
                  (''labels'', JArr [JStr ''low'', JStr ''high'']),
                  (''data'', JArr [JNum 3, JNum 4])])"
  by (simp_all add: statsDown_def get_request_def result_of_def ok200_def)

lemma fullPage_elems:
  "elems fullPage i =
     (if i \<in> set (statCards @ dashboardIds @
         [''refresh-btn'', ''#refresh-btn i'', ''.page-header p'', ''analysis-result''])
      then Some blank else None)"
  by (simp add: fullPage_def)

lemma fullPage_simps [simp]:
  "charts fullPage = Map.empty" "widgets fullPage = []" "reportChart fullPage = None"
  "console fullPage = []" "requests fullPage = []" "pending fullPage = []"
  by (simp_all add: fullPage_def)

lemma allDown_simps [simp]: "result_of (allDown rq) = Inl FetchFailed"
  by (simp add: allDown_def result_of_def)

theorem refreshAllData_phases_witness:
  "fst (refreshAllData allDown fullPage) = Inr ()
   \<and> requests (snd (refreshAllData allDown fullPage))
       = [get_request ''/api/stats'', get_request ''/api/transactions?page=1&per_page=50'',
          get_request ''/api/transactions?page=1&per_page=100'']
   \<and> pending (snd (refreshAllData allDown fullPage)) = [AlertsSettled (Inl FetchFailed)]
   \<and> console (snd (refreshAllData allDown fullPage))
       = [ConsoleLog ''Refreshing all data...'', ConsoleError ''Dashboard error:'' FetchFailed,
          ConsoleError ''Error loading transactions:'' FetchFailed]
   \<and> console (settle (snd (refreshAllData allDown fullPage)))
       = [ConsoleLog ''Refreshing all data...'', ConsoleError ''Dashboard error:'' FetchFailed,
          ConsoleError ''Error loading transactions:'' FetchFailed,
          ConsoleError ''Error loading alerts:'' FetchFailed]
   \<and> html_of (settle (snd (refreshAllData allDown fullPage))) ''all-transactions-body''
       = Some allError
   \<and> html_of (settle (snd (refreshAllData allDown fullPage))) ''alerts-list'' = Some alertsError
   \<and> map (elems (settle (snd (refreshAllData allDown fullPage)))) statCards
       = map (elems fullPage) statCards
   \<and> fst (refreshAllData statsDown fullPage) = Inr ()
   \<and> requests (snd (refreshAllData statsDown fullPage))
       = [get_request ''/api/stats'', get_request ''/api/transactions?page=1&per_page=50'',
          get_request ''/api/transactions?page=1&per_page=100'']
   \<and> console (settle (snd (refreshAllData statsDown fullPage)))
       = [ConsoleLog ''Refreshing all data...'',
          ConsoleError ''Dashboard error:'' (Error ''SERVICE UNAVAILABLE'')]
   \<and> map (elems (settle (snd (refreshAllData statsDown fullPage)))) statCards
       = map (elems fullPage) statCards
   \<and> html_of (settle (snd (refreshAllData statsDown fullPage))) ''all-transactions-body''
       = Some (concat (fragments allRow [fraudTx, legitTx]))
   \<and> text_of (settle (snd (refreshAllData statsDown fullPage))) ''alert-badge'' = Some [Count 1]
   \<and> html_of (settle (snd (refreshAllData statsDown fullPage))) ''alerts-list''
       = Some (concat (fragments alertCard [fraudTx]))"
proof -
  note T = refreshAllData_phases [where nt = allDown and s = fullPage
         and r = "Inl FetchFailed" and e = FetchFailed]
  note S = refreshAllData_phases [where nt = statsDown and s = fullPage
         and r = "Inl FetchFailed" and e = "Error ''SERVICE UNAVAILABLE''"]
  note TL = T[THEN conjunct2, THEN conjunct2, THEN conjunct2, THEN conjunct2, THEN conjunct2, THEN conjunct2, THEN conjunct2, THEN conjunct2, THEN conjunct2, THEN conjunct2, THEN conjunct2, THEN conjunct2, THEN mp, OF allDown_simps]
  note SL = S[THEN conjunct2, THEN conjunct2, THEN conjunct2, THEN conjunct2, THEN conjunct2, THEN conjunct2, THEN conjunct2, THEN conjunct2, THEN conjunct2, THEN conjunct2, THEN conjunct2, THEN conjunct2, THEN mp, OF statsDown_simps(1)]
  have al: "elems fullPage ''alerts-list'' \<noteq> None"
    by (simp add: fullPage_elems dashboardIds_def)
  have 1: "fst (refreshAllData allDown fullPage) = Inr ()"
    using T by (rule conjunct1)
  have last: "requests (snd (refreshAllData allDown fullPage))
          = requests fullPage @ [get_request ''/api/stats'', get_request ''/api/transactions?page=1&per_page=50'']
              @ (if elems fullPage ''alerts-list'' = None then []
                 else [get_request ''/api/transactions?page=1&per_page=100''])
        \<and> (elems fullPage ''alerts-list'' \<noteq> None \<longrightarrow>
              pending (snd (refreshAllData allDown fullPage))
                = pending fullPage @
                    [AlertsSettled (result_of (allDown (get_request ''/api/transactions?page=1&per_page=100'')))])"
    using TL by (intro conjI) (elim conjE, assumption)+
  have 2: "requests (snd (refreshAllData allDown fullPage))
       = [get_request ''/api/stats'', get_request ''/api/transactions?page=1&per_page=50'',
          get_request ''/api/transactions?page=1&per_page=100'']"
    using last al by simp
  have 3: "pending (snd (refreshAllData allDown fullPage)) = [AlertsSettled (Inl FetchFailed)]"
    using last al by simp
  have 4: "console (snd (refreshAllData allDown fullPage))
       = [ConsoleLog ''Refreshing all data...'', ConsoleError ''Dashboard error:'' FetchFailed,
          ConsoleError ''Error loading transactions:'' FetchFailed]"
    by code_simp
  have 5: "console (settle (snd (refreshAllData allDown fullPage)))
       = [ConsoleLog ''Refreshing all data...'', ConsoleError ''Dashboard error:'' FetchFailed,
          ConsoleError ''Error loading transactions:'' FetchFailed,
          ConsoleError ''Error loading alerts:'' FetchFailed]"
    by code_simp
  have 6: "html_of (settle (snd (refreshAllData allDown fullPage))) ''all-transactions-body''
       = Some allError"
    by code_simp
  have 7: "html_of (settle (snd (refreshAllData allDown fullPage))) ''alerts-list'' = Some alertsError"
    by code_simp
  have 8: "map (elems (settle (snd (refreshAllData allDown fullPage)))) statCards
       = map (elems fullPage) statCards"
    using TL[THEN conjunct2, THEN conjunct2, THEN conjunct2] by (simp add: statCards_def)
  have 9: "fst (refreshAllData statsDown fullPage) = Inr ()"
    using S by (rule conjunct1)
  have lastS: "requests (snd (refreshAllData statsDown fullPage))
          = requests fullPage @ [get_request ''/api/stats'', get_request ''/api/transactions?page=1&per_page=50'']
              @ (if elems fullPage ''alerts-list'' = None then []
                 else [get_request ''/api/transactions?page=1&per_page=100''])
        \<and> (\<forall>i \<in> set statCards.
              elems (snd (refreshAllData statsDown fullPage)) i = elems fullPage i
              \<and> elems (settle (snd (refreshAllData statsDown fullPage))) i = elems fullPage i)"
    using SL by (intro conjI) (elim conjE, assumption)+
  have 10: "requests (snd (refreshAllData statsDown fullPage))
       = [get_request ''/api/stats'', get_request ''/api/transactions?page=1&per_page=50'',
          get_request ''/api/transactions?page=1&per_page=100'']"
    using lastS al by simp
  have 11: "console (settle (snd (refreshAllData statsDown fullPage)))
       = [ConsoleLog ''Refreshing all data...'',
          ConsoleError ''Dashboard error:'' (Error ''SERVICE UNAVAILABLE'')]"
    by code_simp
  have 12: "map (elems (settle (snd (refreshAllData statsDown fullPage)))) statCards
       = map (elems fullPage) statCards"
    using lastS by (simp add: statCards_def)
  have 13: "html_of (settle (snd (refreshAllData statsDown fullPage))) ''all-transactions-body''
       = Some (concat (fragments allRow [fraudTx, legitTx]))"
    by code_simp
  have 14: "text_of (settle (snd (refreshAllData statsDown fullPage))) ''alert-badge'' = Some [Count 1]"
    by code_simp
  have 15: "html_of (settle (snd (refreshAllData statsDown fullPage))) ''alerts-list''
       = Some (concat (fragments alertCard [fraudTx]))"
    by code_simp
  from 1 2 3 4 5 6 7 8 9 10 11 12 13 14 15 show ?thesis by (intro conjI)
qed
section \<open>Properties of the refresh button\<close>

lemma with_element_present:
  "elems s i = Some e \<Longrightarrow> with_element i f s = (Inr (), if_element i f s)"
  by (simp add: with_element_def if_element_def)

lemma headerTitle_other:
  "headerTitle \<notin> set statCards" "headerTitle \<noteq> ''recent-transactions-body''"
  "headerTitle \<noteq> ''all-transactions-body''" "headerTitle \<noteq> refreshIcon"
  "headerTitle \<noteq> ''analysis-result''"
  by (simp_all add: headerTitle_def statCards_def refreshIcon_def)

lemma updateTitle_cases:
  "updateTitle response s =
     (if elems s headerTitle = None then (Inr (), s)
      else (case caption response of
              Inl e \<Rightarrow> (Inl e, s)
            | Inr t \<Rightarrow> (Inr (), if_element headerTitle (\<lambda>e. e\<lparr>content := TextContent t\<rparr>) s)))"
  by (auto simp: updateTitle_def comp_defs set_textContent_def with_element_def if_element_def
        split: option.splits sum.splits)

lemma caption_plain:
  "\<not> nullish response \<Longrightarrow> plain response \<Longrightarrow>
   caption response = Inr [Lit ''Source: '', Val (field response ''source''),
                           Lit '' | Records: '', Val (field response ''count'')]"
  by (simp add: caption_def getprop_field plain_fields)

lemma caption_nullish: "nullish response \<Longrightarrow> caption response = Inl TypeError"
  by (auto simp: caption_def nullish_def)

lemma afterPost_header [simp]: "elems (afterPost s) headerTitle = elems s headerTitle"
  by (simp add: afterPost_def headerTitle_other)

text \<open>
  C9. With the button and its icon on the page, \<open>handleRefresh\<close> never throws. Of its
  four steps the full refresh and the hiding of the analysis result cannot throw; the
  POST and the writing of the caption can. It issues the POST first. If the POST fails,
  nothing else is requested or changed: the failure is logged and the icon is left to
  stop. If it succeeds, the full refresh runs on the page as it then is: the dashboard,
  the transactions and the alerts phase, one after the other, none of which throws
  whatever fails inside it. Then the caption is built from \<open>source\<close> and \<open>count\<close> of
  the response and written, and then the analysis result is hidden. If the caption
  cannot be built (the response is \<open>null\<close>, or \<open>source\<close> or \<open>count\<close> has no
  conversion to text), that is logged, the caption is not written, the analysis result
  is not hidden, and what the refresh changed stays. For a response that is not \<open>null\<close>
  and has no field named \<open>toString\<close> or \<open>toLocaleString\<close> inside it, the caption is built.
\<close>

theorem handleRefresh_sequence:
  assumes "elems s ''refresh-btn'' \<noteq> None" and "elems s refreshIcon \<noteq> None"
  shows "fst (handleRefresh nt s) = Inr ()
       \<and> fst (refreshAllData nt (afterPost s)) = Inr ()
       \<and> snd (refreshAllData nt (afterPost s)) =
           snd (loadAlerts nt (snd (loadTransactions nt (snd (loadDashboardData nt
             (emit (ConsoleLog ''Refreshing all data...'') (afterPost s)))))))
       \<and> fst (resetAnalysis sa) = Inr ()
       \<and> (result_of (nt (post_request ''/api/refresh'')) = Inl e \<longrightarrow>
            snd (handleRefresh nt s)
              = spinStopLater (emit (ConsoleError ''Refresh failed:'' e) (afterPost s)))
       \<and> (result_of (nt (post_request ''/api/refresh'')) = Inr response \<longrightarrow>
            (elems s headerTitle \<noteq> None \<and> caption response = Inl e \<longrightarrow>
               snd (handleRefresh nt s)
                 = spinStopLater (emit (ConsoleError ''Refresh failed:'' e)
                     (snd (refreshAllData nt (afterPost s)))))
          \<and> (elems s headerTitle \<noteq> None \<and> caption response = Inr t \<longrightarrow>
               snd (handleRefresh nt s)
                 = spinStopLater (if_element ''analysis-result'' (classList_add ''hidden'')
                     (if_element headerTitle (\<lambda>e. e\<lparr>content := TextContent t\<rparr>)
                        (snd (refreshAllData nt (afterPost s))))))
          \<and> (elems s headerTitle = None \<longrightarrow>
               snd (handleRefresh nt s)
                 = spinStopLater (if_element ''analysis-result'' (classList_add ''hidden'')
                     (snd (refreshAllData nt (afterPost s))))))
       \<and> (nullish response \<longrightarrow> caption response = Inl TypeError)
       \<and> (\<not> nullish response \<and> plain response \<longrightarrow>
            caption response = Inr [Lit ''Source: '', Val (field response ''source''),
                                    Lit '' | Records: '', Val (field response ''count'')])"
proof -
  obtain btn icon where b: "elems s ''refresh-btn'' = Some btn" and i: "elems s refreshIcon = Some icon"
    using assms by auto
  define s0 where "s0 = if_element refreshIcon (classList_add ''fa-spin'') s"
  have w: "with_element refreshIcon (classList_add ''fa-spin'') s = (Inr (), s0)"
    unfolding s0_def by (rule with_element_present[OF i])
  have f: "fetchAPI nt ''/api/refresh'' ''POST'' None s0
         = (result_of (nt (post_request ''/api/refresh'')), afterPost s)"
    by (simp add: fetchAPI_def Let_def post_request_def afterPost_def s0_def)
  define sr where "sr = snd (refreshAllData nt (afterPost s))"
  have r: "refreshAllData nt (afterPost s) = (Inr (), sr)"
    unfolding sr_def by (simp add: refreshAllData_eq)
  have h: "elems sr headerTitle = elems s headerTitle"
    unfolding sr_def by (simp add: refreshAllData_elems headerTitle_other)
  have x: "fst (refreshAllData nt (afterPost s)) = Inr ()" "fst (resetAnalysis sa) = Inr ()"
    by (simp_all add: r resetAnalysis_def)
  have pin: "snd (refreshAllData nt (afterPost s)) =
           snd (loadAlerts nt (snd (loadTransactions nt (snd (loadDashboardData nt
             (emit (ConsoleLog ''Refreshing all data...'') (afterPost s)))))))"
    by (simp add: refreshAllData_eq)
  have main: "fst (handleRefresh nt s) = Inr ()
       \<and> (result_of (nt (post_request ''/api/refresh'')) = Inl e \<longrightarrow>
            snd (handleRefresh nt s)
              = spinStopLater (emit (ConsoleError ''Refresh failed:'' e) (afterPost s)))
       \<and> (result_of (nt (post_request ''/api/refresh'')) = Inr response \<longrightarrow>
            (elems s headerTitle \<noteq> None \<and> caption response = Inl e \<longrightarrow>
               snd (handleRefresh nt s)
                 = spinStopLater (emit (ConsoleError ''Refresh failed:'' e) sr))
          \<and> (elems s headerTitle \<noteq> None \<and> caption response = Inr t \<longrightarrow>
               snd (handleRefresh nt s)
                 = spinStopLater (if_element ''analysis-result'' (classList_add ''hidden'')
                     (if_element headerTitle (\<lambda>e. e\<lparr>content := TextContent t\<rparr>) sr)))
          \<and> (elems s headerTitle = None \<longrightarrow>
               snd (handleRefresh nt s)
                 = spinStopLater (if_element ''analysis-result'' (classList_add ''hidden'') sr)))"
    unfolding handleRefresh_def
    by (simp add: b w f r h bind_def catch_def tell_def updateTitle_cases resetAnalysis_def
          spinStopLater_def split: sum.splits)
  show ?thesis
    using main x pin caption_nullish[of response] caption_plain[of response]
    unfolding sr_def by (intro conjI impI) (simp_all only: simp_thms)
qed

lemma refresh_nets:
  "result_of (refreshDown (post_request ''/api/refresh'')) = Inl FetchFailed"
  "result_of (refreshed (post_request ''/api/refresh''))
     = Inr (JObj [(''source'', JStr ''batch2.csv''), (''count'', JNum 500)])"
  "result_of (refreshedNull (post_request ''/api/refresh'')) = Inr JNull"
  "result_of (refreshedOdd (post_request ''/api/refresh''))
     = Inr (JObj [(''source'', JObj [(''toString'', JNum 1)]), (''count'', JNum 500)])"
  by (simp_all add: refreshDown_def refreshed_def refreshedNull_def refreshedOdd_def
        post_request_def result_of_def ok200_def)

lemma fullPage_present:
  "elems fullPage ''refresh-btn'' = Some blank" "elems fullPage refreshIcon = Some blank"
  "elems fullPage headerTitle = Some blank" "elems fullPage ''analysis-result'' = Some blank"
  by (simp_all add: fullPage_elems refreshIcon_def headerTitle_def)

theorem handleRefresh_sequence_witness:
  "snd (handleRefresh refreshDown fullPage)
     = spinStopLater (emit (ConsoleError ''Refresh failed:'' FetchFailed) (afterPost fullPage))
   \<and> requests (snd (handleRefresh refreshDown fullPage)) = [post_request ''/api/refresh'']
   \<and> snd (handleRefresh refreshed fullPage)
       = spinStopLater (if_element ''analysis-result'' (classList_add ''hidden'')
           (if_element headerTitle
              (\<lambda>e. e\<lparr>content := TextContent
                 [Lit ''Source: '', Val (JStr ''batch2.csv''), Lit '' | Records: '', Val (JNum 500)]\<rparr>)
              (snd (refreshAllData refreshed (afterPost fullPage)))))
   \<and> requests (snd (handleRefresh refreshed fullPage))
       = post_request ''/api/refresh'' # get_request ''/api/stats'' # map get_request chartUrls
         @ [get_request ''/api/transactions?page=1&per_page=50'',
            get_request ''/api/transactions?page=1&per_page=100'']
   \<and> text_of (snd (handleRefresh refreshed fullPage)) headerTitle
       = Some [Lit ''Source: '', Val (JStr ''batch2.csv''), Lit '' | Records: '', Val (JNum 500)]
   \<and> map_option classList (elems (snd (handleRefresh refreshed fullPage)) ''analysis-result'')
       = Some [''hidden'']
   \<and> text_of (snd (handleRefresh refreshed fullPage)) ''total-transactions''
       = Some [Locale (JNum 2)]
   \<and> html_of (snd (handleRefresh refreshed fullPage)) ''all-transactions-body''
       = Some (concat (fragments allRow [fraudTx, legitTx]))
   \<and> pending (snd (handleRefresh refreshed fullPage)) = [AlertsSettled (Inr everything), SpinStop]
   \<and> text_of (settle (snd (handleRefresh refreshed fullPage))) ''alert-badge'' = Some [Count 1]
   \<and> snd (handleRefresh refreshedNull fullPage)
       = spinStopLater (emit (ConsoleError ''Refresh failed:'' TypeError)
           (snd (refreshAllData refreshedNull (afterPost fullPage))))
   \<and> map_option classList (elems (snd (handleRefresh refreshedNull fullPage)) ''analysis-result'')
       = Some []
   \<and> text_of (snd (handleRefresh refreshedNull fullPage)) headerTitle = None
   \<and> snd (handleRefresh refreshedOdd fullPage)
       = spinStopLater (emit (ConsoleError ''Refresh failed:'' TypeError)
           (snd (refreshAllData refreshedOdd (afterPost fullPage))))
   \<and> last (console (snd (handleRefresh refreshedOdd fullPage)))
       = ConsoleError ''Refresh failed:'' TypeError
   \<and> map_option classList (elems (snd (handleRefresh refreshedOdd fullPage)) ''analysis-result'')
       = Some []
   \<and> text_of (snd (handleRefresh refreshedOdd fullPage)) headerTitle = None
   \<and> html_of (snd (handleRefresh refreshedOdd fullPage)) ''all-transactions-body''
       = Some (concat (fragments allRow [fraudTx, legitTx]))"
proof -
  have p: "elems fullPage ''refresh-btn'' \<noteq> None" "elems fullPage refreshIcon \<noteq> None"
    by (simp_all add: fullPage_present)
  have hd: "elems fullPage headerTitle \<noteq> None"
    by (simp add: fullPage_present)
  note A = handleRefresh_sequence [where s = fullPage and sa = fullPage and nt = refreshDown
             and e = FetchFailed and response = JNull, OF p]
  note B = handleRefresh_sequence [where s = fullPage and sa = fullPage and nt = refreshed
             and e = FetchFailed
             and response = "JObj [(''source'', JStr ''batch2.csv''), (''count'', JNum 500)]"
             and t = "[Lit ''Source: '', Val (JStr ''batch2.csv''), Lit '' | Records: '', Val (JNum 500)]",
             OF p]
  note C = handleRefresh_sequence [where s = fullPage and sa = fullPage and nt = refreshedNull
             and e = TypeError and response = JNull, OF p]
  note D = handleRefresh_sequence [where s = fullPage and sa = fullPage and nt = refreshedOdd
             and e = TypeError
             and response = "JObj [(''source'', JObj [(''toString'', JNum 1)]), (''count'', JNum 500)]",
             OF p]
  note post = conjunct2[THEN conjunct2, THEN conjunct2, THEN conjunct2]
  have 1: "snd (handleRefresh refreshDown fullPage)
     = spinStopLater (emit (ConsoleError ''Refresh failed:'' FetchFailed) (afterPost fullPage))"
    using A[THEN post, THEN conjunct1, THEN mp, OF refresh_nets(1)] .
  have cb: "caption (JObj [(''source'', JStr ''batch2.csv''), (''count'', JNum 500)])
         = Inr [Lit ''Source: '', Val (JStr ''batch2.csv''), Lit '' | Records: '', Val (JNum 500)]"
    by code_simp
  have 3: "snd (handleRefresh refreshed fullPage)
       = spinStopLater (if_element ''analysis-result'' (classList_add ''hidden'')
           (if_element headerTitle
              (\<lambda>e. e\<lparr>content := TextContent
                 [Lit ''Source: '', Val (JStr ''batch2.csv''), Lit '' | Records: '', Val (JNum 500)]\<rparr>)
              (snd (refreshAllData refreshed (afterPost fullPage)))))"
    using B[THEN post, THEN conjunct2, THEN conjunct1, THEN mp, OF refresh_nets(2),
            THEN conjunct2, THEN conjunct1, THEN mp, OF conjI, OF hd cb] .
  have cc: "caption JNull = Inl TypeError"
    by code_simp
  have 11: "snd (handleRefresh refreshedNull fullPage)
       = spinStopLater (emit (ConsoleError ''Refresh failed:'' TypeError)
           (snd (refreshAllData refreshedNull (afterPost fullPage))))"
    using C[THEN post, THEN conjunct2, THEN conjunct1, THEN mp, OF refresh_nets(3),
            THEN conjunct1, THEN mp, OF conjI, OF hd cc] .
  have cd: "caption (JObj [(''source'', JObj [(''toString'', JNum 1)]), (''count'', JNum 500)])
         = Inl TypeError"
    by code_simp
  have 14: "snd (handleRefresh refreshedOdd fullPage)
       = spinStopLater (emit (ConsoleError ''Refresh failed:'' TypeError)
           (snd (refreshAllData refreshedOdd (afterPost fullPage))))"
    using D[THEN post, THEN conjunct2, THEN conjunct1, THEN mp, OF refresh_nets(4),
            THEN conjunct1, THEN mp, OF conjI, OF hd cd] .
  have 2: "requests (snd (handleRefresh refreshDown fullPage)) = [post_request ''/api/refresh'']"
    by code_simp
  have 4: "requests (snd (handleRefresh refreshed fullPage))
       = post_request ''/api/refresh'' # get_request ''/api/stats'' # map get_request chartUrls
         @ [get_request ''/api/transactions?page=1&per_page=50'',
            get_request ''/api/transactions?page=1&per_page=100'']"
    by code_simp
  have 5: "text_of (snd (handleRefresh refreshed fullPage)) headerTitle
       = Some [Lit ''Source: '', Val (JStr ''batch2.csv''), Lit '' | Records: '', Val (JNum 500)]"
    by code_simp
  have 6: "map_option classList (elems (snd (handleRefresh refreshed fullPage)) ''analysis-result'')
       = Some [''hidden'']"
    by code_simp
  have 7: "text_of (snd (handleRefresh refreshed fullPage)) ''total-transactions''
       = Some [Locale (JNum 2)]"
    by code_simp
  have 8: "html_of (snd (handleRefresh refreshed fullPage)) ''all-transactions-body''
       = Some (concat (fragments allRow [fraudTx, legitTx]))"
    by code_simp
  have 9: "pending (snd (handleRefresh refreshed fullPage)) = [AlertsSettled (Inr everything), SpinStop]"
    by code_simp
  have 10: "text_of (settle (snd (handleRefresh refreshed fullPage))) ''alert-badge'' = Some [Count 1]"
    by code_simp
  have 12: "map_option classList (elems (snd (handleRefresh refreshedNull fullPage)) ''analysis-result'')
       = Some []"
    by code_simp
  have 13: "text_of (snd (handleRefresh refreshedNull fullPage)) headerTitle = None"
    by code_simp
  have 15: "last (console (snd (handleRefresh refreshedOdd fullPage)))
       = ConsoleError ''Refresh failed:'' TypeError"
    by code_simp
  have 16: "map_option classList (elems (snd (handleRefresh refreshedOdd fullPage)) ''analysis-result'')
       = Some []"
    by code_simp
  have 17: "text_of (snd (handleRefresh refreshedOdd fullPage)) headerTitle = None"
    by code_simp
  have 18: "html_of (snd (handleRefresh refreshedOdd fullPage)) ''all-transactions-body''
       = Some (concat (fragments allRow [fraudTx, legitTx]))"
    by code_simp
  from 1 2 3 4 5 6 7 8 9 10 11 12 13 14 15 16 17 18 show ?thesis by (intro conjI)
qed
section \<open>Properties of the analysis form\<close>

lemma value_of_present: "elems s i = Some e \<Longrightarrow> value_of i s = (Inr (inputValue e), s)"
  by (simp add: value_of_def)

lemma analyze_fields:
  assumes "elems s ''analyze-amount'' = Some a" and "elems s ''analyze-type'' = Some t"
      and "elems s ''analyze-location'' = Some l"
  shows "analyzeTransaction nt s =
     (if inputValue a = [] then tell (Alert ''Enter amount'') s
      else catch
           (bind (fetchAPI nt ''/api/analyze'' ''POST''
                    (Some [(''amount'', PFloat (inputValue a)), (''transaction_type'', PStr (inputValue t)),
                           (''location'', PStr (inputValue l))]))
              showVerdict)
           (\<lambda>e. tell (Alert ''Analysis failed'')) s)"
  by (simp add: analyzeTransaction_def bind_def value_of_present assms)

lemma keeps_requests_with_element: "keeps (\<lambda>s. requests s = x) (with_element i f)"
  by (simp add: keeps_def)

lemma keeps_requests_set_textContent: "keeps (\<lambda>s. requests s = x) (set_textContent i t)"
  by (simp add: keeps_def set_textContent_def)

lemma keeps_requests_tell: "keeps (\<lambda>s. requests s = x) (tell ev)"
  by (simp add: keeps_def tell_def)

lemma keeps_requests_showVerdict: "keeps (\<lambda>s. requests s = x) (showVerdict res)"
  unfolding showVerdict_def
  by (intro keeps_bind keeps_pure keeps_requests_with_element keeps_requests_set_textContent)

lemma keeps_console_showVerdict: "keeps (\<lambda>s. console s = x) (showVerdict res)"
  unfolding showVerdict_def
  by (intro keeps_bind keeps_pure) (simp_all add: keeps_def set_textContent_def)

text \<open>
  What the statements after the request write, for a verdict that is not \<open>null\<close> and
  has no field named \<open>toString\<close> or \<open>toLocaleString\<close> inside it, with the result
  elements on the page.
\<close>

lemma showVerdict_plain:
  assumes n: "\<not> nullish res" and p: "plain res"
      and e: "\<forall>i \<in> set resultIds. elems s i \<noteq> None"
  shows "fst (showVerdict res s) = Inr ()"
    and "map_option classList (elems (snd (showVerdict res s)) ''analysis-result'')
           = map_option (\<lambda>x. filter (\<lambda>c. c \<noteq> ''hidden'') (classList x)) (elems s ''analysis-result'')"
    and "text_of (snd (showVerdict res s)) ''result-prediction''
           = Some [Lit (if truthy (field res ''is_fraud'') then ''FRAUD DETECTED'' else ''Legitimate'')]"
    and "map_option color (elems (snd (showVerdict res s)) ''result-prediction'')
           = Some (if truthy (field res ''is_fraud'') then ''#ef4444'' else ''#10b981'')"
    and "text_of (snd (showVerdict res s)) ''result-probability''
           = Some [Pct 2 (field res ''fraud_probability''), Lit ''%'']"
    and "text_of (snd (showVerdict res s)) ''result-risk''
           = Some [if nullish (field res ''risk_level'') then Lit []
                   else Val (field res ''risk_level'')]"
    and "text_of (snd (showVerdict res s)) ''result-recommendation''
           = Some [if nullish (field res ''recommendation'') then Lit []
                   else Val (field res ''recommendation'')]"
proof -
  obtain e1 e2 e3 e4 e5 where el:
    "elems s ''analysis-result'' = Some e1" "elems s ''result-prediction'' = Some e2"
    "elems s ''result-probability'' = Some e3" "elems s ''result-risk'' = Some e4"
    "elems s ''result-recommendation'' = Some e5"
    using e by (auto simp: resultIds_def)
  note pf = plain_texts[OF plain_field[OF p]]
  show "fst (showVerdict res s) = Inr ()"
    and "map_option classList (elems (snd (showVerdict res s)) ''analysis-result'')
           = map_option (\<lambda>x. filter (\<lambda>c. c \<noteq> ''hidden'') (classList x)) (elems s ''analysis-result'')"
    and "text_of (snd (showVerdict res s)) ''result-prediction''
           = Some [Lit (if truthy (field res ''is_fraud'') then ''FRAUD DETECTED'' else ''Legitimate'')]"
    and "map_option color (elems (snd (showVerdict res s)) ''result-prediction'')
           = Some (if truthy (field res ''is_fraud'') then ''#ef4444'' else ''#10b981'')"
    and "text_of (snd (showVerdict res s)) ''result-probability''
           = Some [Pct 2 (field res ''fraud_probability''), Lit ''%'']"
    and "text_of (snd (showVerdict res s)) ''result-risk''
           = Some [if nullish (field res ''risk_level'') then Lit []
                   else Val (field res ''risk_level'')]"
    and "text_of (snd (showVerdict res s)) ''result-recommendation''
           = Some [if nullish (field res ''recommendation'') then Lit []
                   else Val (field res ''recommendation'')]"
    by (simp_all add: showVerdict_def bind_def lift_def getprop_field[OF n] set_textContent_def
          with_element_def el text_of_def classList_remove_def pf lit_def)
qed

text \<open>
  C8. With the three fields of the form on the page, \<open>analyzeTransaction\<close> never
  throws. When the amount is empty it raises the alert "Enter amount" and does nothing
  else: no request is issued. Otherwise it issues exactly one request, the POST to the
  analyze endpoint with the parsed amount, the type and the location, and then logs
  nothing. When that request fails the alert "Analysis failed" is raised. When it is
  answered, the statements that show the verdict run; when one of them throws, the
  alert "Analysis failed" is raised and what was written before stays. When the verdict
  is not \<open>null\<close> and has no field named \<open>toString\<close> or \<open>toLocaleString\<close> inside it, and
  the result elements are on the page, none of them throws: no alert is raised, the
  result panel is shown and the prediction (with its colour), probability, risk level
  and recommendation are written from the verdict.
\<close>

theorem analyzeTransaction_cases:
  assumes "elems s ''analyze-amount'' = Some a" and "elems s ''analyze-type'' = Some t"
      and "elems s ''analyze-location'' = Some l"
  shows "fst (analyzeTransaction nt s) = Inr ()
       \<and> (inputValue a = [] \<longrightarrow>
            snd (analyzeTransaction nt s) = emit (Alert ''Enter amount'') s
            \<and> requests (snd (analyzeTransaction nt s)) = requests s)
       \<and> (inputValue a \<noteq> [] \<longrightarrow>
            requests (snd (analyzeTransaction nt s))
              = requests s @ [analyzeRequest (inputValue a) (inputValue t) (inputValue l)]
            \<and> (result_of (nt (analyzeRequest (inputValue a) (inputValue t) (inputValue l))) = Inl e \<longrightarrow>
                 snd (analyzeTransaction nt s)
                   = emit (Alert ''Analysis failed'')
                       (s\<lparr>requests := requests s @
                            [analyzeRequest (inputValue a) (inputValue t) (inputValue l)]\<rparr>))
            \<and> (result_of (nt (analyzeRequest (inputValue a) (inputValue t) (inputValue l))) = Inr res
                 \<and> fst (showVerdict res (s\<lparr>requests := requests s @
                            [analyzeRequest (inputValue a) (inputValue t) (inputValue l)]\<rparr>)) = Inl e \<longrightarrow>
                 snd (analyzeTransaction nt s)
                   = emit (Alert ''Analysis failed'')
                       (snd (showVerdict res (s\<lparr>requests := requests s @
                            [analyzeRequest (inputValue a) (inputValue t) (inputValue l)]\<rparr>))))
            \<and> (result_of (nt (analyzeRequest (inputValue a) (inputValue t) (inputValue l))) = Inr res
                 \<and> \<not> nullish res \<and> plain res \<and> (\<forall>i \<in> set resultIds. elems s i \<noteq> None) \<longrightarrow>
                 console (snd (analyzeTransaction nt s)) = console s
                 \<and> map_option classList (elems (snd (analyzeTransaction nt s)) ''analysis-result'')
                     = map_option (\<lambda>x. filter (\<lambda>c. c \<noteq> ''hidden'') (classList x)) (elems s ''analysis-result'')
                 \<and> text_of (snd (analyzeTransaction nt s)) ''result-prediction''
                     = Some [Lit (if truthy (field res ''is_fraud'') then ''FRAUD DETECTED''
                                  else ''Legitimate'')]
                 \<and> map_option color (elems (snd (analyzeTransaction nt s)) ''result-prediction'')
                     = Some (if truthy (field res ''is_fraud'') then ''#ef4444'' else ''#10b981'')
                 \<and> text_of (snd (analyzeTransaction nt s)) ''result-probability''
                     = Some [Pct 2 (field res ''fraud_probability''), Lit ''%'']
                 \<and> text_of (snd (analyzeTransaction nt s)) ''result-risk''
                     = Some [if nullish (field res ''risk_level'') then Lit []
                             else Val (field res ''risk_level'')]
                 \<and> text_of (snd (analyzeTransaction nt s)) ''result-recommendation''
                     = Some [if nullish (field res ''recommendation'') then Lit []
                             else Val (field res ''recommendation'')]))"
proof -
  note A = analyze_fields[OF assms, of nt]
  let ?rq = "analyzeRequest (inputValue a) (inputValue t) (inputValue l)"
  define s1 where "s1 = s\<lparr>requests := requests s @ [?rq]\<rparr>"
  have B: "analyzeTransaction nt s =
             (case result_of (nt ?rq) of
                Inl e \<Rightarrow> (Inr (), emit (Alert ''Analysis failed'') s1)
              | Inr res \<Rightarrow>
                  (case fst (showVerdict res s1) of
                     Inl e \<Rightarrow> (Inr (), emit (Alert ''Analysis failed'') (snd (showVerdict res s1)))
                   | Inr u \<Rightarrow> (Inr (), snd (showVerdict res s1))))"
    if "inputValue a \<noteq> []"
    unfolding A using that
    by (simp add: catch_def bind_fetchAPI tell_def s1_def analyzeRequest_def
          split: sum.splits prod.splits)
  have r1: "fst (analyzeTransaction nt s) = Inr ()"
    unfolding A by (simp add: tell_def catch_unit_returns)
  have r2: "inputValue a = [] \<longrightarrow>
            snd (analyzeTransaction nt s) = emit (Alert ''Enter amount'') s
            \<and> requests (snd (analyzeTransaction nt s)) = requests s"
    unfolding A by (simp add: tell_def)
  have rs: "requests (snd (showVerdict res s1)) = requests s @ [?rq]" for res
    using keeps_requests_showVerdict[of "requests s1" res] by (simp add: keeps_def s1_def)
  have cs: "console (snd (showVerdict res s1)) = console s" for res
    using keeps_console_showVerdict[of "console s1" res] by (simp add: keeps_def s1_def)
  have r3: "requests (snd (analyzeTransaction nt s)) = requests s @ [?rq]" if "inputValue a \<noteq> []"
    using rs by (simp add: B[OF that] s1_def split: sum.splits)
  have r4: "snd (analyzeTransaction nt s) = emit (Alert ''Analysis failed'') s1"
    if "inputValue a \<noteq> []" "result_of (nt ?rq) = Inl e"
    by (simp add: B[OF that(1)] that(2))
  have r5: "snd (analyzeTransaction nt s) = emit (Alert ''Analysis failed'') (snd (showVerdict res s1))"
    if "inputValue a \<noteq> []" "result_of (nt ?rq) = Inr res" "fst (showVerdict res s1) = Inl e"
    by (simp add: B[OF that(1)] that(2,3))
  have r6: "console (snd (analyzeTransaction nt s)) = console s
                 \<and> map_option classList (elems (snd (analyzeTransaction nt s)) ''analysis-result'')
                     = map_option (\<lambda>x. filter (\<lambda>c. c \<noteq> ''hidden'') (classList x)) (elems s ''analysis-result'')
                 \<and> text_of (snd (analyzeTransaction nt s)) ''result-prediction''
                     = Some [Lit (if truthy (field res ''is_fraud'') then ''FRAUD DETECTED''
                                  else ''Legitimate'')]
                 \<and> map_option color (elems (snd (analyzeTransaction nt s)) ''result-prediction'')
                     = Some (if truthy (field res ''is_fraud'') then ''#ef4444'' else ''#10b981'')
                 \<and> text_of (snd (analyzeTransaction nt s)) ''result-probability''
                     = Some [Pct 2 (field res ''fraud_probability''), Lit ''%'']
                 \<and> text_of (snd (analyzeTransaction nt s)) ''result-risk''
                     = Some [if nullish (field res ''risk_level'') then Lit []
                             else Val (field res ''risk_level'')]
                 \<and> text_of (snd (analyzeTransaction nt s)) ''result-recommendation''
                     = Some [if nullish (field res ''recommendation'') then Lit []
                             else Val (field res ''recommendation'')]"
    if h: "inputValue a \<noteq> []" "result_of (nt ?rq) = Inr res" "\<not> nullish res" "plain res"
          "\<forall>i \<in> set resultIds. elems s i \<noteq> None"
  proof -
    have e1: "\<forall>i \<in> set resultIds. elems s1 i \<noteq> None"
      using h(5) by (simp add: s1_def)
    note V = showVerdict_plain[OF h(3,4) e1]
    have eq: "snd (analyzeTransaction nt s) = snd (showVerdict res s1)"
      by (simp add: B[OF h(1)] h(2) V(1))
    have el: "elems s1 = elems s" by (simp add: s1_def)
    show ?thesis
      unfolding eq using V(2-7) by (simp only: cs el simp_thms)
  qed
  from r1 r2 r3 r4 r5 r6 show ?thesis unfolding s1_def by blast
qed

lemma formPage_elems:
  "elems (formPage amt) ''analyze-amount'' = Some (blank\<lparr>inputValue := amt\<rparr>)"
  "elems (formPage amt) ''analyze-type'' = Some (blank\<lparr>inputValue := ''transfer''\<rparr>)"
  "elems (formPage amt) ''analyze-location'' = Some (blank\<lparr>inputValue := ''Pune''\<rparr>)"
  "elems (formPage amt) ''analysis-result'' = Some (blank\<lparr>classList := [''hidden'']\<rparr>)"
  "\<forall>i \<in> set resultIds. elems (formPage amt) i \<noteq> None"
  "requests (formPage amt) = []" "console (formPage amt) = []"
  by (simp_all add: formPage_def resultIds_def)


theorem analyzeTransaction_cases_witness:
  "requests (snd (analyzeTransaction (always verdict) (formPage ''''))) = []
   \<and> console (snd (analyzeTransaction (always verdict) (formPage ''''))) = [Alert ''Enter amount'']
   \<and> requests (snd (analyzeTransaction (always verdict) (formPage ''250'')))
       = [analyzeRequest ''250'' ''transfer'' ''Pune'']
   \<and> console (snd (analyzeTransaction (always verdict) (formPage ''250''))) = []
   \<and> text_of (snd (analyzeTransaction (always verdict) (formPage ''250''))) ''result-prediction''
       = Some [Lit ''FRAUD DETECTED'']
   \<and> text_of (snd (analyzeTransaction (always verdict) (formPage ''250''))) ''result-probability''
       = Some [Pct 2 (JNum (9 / 10)), Lit ''%'']
   \<and> text_of (snd (analyzeTransaction (always verdict) (formPage ''250''))) ''result-risk''
       = Some [Val (JStr ''HIGH'')]
   \<and> text_of (snd (analyzeTransaction (always verdict) (formPage ''250''))) ''result-recommendation''
       = Some [Val (JStr ''Block'')]
   \<and> map_option classList (elems (snd (analyzeTransaction (always verdict) (formPage ''250'')))
         ''analysis-result'') = Some []
   \<and> snd (analyzeTransaction allDown (formPage ''250''))
       = emit (Alert ''Analysis failed'')
           ((formPage ''250'')\<lparr>requests := requests (formPage ''250'')
              @ [analyzeRequest ''250'' ''transfer'' ''Pune'']\<rparr>)
   \<and> console (snd (analyzeTransaction allDown (formPage ''250''))) = [Alert ''Analysis failed'']
   \<and> snd (analyzeTransaction (always oddVerdict) (formPage ''250''))
       = emit (Alert ''Analysis failed'')
           (snd (showVerdict oddVerdict
              ((formPage ''250'')\<lparr>requests := requests (formPage ''250'')
                 @ [analyzeRequest ''250'' ''transfer'' ''Pune'']\<rparr>)))
   \<and> console (snd (analyzeTransaction (always oddVerdict) (formPage ''250'')))
       = [Alert ''Analysis failed'']
   \<and> text_of (snd (analyzeTransaction (always oddVerdict) (formPage ''250''))) ''result-probability''
       = Some [Pct 2 (JNum (9 / 10)), Lit ''%'']
   \<and> text_of (snd (analyzeTransaction (always oddVerdict) (formPage ''250''))) ''result-risk'' = None
   \<and> text_of (snd (analyzeTransaction (always oddVerdict) (formPage ''250'')))
        ''result-recommendation'' = None"
proof -
  note A = analyzeTransaction_cases [OF formPage_elems(1)[of "''''"] formPage_elems(2)
             formPage_elems(3), where nt = "always verdict" and e = TypeError and res = verdict]
  note B = analyzeTransaction_cases [OF formPage_elems(1)[of "''250''"] formPage_elems(2)
             formPage_elems(3), where nt = "always verdict" and e = TypeError and res = verdict]
  note C = analyzeTransaction_cases [OF formPage_elems(1)[of "''250''"] formPage_elems(2)
             formPage_elems(3), where nt = allDown and e = FetchFailed and res = verdict]
  note D = analyzeTransaction_cases [OF formPage_elems(1)[of "''250''"] formPage_elems(2)
             formPage_elems(3), where nt = "always oddVerdict" and e = TypeError and res = oddVerdict]
  have v: "\<not> nullish verdict" "plain verdict" "truthy (field verdict ''is_fraud'')"
    "field verdict ''fraud_probability'' = JNum (9 / 10)"
    "field verdict ''risk_level'' = JStr ''HIGH''" "field verdict ''recommendation'' = JStr ''Block''"
    by (simp_all add: nullish_def verdict_def field_def)
  have ne: "inputValue (blank\<lparr>inputValue := ''250''\<rparr>) \<noteq> []" by simp
  have iv: "inputValue (blank\<lparr>inputValue := ''250''\<rparr>) = ''250''"
    "inputValue (blank\<lparr>inputValue := ''transfer''\<rparr>) = ''transfer''"
    "inputValue (blank\<lparr>inputValue := ''Pune''\<rparr>) = ''Pune''"
    by simp_all
  have 1: "requests (snd (analyzeTransaction (always verdict) (formPage ''''))) = []"
          "console (snd (analyzeTransaction (always verdict) (formPage ''''))) = [Alert ''Enter amount'']"
    using A[THEN conjunct2, THEN conjunct1] by (simp_all add: blank_def formPage_elems)
  note B2 = B[THEN conjunct2, THEN conjunct2, THEN mp, OF ne, unfolded iv]
  have 2: "requests (snd (analyzeTransaction (always verdict) (formPage ''250'')))
       = [analyzeRequest ''250'' ''transfer'' ''Pune'']"
    using B2[THEN conjunct1] by (simp add: formPage_elems)
  have hb: "result_of (always verdict (analyzeRequest ''250'' ''transfer'' ''Pune'')) = Inr verdict
            \<and> \<not> nullish verdict \<and> plain verdict
            \<and> (\<forall>i \<in> set resultIds. elems (formPage ''250'') i \<noteq> None)"
    using v formPage_elems(5)[of "''250''"] by simp
  note B3 = B2[THEN conjunct2, THEN conjunct2, THEN conjunct2, THEN mp, OF hb]
  have 3: "console (snd (analyzeTransaction (always verdict) (formPage ''250''))) = []"
    using B3[THEN conjunct1] by (simp add: formPage_elems)
  have 4: "text_of (snd (analyzeTransaction (always verdict) (formPage ''250''))) ''result-prediction''
       = Some [Lit ''FRAUD DETECTED'']"
    using B3[THEN conjunct2, THEN conjunct2, THEN conjunct1] v by simp
  have 5: "text_of (snd (analyzeTransaction (always verdict) (formPage ''250''))) ''result-probability''
       = Some [Pct 2 (JNum (9 / 10)), Lit ''%'']"
    by code_simp
  have 6: "text_of (snd (analyzeTransaction (always verdict) (formPage ''250''))) ''result-risk''
       = Some [Val (JStr ''HIGH'')]"
    by code_simp
  have 7: "text_of (snd (analyzeTransaction (always verdict) (formPage ''250''))) ''result-recommendation''
       = Some [Val (JStr ''Block'')]"
    by code_simp
  have 8: "map_option classList (elems (snd (analyzeTransaction (always verdict) (formPage ''250'')))
         ''analysis-result'') = Some []"
    using B3[THEN conjunct2, THEN conjunct1] by (simp add: formPage_elems(4) blank_def)
  note C2 = C[THEN conjunct2, THEN conjunct2, THEN mp, OF ne, unfolded iv]
  have 9: "snd (analyzeTransaction allDown (formPage ''250''))
       = emit (Alert ''Analysis failed'')
           ((formPage ''250'')\<lparr>requests := requests (formPage ''250'')
              @ [analyzeRequest ''250'' ''transfer'' ''Pune'']\<rparr>)"
    using C2[THEN conjunct2, THEN conjunct1, THEN mp, OF allDown_simps] .
  have 10: "console (snd (analyzeTransaction allDown (formPage ''250''))) = [Alert ''Analysis failed'']"
    by code_simp
  have hd: "result_of (always oddVerdict (analyzeRequest ''250'' ''transfer'' ''Pune'')) = Inr oddVerdict
            \<and> fst (showVerdict oddVerdict
                 ((formPage ''250'')\<lparr>requests := requests (formPage ''250'')
                    @ [analyzeRequest ''250'' ''transfer'' ''Pune'']\<rparr>)) = Inl TypeError"
  proof
    show "result_of (always oddVerdict (analyzeRequest ''250'' ''transfer'' ''Pune'')) = Inr oddVerdict"
      by simp
    show "fst (showVerdict oddVerdict
                 ((formPage ''250'')\<lparr>requests := requests (formPage ''250'')
                    @ [analyzeRequest ''250'' ''transfer'' ''Pune'']\<rparr>)) = Inl TypeError"
      by code_simp
  qed
  note D2 = D[THEN conjunct2, THEN conjunct2, THEN mp, OF ne, unfolded iv]
  have 11: "snd (analyzeTransaction (always oddVerdict) (formPage ''250''))
       = emit (Alert ''Analysis failed'')
           (snd (showVerdict oddVerdict
              ((formPage ''250'')\<lparr>requests := requests (formPage ''250'')
                 @ [analyzeRequest ''250'' ''transfer'' ''Pune'']\<rparr>)))"
    using D2[THEN conjunct2, THEN conjunct2, THEN conjunct1, THEN mp, OF hd] .
  have 12: "console (snd (analyzeTransaction (always oddVerdict) (formPage ''250'')))
       = [Alert ''Analysis failed'']"
    by code_simp
  have 13: "text_of (snd (analyzeTransaction (always oddVerdict) (formPage ''250''))) ''result-probability''
       = Some [Pct 2 (JNum (9 / 10)), Lit ''%'']"
    by code_simp
  have 14: "text_of (snd (analyzeTransaction (always oddVerdict) (formPage ''250''))) ''result-risk'' = None"
    by code_simp
  have 15: "text_of (snd (analyzeTransaction (always oddVerdict) (formPage ''250'')))
        ''result-recommendation'' = None"
    by code_simp
  from 1 2 3 4 5 6 7 8 9 10 11 12 13 14 15 show ?thesis by (intro conjI)
qed
section \<open>Properties of the held widgets\<close>

lemma filter_le_one:
  assumes "\<And>i j. i < length xs \<Longrightarrow> j < length xs \<Longrightarrow> P (xs ! i) \<Longrightarrow> P (xs ! j) \<Longrightarrow> i = j"
  shows "length (filter P xs) \<le> 1"
proof -
  have "card {i. i < length xs \<and> P (xs ! i)} \<le> Suc 0"
    by (subst card_le_Suc0_iff_eq) (auto intro: assms)
  then show ?thesis by (simp add: length_filter_conv_card)
qed

lemma sole_holders_held:
  assumes "sole_holders s"
  shows "held s cv \<le> 1"
  unfolding held_def
proof (rule filter_le_one)
  fix i j
  assume i: "i < length (widgets s)" and j: "j < length (widgets s)"
    and pi: "canvas (widgets s ! i) = cv \<and> \<not> gone (widgets s ! i)"
    and pj: "canvas (widgets s ! j) = cv \<and> \<not> gone (widgets s ! j)"
  from assms i pi have "holder s cv = Some i" by (auto simp: sole_holders_def)
  moreover from assms j pj have "holder s cv = Some j" by (auto simp: sole_holders_def)
  ultimately show "i = j" by simp
qed

lemma holder_cong:
  "charts s' = charts s \<Longrightarrow> reportChart s' = reportChart s \<Longrightarrow> holder s' cv = holder s cv"
  by (simp add: holder_def split: option.splits)

lemma sole_holders_shape:
  assumes "sole_holders s" and "charts s' = charts s" and "reportChart s' = reportChart s"
      and "length (widgets s') = length (widgets s)"
      and "\<And>k. k < length (widgets s) \<Longrightarrow>
             canvas (widgets s' ! k) = canvas (widgets s ! k)
             \<and> gone (widgets s' ! k) = gone (widgets s ! k)"
  shows "sole_holders s'"
  unfolding sole_holders_def
proof (intro allI impI)
  fix k
  assume k: "k < length (widgets s')" and l: "\<not> gone (widgets s' ! k)"
  from k assms(4) have k': "k < length (widgets s)" by simp
  from assms(5)[OF k'] l have c: "canvas (widgets s' ! k) = canvas (widgets s ! k)"
    and d: "\<not> gone (widgets s ! k)" by simp_all
  from assms(1) k' d have "holder s (canvas (widgets s ! k)) = Some k"
    unfolding sole_holders_def by blast
  then show "holder s' (canvas (widgets s' ! k)) = Some k"
    unfolding c holder_cong[OF assms(2,3)] .
qed

lemma sole_holders_registry:
  assumes "registry s' = registry s"
  shows "sole_holders s' = sole_holders s"
proof -
  from assms have e: "charts s' = charts s" "reportChart s' = reportChart s" "widgets s' = widgets s"
    by (simp_all add: registry_def)
  show ?thesis
  proof
    assume "sole_holders s'"
    then show "sole_holders s" by (rule sole_holders_shape) (simp_all add: e)
  next
    assume "sole_holders s"
    then show "sole_holders s'" by (rule sole_holders_shape) (simp_all add: e)
  qed
qed

lemma keeps_sole_holders_registry:
  assumes "\<And>s. registry (snd (m s)) = registry s"
  shows "keeps sole_holders m"
  unfolding keeps_def
proof (intro allI impI)
  fix s
  assume "sole_holders s"
  with sole_holders_registry[OF assms, of s] show "sole_holders (snd (m s))" by simp
qed

lemma registry_simps [simp]:
  "registry (emit ev s) = registry s"
  "registry (if_element i f s) = registry s"
  "registry (set_innerHTML i h s) = registry s"
  "registry (snd (with_element i f s)) = registry s"
  "registry (snd (set_textContent i t s)) = registry s"
  "registry (snd (fetchAPI nt u m d s)) = registry s"
  "registry (snd (tell ev s)) = registry s"
  "registry (snd (value_of i s)) = registry s"
  "registry (s\<lparr>elems := x\<rparr>) = registry s"
  "registry (s\<lparr>requests := y\<rparr>) = registry s"
  "registry (s\<lparr>pending := z\<rparr>) = registry s"
  "registry (s\<lparr>console := c\<rparr>) = registry s"
  by (simp_all add: registry_def set_textContent_def tell_def value_of_def split: option.splits)

lemma sole_holders_loadedPage: "sole_holders (loadedPage ids)"
  by (simp add: sole_holders_def)

lemma sole_holders_emit [simp]: "sole_holders (emit ev s) = sole_holders s"
  by (rule sole_holders_registry) simp

lemma updateChart_shape:
  "charts (snd (updateChart n d s)) = charts s"
  "reportChart (snd (updateChart n d s)) = reportChart s"
  "length (widgets (snd (updateChart n d s))) = length (widgets s)"
  by (simp_all add: updateChart_def Let_def chart_update_def split: option.splits sum.splits)

lemma updateChart_nth:
  assumes "k < length (widgets s)"
  shows "canvas (widgets (snd (updateChart n d s)) ! k) = canvas (widgets s ! k)
       \<and> gone (widgets (snd (updateChart n d s)) ! k) = gone (widgets s ! k)"
  using assms
  by (simp add: updateChart_def Let_def chart_update_def modify_widget_nth gone_def
        split: option.splits sum.splits)

lemma sole_holders_updateChart:
  "sole_holders s \<Longrightarrow> sole_holders (snd (updateChart n d s))"
  by (rule sole_holders_shape[where s = s]) (simp_all add: updateChart_shape updateChart_nth)

lemma held_zero: "held s cv = 0 \<longleftrightarrow> (\<forall>w \<in> set (widgets s). canvas w = cv \<longrightarrow> gone w)"
  by (auto simp: held_def filter_empty_conv)

lemma destroy_simps [simp]:
  "elems (destroy i s) = elems s" "charts (destroy i s) = charts s"
  "reportChart (destroy i s) = reportChart s" "console (destroy i s) = console s"
  "requests (destroy i s) = requests s" "pending (destroy i s) = pending s"
  "length (widgets (destroy i s)) = length (widgets s)"
  by (simp_all add: destroy_def)

lemma destroy_nth:
  "k < length (widgets s) \<Longrightarrow>
   canvas (widgets (destroy i s) ! k) = canvas (widgets s ! k)
   \<and> gone (widgets (destroy i s) ! k) = (gone (widgets s ! k) \<or> k = i)"
  by (auto simp: destroy_def modify_widget_nth gone_def)

lemma sole_holders_destroy:
  assumes "sole_holders s"
  shows "sole_holders (destroy i s)"
  unfolding sole_holders_def
proof (intro allI impI)
  fix k
  assume k: "k < length (widgets (destroy i s))" and l: "\<not> gone (widgets (destroy i s) ! k)"
  from k have k': "k < length (widgets s)" by simp
  from destroy_nth[OF k', of i] l
  have c: "canvas (widgets (destroy i s) ! k) = canvas (widgets s ! k)"
    and d: "\<not> gone (widgets s ! k)" by simp_all
  from assms k' d have "holder s (canvas (widgets s ! k)) = Some k"
    unfolding sole_holders_def by blast
  then show "holder (destroy i s) (canvas (widgets (destroy i s) ! k)) = Some k"
    unfolding c by (simp add: holder_cong[of "destroy i s" s])
qed

lemma held_after_release:
  assumes "sole_holders s"
  shows "held (case holder s cv of None \<Rightarrow> s | Some old \<Rightarrow> destroy old s) cv = 0"
proof (cases "holder s cv")
  case None
  have "gone w" if "w \<in> set (widgets s)" "canvas w = cv" for w
  proof (rule ccontr)
    assume n: "\<not> gone w"
    from that(1) obtain k where k: "k < length (widgets s)" "widgets s ! k = w"
      by (auto simp: in_set_conv_nth)
    with assms n that(2) have "holder s cv = Some k" by (auto simp: sole_holders_def)
    with None show False by simp
  qed
  with None show ?thesis by (simp add: held_zero)
next
  case (Some old)
  have "gone w" if "w \<in> set (widgets (destroy old s))" "canvas w = cv" for w
  proof (rule ccontr)
    assume n: "\<not> gone w"
    from that(1) obtain k where k: "k < length (widgets s)" "widgets (destroy old s) ! k = w"
      by (auto simp: in_set_conv_nth)
    from destroy_nth[OF k(1), of old] k(2) n that(2)
    have "canvas (widgets s ! k) = cv" "\<not> gone (widgets s ! k)" "k \<noteq> old" by auto
    with assms k(1) have "holder s cv = Some k" by (auto simp: sole_holders_def)
    with Some \<open>k \<noteq> old\<close> show False by simp
  qed
  with Some show ?thesis by (simp add: held_zero)
qed

lemma sole_holders_rehold:
  assumes inv: "sole_holders s" and nl: "held s cv = 0"
      and w: "widgets s' = widgets s"
      and o: "\<And>cv'. cv' \<noteq> cv \<Longrightarrow> holder s' cv' = holder s cv'"
  shows "sole_holders s'"
  unfolding sole_holders_def
proof (intro allI impI)
  fix k
  assume k: "k < length (widgets s')" and l: "\<not> gone (widgets s' ! k)"
  from k w have k': "k < length (widgets s)" by simp
  from nl k' l w have ne: "canvas (widgets s ! k) \<noteq> cv"
    by (auto simp: held_zero)
  from inv k' l w have "holder s (canvas (widgets s ! k)) = Some k"
    by (auto simp: sole_holders_def)
  with o[OF ne] w show "holder s' (canvas (widgets s' ! k)) = Some k" by simp
qed

lemma sole_holders_add:
  assumes inv: "sole_holders s" and nl: "held s cv = 0"
      and w: "widgets s' = widgets s @ [x]" and c: "canvas x = cv"
      and h: "\<not> gone x \<Longrightarrow> holder s' cv = Some (length (widgets s))"
      and o: "\<And>cv'. cv' \<noteq> cv \<Longrightarrow> holder s' cv' = holder s cv'"
  shows "sole_holders s' \<and> held s' cv = (if gone x then 0 else 1)"
proof
  show "sole_holders s'"
    unfolding sole_holders_def
  proof (intro allI impI)
    fix k
    assume k: "k < length (widgets s')" and l: "\<not> gone (widgets s' ! k)"
    show "holder s' (canvas (widgets s' ! k)) = Some k"
    proof (cases "k < length (widgets s)")
      case True
      with w have e: "widgets s' ! k = widgets s ! k" by (simp add: nth_append)
      from nl True l e have ne: "canvas (widgets s ! k) \<noteq> cv"
        by (auto simp: held_zero)
      from inv True l e have "holder s (canvas (widgets s ! k)) = Some k"
        by (auto simp: sole_holders_def)
      with o[OF ne] e show ?thesis by simp
    next
      case False
      with k w have "k = length (widgets s)" by simp
      with w c h l show ?thesis by simp
    qed
  qed
  from nl have "filter (\<lambda>w. canvas w = cv \<and> \<not> gone w) (widgets s) = []"
    by (simp add: held_def)
  then show "held s' cv = (if gone x then 0 else 1)"
    by (simp add: held_def w c)
qed

lemma newChart_cases:
  "newChart cv k ls ds s =
     (if library s ls ds
      then (Inr (length (widgets s)),
            s\<lparr>widgets := widgets s @
               [\<lparr>canvas = cv, kind = k, labels = ls, datasets = ds, destroyed = False,
                 redraws = 0, failed = False\<rparr>]\<rparr>)
      else (Inl TypeError,
            s\<lparr>widgets := widgets s @
               [\<lparr>canvas = cv, kind = k, labels = ls, datasets = ds, destroyed = False,
                 redraws = 0, failed = True\<rparr>]\<rparr>))"
  by (simp add: newChart_def Let_def)

text \<open>
  A constructor that throws leaves a widget that is gone, and what is held as it was. A
  constructor that returns, on a canvas with nothing held, gives the one widget held
  there once the reference it returned is stored for the canvas.
\<close>

lemma newChart_throws_inv:
  assumes inv: "sole_holders s" and nl: "held s cv = 0"
      and n: "newChart cv k ls ds s = (Inl e, s')"
  shows "sole_holders s' \<and> held s' cv = 0"
proof -
  define x where "x = \<lparr>canvas = cv, kind = k, labels = ls, datasets = ds, destroyed = False,
                         redraws = 0, failed = True\<rparr>"
  from n have s': "s' = s\<lparr>widgets := widgets s @ [x]\<rparr>"
    by (simp add: newChart_cases x_def split: if_splits)
  have g: "gone x" by (simp add: gone_def x_def)
  have "sole_holders s' \<and> held s' cv = (if gone x then 0 else 1)"
  proof (rule sole_holders_add[OF inv nl])
    show "widgets s' = widgets s @ [x]" by (simp add: s')
    show "canvas x = cv" by (simp add: x_def)
    show "holder s' cv = Some (length (widgets s))" if "\<not> gone x" using that g by simp
    show "holder s' cv' = holder s cv'" for cv'
      by (simp add: s' holder_def split: option.splits)
  qed
  with g show ?thesis by simp
qed

lemma newChart_returns_inv:
  assumes inv: "sole_holders s" and nl: "held s cv = 0"
      and n: "newChart cv k ls ds s = (Inr c, s')"
      and w: "widgets s2 = widgets s'"
      and h: "holder s2 cv = Some c"
      and o: "\<And>cv'. cv' \<noteq> cv \<Longrightarrow> holder s2 cv' = holder s cv'"
  shows "sole_holders s2 \<and> held s2 cv = 1"
proof -
  define x where "x = \<lparr>canvas = cv, kind = k, labels = ls, datasets = ds, destroyed = False,
                         redraws = 0, failed = False\<rparr>"
  from n have s': "s' = s\<lparr>widgets := widgets s @ [x]\<rparr>" and c: "c = length (widgets s)"
    by (simp_all add: newChart_cases x_def split: if_splits)
  have g: "\<not> gone x" by (simp add: gone_def x_def)
  have "sole_holders s2 \<and> held s2 cv = (if gone x then 0 else 1)"
  proof (rule sole_holders_add[OF inv nl])
    show "widgets s2 = widgets s @ [x]" by (simp add: w s')
    show "canvas x = cv" by (simp add: x_def)
    show "holder s2 cv = Some (length (widgets s))" using h c by simp
    show "holder s2 cv' = holder s cv'" if "cv' \<noteq> cv" for cv' by (rule o[OF that])
  qed
  with g show ?thesis by simp
qed

lemma chartCanvases_inj:
  "(cv, name) \<in> set chartCanvases \<Longrightarrow>
   cv \<noteq> ''report-chart-canvas'' \<and> map_of chartCanvases cv = Some name
   \<and> (\<forall>cv'. map_of chartCanvases cv' = Some name \<longrightarrow> cv' = cv)"
  by (auto simp: chartCanvases_def split: if_splits)

lemma initChart_sole_holders:
  assumes inv: "sole_holders s" and p: "(cv, name) \<in> set chartCanvases"
  shows "sole_holders (snd (initChart name cv warning k ls ds s))
       \<and> (elems s cv \<noteq> None \<and> fst (initChart name cv warning k ls ds s) = Inr () \<longrightarrow>
            held (snd (initChart name cv warning k ls ds s)) cv = 1)"
proof (cases "elems s cv")
  case None
  with inv show ?thesis by (simp add: initChart_def tell_def)
next
  case (Some ctx)
  note cc = chartCanvases_inj[OF p]
  define s1 where "s1 = (case charts s name of None \<Rightarrow> s | Some old \<Rightarrow> destroy old s)"
  have hs: "holder s cv = charts s name"
    using cc by (simp add: holder_def)
  have inv1: "sole_holders s1"
    unfolding s1_def using inv by (simp add: sole_holders_destroy split: option.splits)
  have nl: "held s1 cv = 0"
    unfolding s1_def using held_after_release[OF inv, of cv] by (simp add: hs)
  have e: "initChart name cv warning k ls ds s
         = bind (newChart cv k ls ds)
             (\<lambda>c s2. (Inr (), s2\<lparr>charts := (charts s2)(name \<mapsto> c)\<rparr>)) s1"
    by (simp add: initChart_def Some s1_def)
  obtain r s' where n: "newChart cv k ls ds s1 = (r, s')"
    by (cases "newChart cv k ls ds s1")
  show ?thesis
  proof (cases r)
    case (Inl err)
    with n have "initChart name cv warning k ls ds s = (Inl err, s')"
      by (simp add: e bind_def)
    with newChart_throws_inv[OF inv1 nl n[unfolded Inl]] show ?thesis by simp
  next
    case (Inr c)
    with n have i: "initChart name cv warning k ls ds s
                    = (Inr (), s'\<lparr>charts := (charts s')(name \<mapsto> c)\<rparr>)"
      by (simp add: e bind_def)
    from n have cs: "charts s' = charts s1" "reportChart s' = reportChart s1"
      by (auto simp: newChart_cases split: if_splits)
    have "sole_holders (s'\<lparr>charts := (charts s')(name \<mapsto> c)\<rparr>)
        \<and> held (s'\<lparr>charts := (charts s')(name \<mapsto> c)\<rparr>) cv = 1"
    proof (rule newChart_returns_inv[OF inv1 nl n[unfolded Inr]])
      show "widgets (s'\<lparr>charts := (charts s')(name \<mapsto> c)\<rparr>) = widgets s'" by simp
      show "holder (s'\<lparr>charts := (charts s')(name \<mapsto> c)\<rparr>) cv = Some c"
        using cc by (simp add: holder_def)
      show "holder (s'\<lparr>charts := (charts s')(name \<mapsto> c)\<rparr>) cv' = holder s1 cv'"
        if "cv' \<noteq> cv" for cv'
        using cc that by (auto simp: holder_def cs split: option.splits)
    qed
    with i show ?thesis by simp
  qed
qed

lemma tripleD:
  "triple P m Q E \<Longrightarrow> P s \<Longrightarrow> m s = (Inr a, s') \<Longrightarrow> Q a s'"
  "triple P m Q E \<Longrightarrow> P s \<Longrightarrow> m s = (Inl e, s') \<Longrightarrow> E s'"
  by (auto simp: triple_def split: sum.splits)

lemma tripleI:
  assumes "\<And>s a s'. P s \<Longrightarrow> m s = (Inr a, s') \<Longrightarrow> Q a s'"
      and "\<And>s e s'. P s \<Longrightarrow> m s = (Inl e, s') \<Longrightarrow> E s'"
  shows "triple P m Q E"
  unfolding triple_def
proof (intro allI impI)
  fix s assume "P s"
  then show "case fst (m s) of Inl e \<Rightarrow> E (snd (m s)) | Inr a \<Rightarrow> Q a (snd (m s))"
    using assms[of s] by (cases "m s") (auto split: sum.splits)
qed

lemma triple_bind:
  assumes "triple P m Q E" and "\<And>a. triple (Q a) (f a) R E"
  shows "triple P (bind m f) R E"
proof (rule tripleI)
  fix s b s' assume p: "P s" and r: "bind m f s = (Inr b, s')"
  then obtain a s1 where m: "m s = (Inr a, s1)" and f: "f a s1 = (Inr b, s')"
    by (auto simp: bind_def split: prod.splits sum.splits)
  from tripleD(1)[OF assms(1) p m] tripleD(1)[OF assms(2) _ f] show "R b s'" by blast
next
  fix s e s' assume p: "P s" and r: "bind m f s = (Inl e, s')"
  then consider "m s = (Inl e, s')" | a s1 where "m s = (Inr a, s1)" "f a s1 = (Inl e, s')"
    by (auto simp: bind_def split: prod.splits sum.splits)
  then show "E s'"
  proof cases
    case 1
    from tripleD(2)[OF assms(1) p 1] show ?thesis .
  next
    case 2
    from tripleD(1)[OF assms(1) p 2(1)] tripleD(2)[OF assms(2) _ 2(2)] show ?thesis by blast
  qed
qed

lemma triple_weaken:
  assumes "triple P m Q E" and "\<And>s. P' s \<Longrightarrow> P s" and "\<And>a s. Q a s \<Longrightarrow> Q' a s"
      and "\<And>s. E s \<Longrightarrow> E' s"
  shows "triple P' m Q' E'"
  by (rule tripleI) (blast intro: assms(2-4) tripleD[OF assms(1)])+

lemma triple_keeps: "keeps P m \<Longrightarrow> triple P m (\<lambda>_. P) P"
  by (rule tripleI) (auto simp: keeps_def dest!: spec mp)

lemma keeps_triple:
  assumes "triple P m (\<lambda>_. P) P"
  shows "keeps P m"
  unfolding keeps_def
proof (intro allI impI)
  fix s assume "P s"
  with tripleD[OF assms this] show "P (snd (m s))"
    by (cases "m s"; cases "fst (m s)") auto
qed

lemma keeps_registry:
  assumes "\<And>s. registry (snd (m s)) = registry s"
  shows "keeps (\<lambda>s. Q (registry s)) m"
  by (simp add: keeps_def assms)

lemma held_registry: "registry s' = registry s \<Longrightarrow> held s' cv = held s cv"
  by (simp add: registry_def held_def)

lemma set_reportContent_registry [simp]: "registry (snd (set_reportContent h s)) = registry s"
  by (simp add: set_reportContent_def)

lemma release_report:
  assumes "sole_holders s"
  shows "sole_holders (case reportChart s of None \<Rightarrow> s | Some old \<Rightarrow> (destroy old s)\<lparr>reportChart := None\<rparr>)
       \<and> held (case reportChart s of None \<Rightarrow> s | Some old \<Rightarrow> (destroy old s)\<lparr>reportChart := None\<rparr>)
            ''report-chart-canvas'' = 0"
proof (cases "reportChart s")
  case None
  with held_after_release[OF assms, of "''report-chart-canvas''"] assms
  show ?thesis by (simp add: holder_def)
next
  case (Some old)
  have l: "held (destroy old s) ''report-chart-canvas'' = 0"
    using held_after_release[OF assms, of "''report-chart-canvas''"] Some by (simp add: holder_def)
  have "sole_holders ((destroy old s)\<lparr>reportChart := None\<rparr>)"
    by (rule sole_holders_rehold[OF sole_holders_destroy[OF assms] l])
       (simp_all add: holder_def split: option.splits)
  moreover have "held ((destroy old s)\<lparr>reportChart := None\<rparr>) ''report-chart-canvas'' = 0"
    using l by (simp add: held_def)
  ultimately show ?thesis using Some by simp
qed

lemma new_report:
  assumes "sole_holders s" and "held s ''report-chart-canvas'' = 0"
  shows "bind (newChart ''report-chart-canvas'' k ls ds)
              (\<lambda>c s. (Inr (), s\<lparr>reportChart := Some c\<rparr>)) s = (Inr a, s') \<Longrightarrow> report_one s'"
    and "bind (newChart ''report-chart-canvas'' k ls ds)
              (\<lambda>c s. (Inr (), s\<lparr>reportChart := Some c\<rparr>)) s = (Inl e, s') \<Longrightarrow> report_free s'"
proof -
  assume "bind (newChart ''report-chart-canvas'' k ls ds)
              (\<lambda>c s. (Inr (), s\<lparr>reportChart := Some c\<rparr>)) s = (Inr a, s')"
  then obtain c s1 where n: "newChart ''report-chart-canvas'' k ls ds s = (Inr c, s1)"
    and s': "s' = s1\<lparr>reportChart := Some c\<rparr>"
    by (auto simp: bind_def split: prod.splits sum.splits)
  from n have cs: "charts s1 = charts s"
    by (auto simp: newChart_cases split: if_splits)
  have "sole_holders s' \<and> held s' ''report-chart-canvas'' = 1"
    by (rule newChart_returns_inv[OF assms n])
       (simp_all add: s' holder_def cs split: option.splits)
  then show "report_one s'" by (simp add: report_one_def)
next
  assume "bind (newChart ''report-chart-canvas'' k ls ds)
              (\<lambda>c s. (Inr (), s\<lparr>reportChart := Some c\<rparr>)) s = (Inl e, s')"
  then have n: "newChart ''report-chart-canvas'' k ls ds s = (Inl e, s')"
    by (auto simp: bind_def split: prod.splits sum.splits)
  from newChart_throws_inv[OF assms n] show "report_free s'" by (simp add: report_free_def)
qed

lemma keeps_report_free:
  assumes "\<And>s. registry (snd (m s)) = registry s"
  shows "keeps report_free m"
  unfolding keeps_def report_free_def
  using sole_holders_registry[OF assms] held_registry[OF assms] by simp

lemma keeps_registry_prims:
  "keeps (\<lambda>s. registry s = x) (with_element i f)"
  "keeps (\<lambda>s. registry s = x) (set_textContent i t)"
  "keeps (\<lambda>s. registry s = x) (fetchAPI nt u m d)"
  "keeps (\<lambda>s. registry s = x) (tell ev)"
  "keeps (\<lambda>s. registry s = x) (value_of i)"
  "keeps (\<lambda>s. registry s = x) (set_reportContent h)"
  by (simp_all add: keeps_def)

lemma registry_of_keeps:
  "(\<And>x. keeps (\<lambda>s. registry s = x) m) \<Longrightarrow> registry (snd (m s)) = registry s"
  by (simp add: keeps_def)

lemma keeps_registry_labelsAndData: "keeps (\<lambda>s. registry s = x) (labelsAndData p k)"
  unfolding labelsAndData_def by (intro keeps_bind keeps_pure)

lemma keeps_registry_summaryStats: "keeps (\<lambda>s. registry s = x) (summaryStats p)"
  unfolding summaryStats_def by (intro keeps_bind keeps_pure keeps_registry_prims)

lemma keeps_case_prod2:
  "(\<And>a b. keeps P (f a b)) \<Longrightarrow> keeps P (case x of (a, b) \<Rightarrow> f a b)"
  by (cases x) simp

lemma keeps_case_prod3:
  "(\<And>a b c. keeps P (f a b c)) \<Longrightarrow> keeps P (case x of (a, b, c) \<Rightarrow> f a b c)"
  by (cases x) simp

lemma keeps_registry_reportConfig: "keeps (\<lambda>s. registry s = x) (reportConfig t p)"
proof -
  have h: "keeps (\<lambda>s. registry s = x)
             (case hd of JArr hs \<Rightarrow>
                bind (lift (mapE hourlyPoint hs)) (\<lambda>pts.
                ret (''line'', Hours (map fst pts), [Raw (JArr (map snd pts))]))
              | _ \<Rightarrow> throw TypeError)" for hd
    by (cases hd) (simp_all add: keeps_bind)
  show ?thesis
    unfolding reportConfig_def
    by (simp add: keeps_bind keeps_case_prod2 keeps_registry_labelsAndData
          keeps_registry_summaryStats h)
qed

lemma reportConfig_registry [simp]: "registry (snd (reportConfig t p s)) = registry s"
  by (rule registry_of_keeps) (rule keeps_registry_reportConfig)

lemma triple_registry:
  assumes "\<And>s. registry (snd (m s)) = registry s"
  shows "triple report_free m (\<lambda>_. report_free) report_free"
  by (rule triple_keeps) (rule keeps_report_free[OF assms])

lemma renderReport_triple:
  "triple sole_holders (renderReport t p) (\<lambda>_. report_one) sole_holders"
  unfolding renderReport_def
proof (rule triple_bind[where Q = "\<lambda>_. sole_holders"])
  show "triple sole_holders (set_reportContent reportLayout) (\<lambda>_. sole_holders) sole_holders"
    by (rule triple_keeps) (rule keeps_sole_holders_registry, simp)
next
  fix a :: unit
  show "triple sole_holders
          (bind (\<lambda>s. (Inr (), s\<lparr>elems := (elems s)(''report-chart-canvas'' \<mapsto> blank,
                                                  ''report-stats-container'' \<mapsto> blank)\<rparr>)) (\<lambda>_.
           bind (\<lambda>s. (Inr (), case reportChart s of
                            None \<Rightarrow> s
                          | Some old \<Rightarrow> (destroy old s)\<lparr>reportChart := None\<rparr>)) (\<lambda>_.
           bind (reportConfig t p) (\<lambda>(k, ls, ds).
           bind (newChart ''report-chart-canvas'' k ls ds) (\<lambda>c s. (Inr (), s\<lparr>reportChart := Some c\<rparr>))))))
          (\<lambda>_. report_one) sole_holders"
  proof (rule triple_bind[where Q = "\<lambda>_. sole_holders"])
    show "triple sole_holders
            (\<lambda>s. (Inr (), s\<lparr>elems := (elems s)(''report-chart-canvas'' \<mapsto> blank,
                                                  ''report-stats-container'' \<mapsto> blank)\<rparr>))
            (\<lambda>_. sole_holders) sole_holders"
      by (rule triple_keeps) (rule keeps_sole_holders_registry, simp)
  next
    fix b :: unit
    show "triple sole_holders
            (bind (\<lambda>s. (Inr (), case reportChart s of
                            None \<Rightarrow> s
                          | Some old \<Rightarrow> (destroy old s)\<lparr>reportChart := None\<rparr>)) (\<lambda>_.
             bind (reportConfig t p) (\<lambda>(k, ls, ds).
             bind (newChart ''report-chart-canvas'' k ls ds) (\<lambda>c s. (Inr (), s\<lparr>reportChart := Some c\<rparr>)))))
            (\<lambda>_. report_one) sole_holders"
    proof (rule triple_bind[where Q = "\<lambda>_. report_free"])
      show "triple sole_holders
              (\<lambda>s. (Inr (), case reportChart s of
                            None \<Rightarrow> s
                          | Some old \<Rightarrow> (destroy old s)\<lparr>reportChart := None\<rparr>))
              (\<lambda>_. report_free) sole_holders"
        by (rule tripleI) (auto simp: report_free_def dest: release_report)
    next
      fix c :: unit
      show "triple report_free
              (bind (reportConfig t p) (\<lambda>(k, ls, ds).
               bind (newChart ''report-chart-canvas'' k ls ds) (\<lambda>c s. (Inr (), s\<lparr>reportChart := Some c\<rparr>))))
              (\<lambda>_. report_one) sole_holders"
      proof (rule triple_bind[where Q = "\<lambda>_. report_free"])
        show "triple report_free (reportConfig t p) (\<lambda>_. report_free) sole_holders"
          by (rule triple_weaken[OF triple_registry[of "reportConfig t p"]])
             (simp_all add: report_free_def)
      next
        fix cfg :: "string \<times> chartdata \<times> chartdata list"
        show "triple report_free
                (case cfg of (k, ls, ds) \<Rightarrow>
                   bind (newChart ''report-chart-canvas'' k ls ds) (\<lambda>c s. (Inr (), s\<lparr>reportChart := Some c\<rparr>)))
                (\<lambda>_. report_one) sole_holders"
        proof (rule tripleI)
          fix s a s'
          assume f: "report_free s"
            and r: "(case cfg of (k, ls, ds) \<Rightarrow>
                   bind (newChart ''report-chart-canvas'' k ls ds)
                     (\<lambda>c s. (Inr (), s\<lparr>reportChart := Some c\<rparr>))) s = (Inr a, s')"
          obtain k ls ds where cfg: "cfg = (k, ls, ds)" by (cases cfg) auto
          from f have i: "sole_holders s" and z: "held s ''report-chart-canvas'' = 0"
            by (simp_all add: report_free_def)
          from r show "report_one s'"
            unfolding cfg by (simp only: prod.case) (rule new_report(1)[OF i z])
        next
          fix s e s'
          assume f: "report_free s"
            and r: "(case cfg of (k, ls, ds) \<Rightarrow>
                   bind (newChart ''report-chart-canvas'' k ls ds)
                     (\<lambda>c s. (Inr (), s\<lparr>reportChart := Some c\<rparr>))) s = (Inl e, s')"
          obtain k ls ds where cfg: "cfg = (k, ls, ds)" by (cases cfg) auto
          from f have i: "sole_holders s" and z: "held s ''report-chart-canvas'' = 0"
            by (simp_all add: report_free_def)
          from r have "report_free s'"
            unfolding cfg by (simp only: prod.case) (rule new_report(2)[OF i z])
          then show "sole_holders s'" by (simp add: report_free_def)
        qed
      qed
    qed
  qed
qed

lemma renderReport_sole_holders: "keeps sole_holders (renderReport t p)"
  by (rule keeps_triple, rule triple_weaken[OF renderReport_triple]) (simp_all add: report_one_def)

lemma closeReport_triple:
  "triple sole_holders closeReport (\<lambda>_. report_free) sole_holders"
  unfolding closeReport_def
proof (rule triple_bind[where Q = "\<lambda>_. sole_holders"])
  show "triple sole_holders (with_element ''report-result'' (classList_remove ''active''))
          (\<lambda>_. sole_holders) sole_holders"
    by (rule triple_keeps) (rule keeps_sole_holders_registry, simp)
next
  fix a :: unit
  show "triple sole_holders
          (\<lambda>s. (Inr (), case reportChart s of
                      None \<Rightarrow> s
                    | Some old \<Rightarrow> (destroy old s)\<lparr>reportChart := None\<rparr>))
          (\<lambda>_. report_free) sole_holders"
    by (rule tripleI) (auto simp: report_free_def dest: release_report)
qed

lemma closeReport_sole_holders: "keeps sole_holders closeReport"
  by (rule keeps_triple, rule triple_weaken[OF closeReport_triple]) (simp_all add: report_free_def)

lemma generateReport_sole_holders: "keeps sole_holders (generateReport nt t)"
  unfolding generateReport_def
  by (intro keeps_bind keeps_catch renderReport_sole_holders keeps_sole_holders_registry) simp_all

lemma keeps_sole_holders_prims:
  "keeps sole_holders (with_element i f)"
  "keeps sole_holders (set_textContent i t)"
  "keeps sole_holders (fetchAPI nt u m d)"
  "keeps sole_holders (tell ev)"
  "keeps sole_holders (value_of i)"
  by (rule keeps_sole_holders_registry, simp)+

lemma keeps_sole_holders_updateChart: "keeps sole_holders (updateChart n d)"
  by (simp add: keeps_def sole_holders_updateChart)

lemma fetchCharts_registry [simp]: "registry (snd (fetchCharts nt s)) = registry s"
  by (simp add: fetchCharts_eq)

lemma keeps_sole_holders_loadChartData: "keeps sole_holders (loadChartData nt)"
  unfolding loadChartData_def applyCharts_def
  by (intro keeps_catch keeps_bind keeps_case_prod4 keeps_sole_holders_updateChart
        keeps_sole_holders_prims keeps_sole_holders_registry) simp

lemma keeps_sole_holders_loadDashboardData: "keeps sole_holders (loadDashboardData nt)"
  unfolding loadDashboardData_def dashboardTry_def
  by (intro keeps_catch keeps_bind keeps_pure keeps_sole_holders_prims
        keeps_sole_holders_loadChartData)

lemma updateRecentTransactions_registry [simp]:
  "registry (snd (updateRecentTransactions x s)) = registry s"
  by (simp add: updateRecentTransactions_def split: option.splits jsval.splits sum.splits)

lemma renderAllTransactions_registry [simp]:
  "registry (snd (renderAllTransactions x s)) = registry s"
  by (simp add: renderAllTransactions_def split: option.splits jsval.splits sum.splits)

lemma keeps_sole_holders_loadTransactions: "keeps sole_holders (loadTransactions nt)"
  unfolding loadTransactions_def transactionsTry_def
  by (intro keeps_catch keeps_bind keeps_pure keeps_sole_holders_prims
        keeps_sole_holders_registry) simp_all

lemma loadAlerts_registry [simp]: "registry (snd (loadAlerts nt s)) = registry s"
  by (simp add: loadAlerts_def Let_def registry_def fetchAPI_def split: option.splits)

lemma alertsThen_registry [simp]: "registry (snd (alertsThen d s)) = registry s"
  by (simp add: alertsThen_def Let_def split: option.splits jsval.splits sum.splits)

lemma keeps_sole_holders_alertsSettled: "keeps sole_holders (alertsSettled r)"
  unfolding alertsSettled_def
  by (intro keeps_catch keeps_bind keeps_pure keeps_sole_holders_registry) simp_all

lemma keeps_sole_holders_refreshAllData: "keeps sole_holders (refreshAllData nt)"
  unfolding refreshAllData_def
  by (intro keeps_bind keeps_sole_holders_prims keeps_sole_holders_loadDashboardData
        keeps_sole_holders_loadTransactions keeps_sole_holders_registry) simp

lemma updateTitle_registry [simp]: "registry (snd (updateTitle r s)) = registry s"
  by (simp add: updateTitle_cases split: sum.splits)

lemma resetAnalysis_registry [simp]: "registry (snd (resetAnalysis s)) = registry s"
  by (simp add: resetAnalysis_def)

lemma keeps_sole_holders_handleRefresh: "keeps sole_holders (handleRefresh nt)"
proof -
  have k: "keeps sole_holders
             (catch
                (bind (fetchAPI nt ''/api/refresh'' ''POST'' None) (\<lambda>response.
                 bind (refreshAllData nt) (\<lambda>_.
                 bind (updateTitle response) (\<lambda>_.
                 resetAnalysis))))
                (\<lambda>e. tell (ConsoleError ''Refresh failed:'' e)))"
    by (intro keeps_catch keeps_bind keeps_sole_holders_prims keeps_sole_holders_refreshAllData
          keeps_sole_holders_registry) simp_all
  show ?thesis
    unfolding keeps_def
  proof (intro allI impI)
    fix s assume inv: "sole_holders s"
    have w: "sole_holders (snd (with_element refreshIcon (classList_add ''fa-spin'') s))"
      using keeps_sole_holders_prims(1) inv by (simp add: keeps_def)
    show "sole_holders (snd (handleRefresh nt s))"
    proof (cases "elems s ''refresh-btn''")
      case None
      with inv show ?thesis by (simp add: handleRefresh_def)
    next
      case (Some btn)
      obtain r0 s0 where e0: "with_element refreshIcon (classList_add ''fa-spin'') s = (r0, s0)"
        by (cases "with_element refreshIcon (classList_add ''fa-spin'') s")
      with w have i0: "sole_holders s0" by simp
      show ?thesis
      proof (cases r0)
        case (Inl e)
        with Some e0 i0 show ?thesis by (simp add: handleRefresh_def)
      next
        case (Inr u)
        obtain r1 s1 where e1: "catch
                (bind (fetchAPI nt ''/api/refresh'' ''POST'' None) (\<lambda>response.
                 bind (refreshAllData nt) (\<lambda>_.
                 bind (updateTitle response) (\<lambda>_.
                 resetAnalysis))))
                (\<lambda>e. tell (ConsoleError ''Refresh failed:'' e)) s0 = (r1, s1)"
          by (cases "catch
                (bind (fetchAPI nt ''/api/refresh'' ''POST'' None) (\<lambda>response.
                 bind (refreshAllData nt) (\<lambda>_.
                 bind (updateTitle response) (\<lambda>_.
                 resetAnalysis))))
                (\<lambda>e. tell (ConsoleError ''Refresh failed:'' e)) s0")
        from k i0 e1 have "sole_holders s1"
          by (auto simp: keeps_def dest!: spec mp)
        then have "sole_holders (s1\<lparr>pending := pending s1 @ [SpinStop]\<rparr>)"
          using sole_holders_registry[of "s1\<lparr>pending := pending s1 @ [SpinStop]\<rparr>" s1] by simp
        with Some e0 Inr e1 show ?thesis
          by (simp add: handleRefresh_def Let_def)
      qed
    qed
  qed
qed

lemma keeps_sole_holders_analyzeTransaction: "keeps sole_holders (analyzeTransaction nt)"
  unfolding analyzeTransaction_def showVerdict_def
  by (auto intro!: keeps_bind keeps_catch keeps_sole_holders_prims keeps_pure)

lemma sole_holders_run_task: "sole_holders s \<Longrightarrow> sole_holders (run_task t s)"
  using keeps_sole_holders_alertsSettled sole_holders_registry[of "if_element _ _ s" s]
  by (cases t) (simp_all add: run_task_def keeps_def)

lemma sole_holders_fold_run_task: "sole_holders s \<Longrightarrow> sole_holders (fold run_task ts s)"
  by (induction ts arbitrary: s) (simp_all add: sole_holders_run_task)

lemma sole_holders_settle: "sole_holders s \<Longrightarrow> sole_holders (settle s)"
  unfolding settle_def
  by (rule sole_holders_fold_run_task) (simp add: sole_holders_registry[of "s\<lparr>pending := []\<rparr>" s])

lemma chartCanvases_mem:
  "(''fraud-distribution-chart'', ''fraudDistribution'') \<in> set chartCanvases"
  "(''amount-distribution-chart'', ''amountDistribution'') \<in> set chartCanvases"
  "(''transaction-type-chart'', ''transactionType'') \<in> set chartCanvases"
  "(''location-risk-chart'', ''locationRisk'') \<in> set chartCanvases"
  by (simp_all add: chartCanvases_def)

lemma sole_holders_inits:
  "keeps sole_holders initFraudDistributionChart"
  "keeps sole_holders initAmountDistributionChart"
  "keeps sole_holders initTransactionTypeChart"
  "keeps sole_holders initLocationRiskChart"
  unfolding initFraudDistributionChart_def initAmountDistributionChart_def
    initTransactionTypeChart_def initLocationRiskChart_def keeps_def
  using initChart_sole_holders chartCanvases_mem by blast+

lemma sole_holders_initializeCharts: "keeps sole_holders initializeCharts"
  unfolding initializeCharts_def
  by (intro keeps_bind keeps_sole_holders_prims sole_holders_inits)

lemma sole_holders_perform: "sole_holders s \<Longrightarrow> sole_holders (perform a s)"
proof (cases a)
  case (Document d)
  assume "sole_holders s"
  then show ?thesis using sole_holders_registry[of "s\<lparr>elems := d\<rparr>" s] by (simp add: Document)
qed (use keeps_sole_holders_updateChart keeps_sole_holders_refreshAllData
       keeps_sole_holders_handleRefresh keeps_sole_holders_loadTransactions
       keeps_sole_holders_analyzeTransaction generateReport_sole_holders
       renderReport_sole_holders closeReport_sole_holders
       keeps_sole_holders_registry[of "loadAlerts _", OF loadAlerts_registry]
       sole_holders_inits sole_holders_initializeCharts
     in \<open>simp_all add: keeps_def sole_holders_settle\<close>)

lemma sole_holders_reachable: "sole_holders (fold perform acts (loadedPage ids))"
proof -
  have "sole_holders s \<Longrightarrow> sole_holders (fold perform acts s)" for s
    by (induction acts arbitrary: s) (simp_all add: sole_holders_perform)
  then show ?thesis by (simp add: sole_holders_loadedPage)
qed

lemma reached_Nil [simp]: "reached [] ids = loadedPage ids"
  by (simp add: reached_def)

lemma reached_snoc [simp]: "reached (acts @ [a]) ids = perform a (reached acts ids)"
  by (simp add: reached_def)

lemma sole_holders_reached: "sole_holders (reached acts ids)"
  unfolding reached_def by (rule sole_holders_reachable)

text \<open>
  What holds of the claim on the widgets. In every state the page can reach from the
  loaded page, by any sequence of calls of the program's functions with any answers of
  the backend, runs of the registered callbacks and changes of the document from
  outside, at most one widget that is not gone is on any canvas. Each chart
  initialisation and each report rendering first leaves no such widget on its canvas
  and then constructs one: after a chart initialisation that finds its canvas, and
  after a report rendering, when they return, exactly one is there; after closing the
  report none is. As long as no constructor has thrown, this is the number of widgets
  that have not been destroyed.
\<close>

lemma live_held: "\<forall>w \<in> set (widgets s). \<not> failed w \<Longrightarrow> live s cv = held s cv"
proof -
  assume "\<forall>w \<in> set (widgets s). \<not> failed w"
  then have "filter (\<lambda>w. canvas w = cv \<and> \<not> destroyed w) (widgets s)
           = filter (\<lambda>w. canvas w = cv \<and> \<not> gone w) (widgets s)"
    by (intro filter_cong) (simp_all add: gone_def)
  then show ?thesis by (simp add: live_def held_def)
qed

lemma one_held_widget_per_canvas:
  "held (reached acts ids) cv \<le> 1
   \<and> ((\<forall>w \<in> set (widgets (reached acts ids)). \<not> failed w) \<longrightarrow> live (reached acts ids) cv \<le> 1)
   \<and> ((cv, name) \<in> set chartCanvases \<longrightarrow>
        held (case charts (reached acts ids) name of
                None \<Rightarrow> reached acts ids
              | Some old \<Rightarrow> destroy old (reached acts ids)) cv = 0
        \<and> (elems (reached acts ids) cv \<noteq> None
             \<and> fst (initChart name cv warning k ls ds (reached acts ids)) = Inr () \<longrightarrow>
             held (snd (initChart name cv warning k ls ds (reached acts ids))) cv = 1))
   \<and> held (case reportChart (reached acts ids) of
             None \<Rightarrow> reached acts ids
           | Some old \<Rightarrow> (destroy old (reached acts ids))\<lparr>reportChart := None\<rparr>)
        ''report-chart-canvas'' = 0
   \<and> (fst (renderReport t p (reached acts ids)) = Inr () \<longrightarrow>
        held (snd (renderReport t p (reached acts ids))) ''report-chart-canvas'' = 1)
   \<and> (fst (closeReport (reached acts ids)) = Inr () \<longrightarrow>
        held (snd (closeReport (reached acts ids))) ''report-chart-canvas'' = 0)"
proof -
  note inv = sole_holders_reached[of acts ids]
  have 1: "held (reached acts ids) cv \<le> 1"
    by (rule sole_holders_held[OF inv])
  have L: "live (reached acts ids) cv \<le> 1"
    if "\<forall>w \<in> set (widgets (reached acts ids)). \<not> failed w"
    using 1 live_held[OF that, of cv] by simp
  have 2: "held (case charts (reached acts ids) name of
                None \<Rightarrow> reached acts ids
              | Some old \<Rightarrow> destroy old (reached acts ids)) cv = 0
        \<and> (elems (reached acts ids) cv \<noteq> None
             \<and> fst (initChart name cv warning k ls ds (reached acts ids)) = Inr () \<longrightarrow>
             held (snd (initChart name cv warning k ls ds (reached acts ids))) cv = 1)"
    if p: "(cv, name) \<in> set chartCanvases"
  proof -
    have "holder (reached acts ids) cv = charts (reached acts ids) name"
      using chartCanvases_inj[OF p] by (simp add: holder_def)
    with held_after_release[OF inv, of cv] initChart_sole_holders[OF inv p]
    show ?thesis by simp
  qed
  have 3: "held (case reportChart (reached acts ids) of
             None \<Rightarrow> reached acts ids
           | Some old \<Rightarrow> (destroy old (reached acts ids))\<lparr>reportChart := None\<rparr>)
        ''report-chart-canvas'' = 0"
    using release_report[OF inv] by simp
  have 4: "held (snd (renderReport t p (reached acts ids))) ''report-chart-canvas'' = 1"
    if "fst (renderReport t p (reached acts ids)) = Inr ()"
    using tripleD(1)[OF renderReport_triple inv, of t p "()" "snd (renderReport t p (reached acts ids))"] that
    by (cases "renderReport t p (reached acts ids)") (simp add: report_one_def)
  have 5: "held (snd (closeReport (reached acts ids))) ''report-chart-canvas'' = 0"
    if "fst (closeReport (reached acts ids)) = Inr ()"
    using tripleD(1)[OF closeReport_triple inv, of "()" "snd (closeReport (reached acts ids))"] that
    by (cases "closeReport (reached acts ids)") (simp add: report_free_def)
  from 1 L 2 3 4 5 show ?thesis by blast
qed

lemma twoReports_widgets:
  "widgets (reached twoReports reportIds) =
     [\<lparr>canvas = ''report-chart-canvas'', kind = ''doughnut'',
       labels = Raw (JArr [JStr ''low'', JStr ''high'']),
       datasets = [Raw (JArr [JNum 3, JNum 4])], destroyed = True, redraws = 0, failed = False\<rparr>,
      \<lparr>canvas = ''report-chart-canvas'', kind = ''bar'',
       labels = Raw (JArr [JStr ''low'', JStr ''high'']),
       datasets = [Raw (JArr [JNum 3, JNum 4])], destroyed = False, redraws = 0, failed = False\<rparr>]"
  by code_simp

text \<open>
  With both reports answered with arrays, the first widget is destroyed when the second
  report is rendered, and one widget is live.
\<close>

lemma two_reports_one_widget:
  "live (reached twoReports reportIds) ''report-chart-canvas'' = 1
   \<and> map destroyed (widgets (reached twoReports reportIds)) = [True, False]
   \<and> live (snd (closeReport (reached twoReports reportIds))) ''report-chart-canvas'' = 0"
  by (intro conjI; code_simp)

text \<open>
  C5 fails where the constructor of a chart throws. The geographic report is answered
  with labels and data that are numbers: the constructor registers the widget and
  throws, \<open>reportChart\<close> stays \<open>null\<close>, and the report shows the error. The summary
  report that follows finds no chart to destroy and constructs its own: two widgets on
  the canvas of the report, neither of them destroyed, and closing the report destroys
  only the second.
\<close>

theorem report_widget_leaks:
  \<open>result_of (leaky (post_request ''/api/report/geographic''))
     = Inr (JObj [(''location_risk'', JObj [(''labels'', JNum 1), (''data'', JNum 1)])])
   \<and> fst (generateReport leaky ''geographic'' (loadedPage reportIds)) = Inr ()
   \<and> map canvas (widgets (reached [GenerateReport leaky ''geographic''] reportIds))
       = [''report-chart-canvas'']
   \<and> map destroyed (widgets (reached [GenerateReport leaky ''geographic''] reportIds)) = [False]
   \<and> reportChart (reached [GenerateReport leaky ''geographic''] reportIds) = None
   \<and> html_of (reached [GenerateReport leaky ''geographic''] reportIds) ''report-content''
       = Some [Lit ''<div class="report-error">Error: '', Msg TypeError, Lit ''</div>'']
   \<and> fst (generateReport leaky ''summary'' (reached [GenerateReport leaky ''geographic''] reportIds))
       = Inr ()
   \<and> map canvas (widgets (reached leakyReports reportIds))
       = [''report-chart-canvas'', ''report-chart-canvas'']
   \<and> map kind (widgets (reached leakyReports reportIds)) = [''bar'', ''doughnut'']
   \<and> map destroyed (widgets (reached leakyReports reportIds)) = [False, False]
   \<and> reportChart (reached leakyReports reportIds) = Some 1
   \<and> live (reached leakyReports reportIds) ''report-chart-canvas'' = 2
   \<and> map destroyed (widgets (snd (closeReport (reached leakyReports reportIds)))) = [False, True]
   \<and> live (snd (closeReport (reached leakyReports reportIds))) ''report-chart-canvas'' = 1\<close>
  by (intro conjI; code_simp)

end
